theory Spec2Isabelle
  imports Complex_Main "HOL-Library.AList"
begin

section \<open>Python strings\<close>

text \<open>
  A Python \<open>str\<close> is a sequence of Unicode code points; a code point is modelled as a
  natural number and a string as a list of them, so that \<open>length\<close> is Python's \<open>len\<close>.
  \<open>ascii\<close> embeds a literal written with Basic Latin characters.
\<close>

type_synonym uchar = nat
type_synonym ustr = "nat list"

definition ascii :: "string \<Rightarrow> ustr" where
  "ascii s = map of_char s"

text \<open>The characters \<open>str.isspace\<close> accepts (Unicode 14, the table of CPython 3.11); they are
  the characters \<open>str.strip()\<close> removes and the regular expression class \<open>\s\<close> matches.\<close>

definition py_isspace :: "uchar \<Rightarrow> bool" where
  "py_isspace c \<longleftrightarrow>
     (9 \<le> c \<and> c \<le> 13) \<or> (28 \<le> c \<and> c \<le> 32) \<or> c = 133 \<or> c = 160 \<or> c = 5760 \<or>
     (8192 \<le> c \<and> c \<le> 8202) \<or> c = 8232 \<or> c = 8233 \<or> c = 8239 \<or> c = 8287 \<or> c = 12288"

definition lstrip :: "ustr \<Rightarrow> ustr" where
  "lstrip s = dropWhile py_isspace s"

definition rstrip :: "ustr \<Rightarrow> ustr" where
  "rstrip s = rev (dropWhile py_isspace (rev s))"

definition strip :: "ustr \<Rightarrow> ustr" where
  "strip s = rstrip (lstrip s)"

text \<open>\<open>float\<close> and \<open>int\<close> ignore surrounding whitespace too, but not the four separators
  U+001C to U+001F, which \<open>str.strip()\<close> removes.\<close>

definition num_isspace :: "uchar \<Rightarrow> bool" where
  "num_isspace c \<longleftrightarrow> py_isspace c \<and> \<not> (28 \<le> c \<and> c \<le> 31)"

definition num_strip :: "ustr \<Rightarrow> ustr" where
  "num_strip s = rev (dropWhile num_isspace (rev (dropWhile num_isspace s)))"

text \<open>\<open>s.replace(c, r)\<close> for a one-character needle \<open>c\<close>.\<close>

definition replace1 :: "uchar \<Rightarrow> ustr \<Rightarrow> ustr \<Rightarrow> ustr" where
  "replace1 c r s = concat (map (\<lambda>x. if x = c then r else [x]) s)"

text \<open>The first code points of the runs of ten decimal digits of the Unicode category Nd
  (Unicode 14); \<open>\d\<close> and \<open>float\<close> accept exactly these characters as digits.\<close>

definition nd_starts :: "nat list" where
  "nd_starts = [48, 1632, 1776, 1984, 2406, 2534, 2662, 2790, 2918, 3046, 3174, 3302, 3430,
     3558, 3664, 3792, 3872, 4160, 4240, 6112, 6160, 6470, 6608, 6784, 6800, 6992, 7088, 7232,
     7248, 42528, 43216, 43264, 43472, 43504, 43600, 44016, 65296, 66720, 68912, 69734, 69872,
     69942, 70096, 70384, 70736, 70864, 71248, 71360, 71472, 71904, 72016, 72784, 73040, 73120,
     92768, 92864, 93008, 120782, 120792, 120802, 120812, 120822, 123200, 123632, 125264,
     130032]"

definition decimal_value :: "uchar \<Rightarrow> nat option" where
  "decimal_value c =
     (case filter (\<lambda>s. s \<le> c \<and> c < s + 10) nd_starts of
        [] \<Rightarrow> None
      | s # _ \<Rightarrow> Some (c - s))"

definition is_decimal :: "uchar \<Rightarrow> bool" where
  "is_decimal c \<longleftrightarrow> decimal_value c \<noteq> None"

section \<open>Errors and floating-point values\<close>

datatype py_error = ValueError | OtherError

text \<open>
  A Python \<open>float\<close>. A finite value is represented by the exact rational value of the decimal
  literal it was parsed from; the rounding of that value to a binary double is not modelled,
  except that a literal too large for a double gives an infinity: the largest double is
  \<open>2 ^ 1024 - 2 ^ 971\<close>, and a value of magnitude \<open>2 ^ 1024 - 2 ^ 970\<close> or more rounds to infinity.
\<close>

datatype pyfloat = Fin rat | PInf | NInf | NaN

subsection \<open>The built-in \<open>float(str)\<close>\<close>

text \<open>
  The grammar of the Python language reference: optional sign, then \<open>inf\<close>, \<open>infinity\<close>,
  \<open>nan\<close> (any case) or a decimal number with an optional fraction and exponent, where single
  underscores may separate digits; surrounding whitespace (see \<open>num_strip\<close>) is ignored. A
  string outside the grammar raises \<open>ValueError\<close>.
\<close>

fun digits_more :: "ustr \<Rightarrow> nat list \<times> ustr" where
  "digits_more [] = ([], [])"
| "digits_more (c # cs) =
     (case decimal_value c of
        Some d \<Rightarrow> (case digits_more cs of (ds, r) \<Rightarrow> (d # ds, r))
      | None \<Rightarrow>
          (if c = 95 \<and> (case cs of [] \<Rightarrow> False | d # _ \<Rightarrow> is_decimal d)
           then digits_more cs else ([], c # cs)))"

definition digitpart :: "ustr \<Rightarrow> (nat list \<times> ustr) option" where
  "digitpart s =
     (case s of
        [] \<Rightarrow> None
      | c # cs \<Rightarrow>
          (case decimal_value c of
             None \<Rightarrow> None
           | Some d \<Rightarrow> (case digits_more cs of (ds, r) \<Rightarrow> Some (d # ds, r))))"

definition nat_of_digits :: "nat list \<Rightarrow> nat" where
  "nat_of_digits ds = foldl (\<lambda>a d. 10 * a + d) 0 ds"

text \<open>\<open>number ::= [digitpart] "." digitpart | digitpart ["."]\<close>: integer digits, fraction
  digits and the rest of the input.\<close>

definition parse_number :: "ustr \<Rightarrow> (nat list \<times> nat list \<times> ustr) option" where
  "parse_number s =
     (case digitpart s of
        Some (ip, r) \<Rightarrow>
          (case r of
             [] \<Rightarrow> Some (ip, [], r)
           | c # r' \<Rightarrow>
               (if c = 46 then
                  (case digitpart r' of
                     Some (fp, r'') \<Rightarrow> Some (ip, fp, r'')
                   | None \<Rightarrow> Some (ip, [], r'))
                else Some (ip, [], r)))
      | None \<Rightarrow>
          (case s of
             [] \<Rightarrow> None
           | c # r' \<Rightarrow>
               (if c = 46 then
                  (case digitpart r' of
                     Some (fp, r'') \<Rightarrow> Some ([], fp, r'')
                   | None \<Rightarrow> None)
                else None)))"

text \<open>\<open>exponent ::= ("e" | "E") [sign] digitpart\<close>; the exponent must end the string.\<close>

definition parse_exponent :: "ustr \<Rightarrow> int option" where
  "parse_exponent s =
     (case s of
        [] \<Rightarrow> Some 0
      | c # r \<Rightarrow>
          (if c = 101 \<or> c = 69 then
             (let (neg, r') = (case r of
                                 [] \<Rightarrow> (False, r)
                               | x # xs \<Rightarrow> if x = 45 then (True, xs)
                                           else if x = 43 then (False, xs) else (False, r))
              in case digitpart r' of
                   Some (ds, []) \<Rightarrow>
                     Some (if neg then - int (nat_of_digits ds) else int (nat_of_digits ds))
                 | _ \<Rightarrow> None)
           else None))"

definition ascii_lower :: "uchar \<Rightarrow> uchar" where
  "ascii_lower c = (if 65 \<le> c \<and> c \<le> 90 then c + 32 else c)"

definition decimal_rat :: "nat list \<Rightarrow> nat list \<Rightarrow> int \<Rightarrow> rat" where
  "decimal_rat ip fp e =
     (let m = of_nat (nat_of_digits (ip @ fp)) :: rat; k = e - int (length fp)
      in if 0 \<le> k then m * 10 ^ nat k else m / 10 ^ nat (- k))"

definition round_float :: "rat \<Rightarrow> pyfloat" where
  "round_float q =
     (if 2 ^ 1024 - 2 ^ 970 \<le> q then PInf
      else if q \<le> - (2 ^ 1024 - 2 ^ 970) then NInf
      else Fin q)"

definition py_float :: "ustr \<Rightarrow> py_error + pyfloat" where
  "py_float s =
     (let t = num_strip s;
          (neg, body) = (case t of
                           [] \<Rightarrow> (False, t)
                         | x # xs \<Rightarrow> if x = 45 then (True, xs)
                                     else if x = 43 then (False, xs) else (False, t));
          low = map ascii_lower body
      in if low = ascii ''inf'' \<or> low = ascii ''infinity'' then Inr (if neg then NInf else PInf)
         else if low = ascii ''nan'' then Inr NaN
         else (case parse_number body of
                 None \<Rightarrow> Inl ValueError
               | Some (ip, fp, r) \<Rightarrow>
                   (case parse_exponent r of
                      None \<Rightarrow> Inl ValueError
                    | Some e \<Rightarrow>
                        Inr (round_float
                               (if neg then - decimal_rat ip fp e else decimal_rat ip fp e)))))"

section \<open>Numeric normalisation\<close>

text \<open>
  \<^verbatim>\<open>
  def _clean_number(self, value: str) -> float:
      if not value:
          return 0.0
      value_str = str(value).replace(' ', '').replace('"', '').replace(',', '.')
      try:
          return float(value_str)
      except ValueError:
          return 0.0
  \<close>
  The result is a sum: \<open>Inl\<close> would be an exception leaving the function. Only \<open>ValueError\<close>
  is caught, as in the source.
\<close>

definition normalise_number :: "ustr \<Rightarrow> ustr" where
  "normalise_number v = replace1 44 [46] (replace1 34 [] (replace1 32 [] v))"

definition clean_number_with :: "(ustr \<Rightarrow> py_error + pyfloat) \<Rightarrow> ustr \<Rightarrow> py_error + pyfloat" where
  "clean_number_with fl v =
     (if v = [] then Inr (Fin 0)
      else (case fl (normalise_number v) of
              Inr x \<Rightarrow> Inr x
            | Inl ValueError \<Rightarrow> Inr (Fin 0)
            | Inl e \<Rightarrow> Inl e))"

definition clean_number :: "ustr \<Rightarrow> py_error + pyfloat" where
  "clean_number v = clean_number_with py_float v"


subsection \<open>\<open>str.isdigit\<close> and \<open>int(str)\<close>\<close>

text \<open>\<open>str.isdigit\<close> accepts the decimal digits and, in addition, the characters of numeric
  type Digit (superscripts, circled digits, ...), given here as ranges; \<open>int\<close> accepts only
  the decimal digits, so \<open>int\<close> can raise on a string that \<open>isdigit\<close> accepts.\<close>

definition other_digit_ranges :: "(nat \<times> nat) list" where
  "other_digit_ranges = [(178, 179), (185, 185), (4969, 4977), (6618, 6618), (8304, 8304),
     (8308, 8313), (8320, 8329), (9312, 9320), (9332, 9340), (9352, 9360), (9450, 9450),
     (9461, 9469), (9471, 9471), (10102, 10110), (10112, 10120), (10122, 10130),
     (68160, 68163), (69216, 69224), (69714, 69722), (127232, 127242)]"

definition py_isdigit_char :: "uchar \<Rightarrow> bool" where
  "py_isdigit_char c \<longleftrightarrow> is_decimal c \<or> list_ex (\<lambda>(lo, hi). lo \<le> c \<and> c \<le> hi) other_digit_ranges"

definition py_isdigit :: "ustr \<Rightarrow> bool" where
  "py_isdigit s \<longleftrightarrow> s \<noteq> [] \<and> list_all py_isdigit_char s"

text \<open>\<open>int(s)\<close> in base ten: optional sign, digits with single underscores between them,
  surrounding whitespace ignored. (The interpreter's optional limit on the number of digits
  is not modelled.)\<close>

definition py_int :: "ustr \<Rightarrow> py_error + int" where
  "py_int s =
     (let t = num_strip s;
          (neg, body) = (case t of
                           [] \<Rightarrow> (False, t)
                         | x # xs \<Rightarrow> if x = 45 then (True, xs)
                                     else if x = 43 then (False, xs) else (False, t))
      in case digitpart body of
           Some (ds, []) \<Rightarrow> Inr (if neg then - int (nat_of_digits ds) else int (nat_of_digits ds))
         | _ \<Rightarrow> Inl ValueError)"

section \<open>The output record\<close>

text \<open>
  The record is a nested Python dictionary. A dictionary is an association list in insertion
  order; \<open>JNull\<close> is Python's \<open>None\<close>.
\<close>

datatype jval =
    JNull
  | JStr ustr
  | JInt int
  | JFloat pyfloat
  | JDict "(string \<times> jval) list"
  | JList "jval list"

type_synonym pydict = "(string \<times> jval) list"

text \<open>\<open>d[k] = v\<close>\<close>

definition dict_set :: "pydict \<Rightarrow> string \<Rightarrow> jval \<Rightarrow> pydict" where
  "dict_set d k v = AList.update k v d"

text \<open>\<open>if x: d[k] = x\<close> for an optional string \<open>x\<close>: \<open>None\<close> and the empty string are
  falsy.\<close>

definition set_if_str :: "pydict \<Rightarrow> string \<Rightarrow> ustr option \<Rightarrow> pydict" where
  "set_if_str d k x =
     (case x of
        None \<Rightarrow> d
      | Some s \<Rightarrow> if s = [] then d else dict_set d k (JStr s))"

text \<open>\<open>m = re.search(...); if m: d[k] = m.group(1)\<close>: a match object is always truthy, so
  the member is set whenever the search matched, whatever the group holds.\<close>

definition set_if_match :: "pydict \<Rightarrow> string \<Rightarrow> ustr option \<Rightarrow> pydict" where
  "set_if_match d k m =
     (case m of
        None \<Rightarrow> d
      | Some g \<Rightarrow> dict_set d k (JStr g))"

text \<open>\<open>return d if d else None\<close>\<close>

definition dict_or_none :: "pydict \<Rightarrow> jval" where
  "dict_or_none d = (if d = [] then JNull else JDict d)"

text \<open>Truthiness of a value stored in a dictionary.\<close>

fun truthy :: "jval \<Rightarrow> bool" where
  "truthy JNull = False"
| "truthy (JStr s) = (s \<noteq> [])"
| "truthy (JInt i) = (i \<noteq> 0)"
| "truthy (JFloat x) = (x \<noteq> Fin 0)"
| "truthy (JDict d) = (d \<noteq> [])"
| "truthy (JList l) = (l \<noteq> [])"

section \<open>Line items\<close>

text \<open>
  An item produced by the table scan (\<open>_extract_items\<close>) is a dictionary from member names to
  optional strings.
  \<^verbatim>\<open>
  def _extract_line_items_structured(self, text, tables=None):
      items = self._extract_items(text)
      if not items:
          return []
      line_items = []
      for idx, item in enumerate(items, 1):
          line_item = {
              'line_number': int(item.get('number', idx)) if item.get('number', '').isdigit() else idx,
              'product_name': item.get('name', ''),
          }
          if item.get('unit'):
              line_item['unit'] = item['unit']
          if item.get('quantity'):
              line_item['quantity'] = self._clean_number(item['quantity'])
          if item.get('delivery_terms'):
              line_item['delivery_terms'] = item['delivery_terms']
          if item.get('price_without_vat'):
              line_item['unit_price_without_vat'] = self._clean_number(item['price_without_vat'])
          if item.get('amount_without_vat'):
              line_item['amount_without_vat'] = self._clean_number(item['amount_without_vat'])
          if item.get('vat_amount'):
              line_item['vat_amount'] = self._clean_number(item['vat_amount'])
          if item.get('total_with_vat'):
              line_item['total_with_vat'] = self._clean_number(item['total_with_vat'])
          line_items.append(line_item)
      return line_items
  \<close>
\<close>

type_synonym raw_item = "(string \<times> ustr option) list"

text \<open>\<open>item.get(k)\<close>: \<open>None\<close> when the key is absent or maps to \<open>None\<close>.\<close>

definition item_get :: "raw_item \<Rightarrow> string \<Rightarrow> ustr option" where
  "item_get item k = (case map_of item k of None \<Rightarrow> None | Some v \<Rightarrow> v)"

definition line_number_of :: "nat \<Rightarrow> raw_item \<Rightarrow> py_error + int" where
  "line_number_of idx item =
     (case map_of item ''number'' of
        None \<Rightarrow> Inr (int idx)
      | Some None \<Rightarrow> Inl OtherError
      | Some (Some s) \<Rightarrow> if py_isdigit s then py_int s else Inr (int idx))"

definition product_name_of :: "raw_item \<Rightarrow> jval" where
  "product_name_of item =
     (case map_of item ''name'' of
        None \<Rightarrow> JStr []
      | Some None \<Rightarrow> JNull
      | Some (Some s) \<Rightarrow> JStr s)"

text \<open>\<open>if item.get(src): line_item[dst] = item[src]\<close>\<close>

definition copy_text :: "raw_item \<Rightarrow> string \<Rightarrow> string \<Rightarrow> pydict \<Rightarrow> py_error + pydict" where
  "copy_text item src dst d = Inr (set_if_str d dst (item_get item src))"

text \<open>\<open>if item.get(src): line_item[dst] = self._clean_number(item[src])\<close>\<close>

definition copy_number :: "raw_item \<Rightarrow> string \<Rightarrow> string \<Rightarrow> pydict \<Rightarrow> py_error + pydict" where
  "copy_number item src dst d =
     (case item_get item src of
        None \<Rightarrow> Inr d
      | Some s \<Rightarrow>
          if s = [] then Inr d
          else (case clean_number s of
                  Inl e \<Rightarrow> Inl e
                | Inr x \<Rightarrow> Inr (dict_set d dst (JFloat x))))"

definition then_do :: "py_error + 'a \<Rightarrow> ('a \<Rightarrow> py_error + 'b) \<Rightarrow> py_error + 'b" where
  "then_do r f = (case r of Inl e \<Rightarrow> Inl e | Inr x \<Rightarrow> f x)"

definition line_item_of :: "nat \<Rightarrow> raw_item \<Rightarrow> py_error + pydict" where
  "line_item_of idx item =
     then_do (line_number_of idx item) (\<lambda>n.
     then_do (Inr [(''line_number'', JInt n), (''product_name'', product_name_of item)]) (\<lambda>d.
     then_do (copy_text item ''unit'' ''unit'' d) (\<lambda>d.
     then_do (copy_number item ''quantity'' ''quantity'' d) (\<lambda>d.
     then_do (copy_text item ''delivery_terms'' ''delivery_terms'' d) (\<lambda>d.
     then_do (copy_number item ''price_without_vat'' ''unit_price_without_vat'' d) (\<lambda>d.
     then_do (copy_number item ''amount_without_vat'' ''amount_without_vat'' d) (\<lambda>d.
     then_do (copy_number item ''vat_amount'' ''vat_amount'' d) (\<lambda>d.
     copy_number item ''total_with_vat'' ''total_with_vat'' d))))))))"

text \<open>The loop over \<open>enumerate(items, 1)\<close>; an exception in one item leaves the loop.\<close>

fun line_items_from :: "nat \<Rightarrow> raw_item list \<Rightarrow> py_error + pydict list" where
  "line_items_from idx [] = Inr []"
| "line_items_from idx (item # items) =
     then_do (line_item_of idx item) (\<lambda>li.
     then_do (line_items_from (Suc idx) items) (\<lambda>rest. Inr (li # rest)))"

definition extract_line_items_structured :: "raw_item list option \<Rightarrow> py_error + jval" where
  "extract_line_items_structured items =
     (case items of
        None \<Rightarrow> Inr (JList [])
      | Some its \<Rightarrow>
          if its = [] then Inr (JList [])
          else then_do (line_items_from 1 its) (\<lambda>lis. Inr (JList (map JDict lis))))"

text \<open>The members of a line item that hold quantities and amounts.\<close>

definition numeric_members :: "string list" where
  "numeric_members = [''quantity'', ''unit_price_without_vat'', ''amount_without_vat'',
     ''vat_amount'', ''total_with_vat'']"

fun is_float :: "jval \<Rightarrow> bool" where
  "is_float (JFloat x) = True"
| "is_float v = False"

fun is_int :: "jval \<Rightarrow> bool" where
  "is_int (JInt x) = True"
| "is_int v = False"

text \<open>A line item is well typed when its \<open>line_number\<close> is an integer and each of its
  quantity and amount members, when present, is a floating-point number.\<close>

definition item_typed :: "pydict \<Rightarrow> bool" where
  "item_typed d \<longleftrightarrow>
     (\<exists>n. map_of d ''line_number'' = Some (JInt n)) \<and>
     (\<forall>k v. map_of d k = Some v \<longrightarrow> k \<in> set numeric_members \<longrightarrow> is_float v)"

section \<open>Assembly of the record\<close>

text \<open>
  The section builders are functions of the text only through what their regular-expression
  searches and the field extractors return on it. These results are the input of the model:
  a \<open>findings\<close> value holds, for one text, the result of each search (\<open>None\<close>: no match;
  otherwise the captured group) and of each extractor that the builders call.
\<close>

record findings =
  fnd_invoice_number :: "ustr option"
  fnd_invoice_date :: "ustr option"
  fnd_seller_name :: "ustr option"
  fnd_buyer_name :: "ustr option"
  fnd_buyer_phone :: "ustr option"
  fnd_validity :: "ustr option"
  fnd_title :: "ustr option"
  fnd_seller_inn :: "ustr option"
  fnd_seller_kpp :: "ustr option"
  fnd_seller_address :: "ustr option"
  fnd_seller_phone :: "ustr option"
  fnd_account :: "ustr option"
  fnd_corr_account :: "ustr option"
  fnd_bik :: "ustr option"
  fnd_bank_name :: "ustr option"
  fnd_buyer_inn :: "ustr option"
  fnd_buyer_kpp :: "ustr option"
  fnd_buyer_address :: "ustr option"
  fnd_contract_number :: "ustr option"
  fnd_contract_date :: "ustr option"
  fnd_items :: "(ustr \<times> raw_item) list option"
  fnd_subtotal :: "ustr option"
  fnd_vat :: "(ustr \<times> ustr) option"
  fnd_total_with_vat :: "ustr option"
  fnd_total_amount :: "ustr option"
  fnd_total_in_words :: "ustr option"
  fnd_currency :: "ustr option"
  fnd_sales_director :: "ustr option"
  fnd_chief_accountant :: "ustr option"
  fnd_issued_by :: "ustr option"
  fnd_terms :: "(ustr \<times> ustr) list"
  fnd_pickup_address :: "ustr option"
  fnd_pickup_contact :: "ustr option"
  fnd_pickup_phone :: "ustr option"

text \<open>
  Every item that the table scan (\<open>_extract_items\<close>) appends has a \<open>name\<close> member that is a
  string; so a scanned item is given by its name and its other members, and \<open>scanned_items\<close>
  is the list of dictionaries the scan returns.
\<close>

definition scanned_items :: "findings \<Rightarrow> raw_item list option" where
  "scanned_items fnd =
     map_option (map (\<lambda>(name, members). (''name'', Some name) # members)) (fnd_items fnd)"

text \<open>\<open>re.sub(r'\s+', ' ', s)\<close>: every maximal run of whitespace becomes one space.\<close>

function collapse_ws :: "ustr \<Rightarrow> ustr" where
  "collapse_ws [] = []"
| "collapse_ws (c # cs) =
     (if py_isspace c then 32 # collapse_ws (dropWhile py_isspace cs) else c # collapse_ws cs)"
  by pat_completeness auto
termination
  by (relation "measure length") (auto simp: length_dropWhile_le less_Suc_eq_le)

text \<open>\<open>str.upper\<close>, modelled on Basic Latin and Cyrillic; other characters are left as they
  are.\<close>

definition upper_char :: "uchar \<Rightarrow> uchar" where
  "upper_char c =
     (if 97 \<le> c \<and> c \<le> 122 then c - 32
      else if 1072 \<le> c \<and> c \<le> 1103 then c - 32
      else if 1104 \<le> c \<and> c \<le> 1119 then c - 80
      else c)"

definition py_upper :: "ustr \<Rightarrow> ustr" where
  "py_upper s = map upper_char s"

text \<open>
  \<^verbatim>\<open>
  def _build_invoice_section(self, text, invoice_number, invoice_date):
      invoice = {}
      if invoice_number:
          invoice['number'] = invoice_number
      if invoice_date:
          invoice['date'] = invoice_date
      validity_match = re.search(...)
      if validity_match:
          invoice['validity_period'] = validity_match.group(1)
      title_match = re.search(...)
      if title_match:
          invoice['title'] = title_match.group(1)
      return invoice if invoice else None
  \<close>
\<close>

definition build_invoice_section :: "findings \<Rightarrow> jval" where
  "build_invoice_section fnd =
     (let invoice = [];
          invoice = set_if_str invoice ''number'' (fnd_invoice_number fnd);
          invoice = set_if_str invoice ''date'' (fnd_invoice_date fnd);
          invoice = set_if_match invoice ''validity_period'' (fnd_validity fnd);
          invoice = set_if_match invoice ''title'' (fnd_title fnd)
      in dict_or_none invoice)"

text \<open>\<open>_extract_bank_details\<close>: four searches; the bank name is stripped.\<close>

definition extract_bank_details :: "findings \<Rightarrow> jval" where
  "extract_bank_details fnd =
     (let bank_details = [];
          bank_details = set_if_match bank_details ''account'' (fnd_account fnd);
          bank_details = set_if_match bank_details ''correspondent_account'' (fnd_corr_account fnd);
          bank_details = set_if_match bank_details ''bik'' (fnd_bik fnd);
          bank_details = set_if_match bank_details ''bank_name'' (map_option strip (fnd_bank_name fnd))
      in dict_or_none bank_details)"

text \<open>\<open>if x: d[k] = x\<close> for a value that is a dictionary or \<open>None\<close>.\<close>

definition set_if_truthy :: "pydict \<Rightarrow> string \<Rightarrow> jval \<Rightarrow> pydict" where
  "set_if_truthy d k v = (if truthy v then dict_set d k v else d)"

definition build_supplier_section :: "findings \<Rightarrow> jval" where
  "build_supplier_section fnd =
     (let supplier = [];
          supplier = set_if_str supplier ''company_name'' (fnd_seller_name fnd);
          supplier = set_if_str supplier ''inn'' (fnd_seller_inn fnd);
          supplier = set_if_str supplier ''kpp'' (fnd_seller_kpp fnd);
          supplier = set_if_str supplier ''address'' (fnd_seller_address fnd);
          supplier = set_if_str supplier ''phone'' (fnd_seller_phone fnd);
          supplier = set_if_truthy supplier ''bank_details'' (extract_bank_details fnd)
      in dict_or_none supplier)"

text \<open>
  \<^verbatim>\<open>
  def _extract_contract(self, text):
      contract = {}
      contract_num_match = re.search(...)
      if contract_num_match:
          contract['number'] = contract_num_match.group(1)
      contract_date_match = re.search(...)
      if contract_date_match:
          contract['date'] = contract_date_match.group(1)
      return contract if contract else None
  \<close>
\<close>

definition extract_contract :: "findings \<Rightarrow> jval" where
  "extract_contract fnd =
     (let contract = [];
          contract = set_if_match contract ''number'' (fnd_contract_number fnd);
          contract = set_if_match contract ''date'' (fnd_contract_date fnd)
      in dict_or_none contract)"

text \<open>
  \<^verbatim>\<open>
  def _build_customer_section(self, text, buyer_name, buyer_phone):
      customer = {}
      if buyer_name:
          customer['company_name'] = buyer_name
      ...
      if buyer_phone:
          customer['phone'] = buyer_phone
      contract = self._extract_contract(text)
      if contract:
          customer['contract'] = contract
      else:
          customer['contract'] = {'number': None, 'date': None}
      return customer if customer else None
  \<close>
\<close>

definition build_customer_section :: "findings \<Rightarrow> jval" where
  "build_customer_section fnd =
     (let customer = [];
          customer = set_if_str customer ''company_name'' (fnd_buyer_name fnd);
          customer = set_if_str customer ''inn'' (fnd_buyer_inn fnd);
          customer = set_if_str customer ''kpp'' (fnd_buyer_kpp fnd);
          customer = set_if_str customer ''address'' (fnd_buyer_address fnd);
          customer = set_if_str customer ''phone'' (fnd_buyer_phone fnd);
          contract = extract_contract fnd;
          customer = (if truthy contract then dict_set customer ''contract'' contract
                      else dict_set customer ''contract''
                             (JDict [(''number'', JNull), (''date'', JNull)]))
      in dict_or_none customer)"

text \<open>\<open>if m: summary[k] = self._clean_number(m.group(1))\<close>\<close>

definition set_number_if_match :: "pydict \<Rightarrow> string \<Rightarrow> ustr option \<Rightarrow> py_error + pydict" where
  "set_number_if_match d k m =
     (case m of
        None \<Rightarrow> Inr d
      | Some g \<Rightarrow> then_do (clean_number g) (\<lambda>x. Inr (dict_set d k (JFloat x))))"

text \<open>
  \<open>_build_financial_summary\<close>. \<open>_extract_vat\<close> returns \<open>None\<close> or a dictionary with a rate
  and an amount; the total is the \<open>total_amount\<close> field when the search for the total with
  VAT fails; the currency is upper-cased, with \<open>RUB\<close> when none is returned.
\<close>

definition build_financial_summary :: "findings \<Rightarrow> py_error + jval" where
  "build_financial_summary fnd =
     then_do (set_number_if_match [] ''subtotal_without_vat'' (fnd_subtotal fnd)) (\<lambda>summary.
     then_do (case fnd_vat fnd of
                None \<Rightarrow> Inr summary
              | Some (rate, amount) \<Rightarrow>
                  then_do (clean_number amount) (\<lambda>x.
                    Inr (dict_set (dict_set summary ''vat_rate'' (JStr (rate @ ascii ''%'')))
                           ''vat_amount'' (JFloat x)))) (\<lambda>summary.
     then_do (case fnd_total_with_vat fnd of
                Some g \<Rightarrow> then_do (clean_number g) (\<lambda>x. Inr (dict_set summary ''total_with_vat'' (JFloat x)))
              | None \<Rightarrow>
                  (case fnd_total_amount fnd of
                     None \<Rightarrow> Inr summary
                   | Some t \<Rightarrow>
                       if t = [] then Inr summary
                       else then_do (clean_number t) (\<lambda>x. Inr (dict_set summary ''total_with_vat'' (JFloat x))))) (\<lambda>summary.
     (let summary = set_if_str summary ''total_in_words'' (fnd_total_in_words fnd);
          summary = (case fnd_currency fnd of
                       None \<Rightarrow> dict_set summary ''currency'' (JStr (ascii ''RUB''))
                     | Some c \<Rightarrow>
                         if c = [] then dict_set summary ''currency'' (JStr (ascii ''RUB''))
                         else dict_set summary ''currency'' (JStr (py_upper c)))
      in Inr (dict_or_none summary)))))"

definition extract_signatories :: "findings \<Rightarrow> jval" where
  "extract_signatories fnd =
     (let signatories = [];
          signatories = set_if_match signatories ''sales_director'' (fnd_sales_director fnd);
          signatories = set_if_match signatories ''chief_accountant'' (fnd_chief_accountant fnd);
          signatories = set_if_match signatories ''issued_by'' (fnd_issued_by fnd)
      in dict_or_none signatories)"

text \<open>
  \<^verbatim>\<open>
  for match in matches:
      number = match.group(1)
      text_content = match.group(2).strip()
      text_content = re.sub(r'\s+', ' ', text_content)
      if len(text_content) > 20:
          terms.append({'number': int(number), 'text': text_content})
  return terms if terms else None
  \<close>
\<close>

fun terms_from :: "(ustr \<times> ustr) list \<Rightarrow> py_error + jval list" where
  "terms_from [] = Inr []"
| "terms_from ((number, content) # ms) =
     (let text_content = collapse_ws (strip content)
      in if length text_content > 20 then
           then_do (py_int number) (\<lambda>n.
           then_do (terms_from ms) (\<lambda>rest.
             Inr (JDict [(''number'', JInt n), (''text'', JStr text_content)] # rest)))
         else terms_from ms)"

definition extract_terms_and_conditions :: "findings \<Rightarrow> py_error + jval" where
  "extract_terms_and_conditions fnd =
     then_do (terms_from (fnd_terms fnd)) (\<lambda>terms.
       Inr (if terms = [] then JNull else JList terms))"

definition extract_additional_info :: "findings \<Rightarrow> jval" where
  "extract_additional_info fnd =
     (let info = [];
          info = set_if_match info ''pickup_address'' (map_option strip (fnd_pickup_address fnd));
          info = set_if_match info ''pickup_contact'' (fnd_pickup_contact fnd);
          info = set_if_match info ''pickup_phone'' (fnd_pickup_phone fnd)
      in dict_or_none info)"

text \<open>
  \<^verbatim>\<open>
  def _clean_result(self, result):
      cleaned = {}
      for key, value in result.items():
          if value is None:
              continue
          if isinstance(value, dict) and not value:
              continue
          if isinstance(value, list) and not value:
              continue
          cleaned[key] = value
      return cleaned
  \<close>
\<close>

fun clean_result_loop :: "pydict \<Rightarrow> pydict \<Rightarrow> pydict" where
  "clean_result_loop cleaned [] = cleaned"
| "clean_result_loop cleaned ((key, val) # items) =
     (if val = JNull then clean_result_loop cleaned items
      else if val = JDict [] then clean_result_loop cleaned items
      else if val = JList [] then clean_result_loop cleaned items
      else clean_result_loop (dict_set cleaned key val) items)"

definition clean_result :: "pydict \<Rightarrow> pydict" where
  "clean_result result = clean_result_loop [] result"

text \<open>\<open>extract_invoice_data\<close>: the eight sections, in the order of the source, then the
  pruning pass.\<close>

definition extract_invoice_data :: "findings \<Rightarrow> py_error + pydict" where
  "extract_invoice_data fnd =
     then_do (extract_line_items_structured (scanned_items fnd)) (\<lambda>line_items.
     then_do (build_financial_summary fnd) (\<lambda>financial_summary.
     then_do (extract_terms_and_conditions fnd) (\<lambda>terms.
       Inr (clean_result
         [(''invoice'', build_invoice_section fnd),
          (''supplier'', build_supplier_section fnd),
          (''customer'', build_customer_section fnd),
          (''line_items'', line_items),
          (''financial_summary'', financial_summary),
          (''signatories'', extract_signatories fnd),
          (''terms_and_conditions'', terms),
          (''additional_info'', extract_additional_info fnd)]))))"

text \<open>The findings on the empty text: no search matches, the table scan returns \<open>None\<close>, and
  \<open>_extract_currency\<close> returns its default \<open>'RUB'\<close>.\<close>

definition findings_empty_text :: findings where
  "findings_empty_text =
     \<lparr>fnd_invoice_number = None, fnd_invoice_date = None, fnd_seller_name = None,
      fnd_buyer_name = None, fnd_buyer_phone = None, fnd_validity = None, fnd_title = None,
      fnd_seller_inn = None, fnd_seller_kpp = None, fnd_seller_address = None,
      fnd_seller_phone = None, fnd_account = None, fnd_corr_account = None, fnd_bik = None,
      fnd_bank_name = None, fnd_buyer_inn = None, fnd_buyer_kpp = None,
      fnd_buyer_address = None, fnd_contract_number = None, fnd_contract_date = None,
      fnd_items = None, fnd_subtotal = None, fnd_vat = None, fnd_total_with_vat = None,
      fnd_total_amount = None, fnd_total_in_words = None, fnd_currency = Some (ascii ''RUB''),
      fnd_sales_director = None, fnd_chief_accountant = None, fnd_issued_by = None,
      fnd_terms = [], fnd_pickup_address = None, fnd_pickup_contact = None,
      fnd_pickup_phone = None\<rparr>"

text \<open>A value has no null and no empty mapping or list in it, at any depth.\<close>

fun no_empty :: "jval \<Rightarrow> bool" where
  "no_empty JNull = False"
| "no_empty (JStr s) = True"
| "no_empty (JInt i) = True"
| "no_empty (JFloat x) = True"
| "no_empty (JDict kvs) = (kvs \<noteq> [] \<and> (\<forall>kv \<in> set kvs. no_empty (snd kv)))"
| "no_empty (JList vs) = (vs \<noteq> [] \<and> (\<forall>v \<in> set vs. no_empty v))"

text \<open>The members the pruning pass keeps.\<close>

definition kept :: "string \<times> jval \<Rightarrow> bool" where
  "kept kv \<longleftrightarrow> snd kv \<noteq> JNull \<and> snd kv \<noteq> JDict [] \<and> snd kv \<noteq> JList []"

text \<open>Every member of a dictionary is free of nulls and empty containers.\<close>

definition flat_ok :: "pydict \<Rightarrow> bool" where
  "flat_ok d \<longleftrightarrow> (\<forall>kv \<in> set d. no_empty (snd kv))"

text \<open>The dictionary \<open>extract_invoice_data\<close> builds before pruning.\<close>

definition sections :: "findings \<Rightarrow> jval \<Rightarrow> jval \<Rightarrow> jval \<Rightarrow> pydict" where
  "sections fnd li fs ts =
         [(''invoice'', build_invoice_section fnd),
          (''supplier'', build_supplier_section fnd),
          (''customer'', build_customer_section fnd),
          (''line_items'', li),
          (''financial_summary'', fs),
          (''signatories'', extract_signatories fnd),
          (''terms_and_conditions'', ts),
          (''additional_info'', extract_additional_info fnd)]"

text \<open>
  The findings on the text of three lines
  \<^verbatim>\<open>
  ~Dogovor~ ~U+2116~ 12/3
  ~Tovary~
  1 ~Kirpich~ ~krasnyj~ 10 ~sht~ 5,00 50,00
  \<close>
  (Cyrillic words transliterated between tildes): the invoice number and the contract number
  are both \<open>12/3\<close>, the second line opens the table and the third is its only row, matched by
  the first row grammar; no other search matches.
\<close>

definition findings_example :: findings where
  "findings_example = findings_empty_text
     \<lparr>fnd_invoice_number := Some (ascii ''12/3''),
      fnd_contract_number := Some (ascii ''12/3''),
      fnd_items := Some
        [([1050, 1080, 1088, 1087, 1080, 1095, 32, 1082, 1088, 1072, 1089, 1085, 1099, 1081],
          [(''number'', Some (ascii ''1'')), (''quantity'', Some (ascii ''10'')),
           (''unit'', Some [1096, 1090]), (''price_without_vat'', Some (ascii ''5.00'')),
           (''total_with_vat'', Some (ascii ''50.00'')),
           (''amount_without_vat'', Some (ascii ''50.00'')),
           (''delivery_terms'', None), (''vat_amount'', None)])]\<rparr>"

section \<open>Text acquisition\<close>

subsection \<open>Recognition of one bitmap\<close>

text \<open>
  The recogniser (\<open>pytesseract.image_to_string\<close>) is a collaborator: for one page or image it
  is a function of the bitmap handed to it (the preprocessed one or the original) and of the
  page segmentation mode, returning text or raising. Every call is recorded, in order.
  \<^verbatim>\<open>
  text = ""
  for psm_mode in [6, 11, 12]:
      try:
          text = pytesseract.image_to_string(img_processed, lang='rus+eng', config=f'--psm {psm_mode}')
          if len(text.strip()) > 50:
              break
      except Exception as e:
          continue
  if not text or len(text.strip()) < 10:
      try:
          text = pytesseract.image_to_string(img, lang='rus+eng', config='--psm 6')
      except Exception as e:
          ...
  return text if text else ""
  \<close>
  The same code stands in \<open>extract_text_from_image\<close>, \<open>_extract_text_with_ocr_from_page\<close>
  and \<open>_extract_text_with_ocr_full\<close>.
\<close>

datatype bitmap = Preprocessed | Original

type_synonym ocr_call = "bitmap \<times> nat"
type_synonym recogniser = "bitmap \<Rightarrow> nat \<Rightarrow> py_error + ustr"

fun psm_loop :: "recogniser \<Rightarrow> nat list \<Rightarrow> ustr \<Rightarrow> ocr_call list \<Rightarrow> ustr \<times> ocr_call list" where
  "psm_loop rec [] text calls = (text, calls)"
| "psm_loop rec (psm_mode # rest) text calls =
     (case rec Preprocessed psm_mode of
        Inl e \<Rightarrow> psm_loop rec rest text (calls @ [(Preprocessed, psm_mode)])
      | Inr t \<Rightarrow>
          if length (strip t) > 50 then (t, calls @ [(Preprocessed, psm_mode)])
          else psm_loop rec rest t (calls @ [(Preprocessed, psm_mode)]))"

definition ocr_bitmaps :: "recogniser \<Rightarrow> ustr \<times> ocr_call list" where
  "ocr_bitmaps rec =
     (case psm_loop rec [6, 11, 12] [] [] of
        (text, calls) \<Rightarrow>
          if text = [] \<or> length (strip text) < 10 then
            (case rec Original 6 of
               Inl e \<Rightarrow> (text, calls @ [(Original, 6)])
             | Inr t \<Rightarrow> (t, calls @ [(Original, 6)]))
          else (text, calls))"

text \<open>The texts the configurations returned on the preprocessed bitmap, in order; a
  configuration that raised contributes none.\<close>

definition returned_texts :: "recogniser \<Rightarrow> ustr list" where
  "returned_texts rec =
     concat (map (\<lambda>psm_mode. case rec Preprocessed psm_mode of Inl e \<Rightarrow> [] | Inr t \<Rightarrow> [t])
       [6, 11, 12])"

text \<open>A configuration fails the bar when it raises or its trimmed text has at most 50
  characters.\<close>

definition fails_bar :: "recogniser \<Rightarrow> nat \<Rightarrow> bool" where
  "fails_bar rec psm_mode =
     (case rec Preprocessed psm_mode of Inl e \<Rightarrow> True | Inr t \<Rightarrow> \<not> length (strip t) > 50)"

text \<open>An image is loaded and preprocessed before recognition; either step can raise, which
  is the \<open>Inl\<close> of a \<open>page_image\<close>. \<open>extract_text_from_image\<close> re-raises such an error.\<close>

type_synonym page_image = "py_error + recogniser"

definition extract_text_from_image :: "page_image \<Rightarrow> py_error + ustr" where
  "extract_text_from_image img =
     (case img of
        Inl e \<Rightarrow> Inl OtherError
      | Inr rec \<Rightarrow> Inr (fst (ocr_bitmaps rec)))"

text \<open>A recogniser that returns the same text for every bitmap and configuration.\<close>

definition constant_recogniser :: "ustr \<Rightarrow> recogniser" where
  "constant_recogniser t = (\<lambda>b psm_mode. Inr t)"

text \<open>The text the configuration loop leaves: the last text returned on the preprocessed
  bitmap when every configuration fails the bar, empty when all of them raised.\<close>

definition loop_text :: "recogniser \<Rightarrow> ustr" where
  "loop_text rec = last ([] # returned_texts rec)"

text \<open>A recogniser whose configurations return two characters or raise on the preprocessed
  bitmap, and which reads the original bitmap.\<close>

definition example_recogniser :: recogniser where
  "example_recogniser =
     (\<lambda>b psm_mode.
        case b of
          Preprocessed \<Rightarrow> if psm_mode = 11 then Inl OtherError else Inr (ascii ''ab'')
        | Original \<Rightarrow> Inr (ascii ''Invoice 42''))"

subsection \<open>The image endpoint\<close>

text \<open>
  \<^verbatim>\<open>
  async def process_image(file, user_id=None, user_name=None, db=...):
      allowed_extensions = ['.jpg', '.jpeg', '.png', '.bmp', '.tiff', '.tif']
      file_ext = os.path.splitext(file.filename.lower())[1]
      if file_ext not in allowed_extensions:
          raise HTTPException(status_code=400, ...)
      ...
      try:
          text = pdf_processor.extract_text_from_image(file_path)
          if not text or len(text.strip()) < 10:
              return JSONResponse(status_code=400,
                                  content={"success": False, "data": {}, "message": ...})
          structured_data = data_extractor.extract_invoice_data(text, tables=[], pdf_path=file_path)
          if user_id:
              invoice = Invoice(...)
              db.add(invoice); db.commit(); db.refresh(invoice)
              structured_data['invoice_id'] = invoice.id
          return JSONResponse(content={"success": True, "data": structured_data, "message": ...})
      except Exception as e:
          return JSONResponse(status_code=500,
                              content={"success": False, "data": {}, "message": ...})
  \<close>
  The outcome is the response and the database. \<open>file_ext\<close> is the extension that
  \<open>os.path.splitext\<close> gives for the lower-cased file name; the extractor and the insertion
  into the database are parameters (an insertion that raises leaves the database as it was).
  \<open>JSONResponse\<close> serialises its content when it is built and refuses infinities and NaN;
  the exception is raised inside the \<open>try\<close>, after the row was committed, and gives the
  response with status 500.
\<close>

fun json_ok :: "jval \<Rightarrow> bool" where
  "json_ok JNull = True"
| "json_ok (JStr s) = True"
| "json_ok (JInt i) = True"
| "json_ok (JFloat x) = (case x of Fin q \<Rightarrow> True | _ \<Rightarrow> False)"
| "json_ok (JDict kvs) = list_all (\<lambda>kv. json_ok (snd kv)) kvs"
| "json_ok (JList vs) = list_all json_ok vs"

datatype response =
    HTTPException nat
  | JSONResponse nat bool pydict

definition allowed_extensions :: "string list" where
  "allowed_extensions = [''.jpg'', ''.jpeg'', ''.png'', ''.bmp'', ''.tiff'', ''.tif'']"

text \<open>\<open>return JSONResponse(content={"success": True, "data": structured_data, ...})\<close>\<close>

definition respond_success :: "pydict \<Rightarrow> response" where
  "respond_success structured_data =
     (if json_ok (JDict structured_data) then JSONResponse 200 True structured_data
      else JSONResponse 500 False [])"

definition process_image ::
  "string \<Rightarrow> page_image \<Rightarrow> (ustr \<Rightarrow> py_error + pydict) \<Rightarrow>
   ('db \<Rightarrow> int \<Rightarrow> pydict \<Rightarrow> py_error + 'db \<times> int) \<Rightarrow> int option \<Rightarrow> 'db \<Rightarrow> response \<times> 'db" where
  "process_image file_ext img extract db_add user_id db =
     (if file_ext \<notin> set allowed_extensions then (HTTPException 400, db)
      else
        (case extract_text_from_image img of
           Inl e \<Rightarrow> (JSONResponse 500 False [], db)
         | Inr text \<Rightarrow>
             if text = [] \<or> length (strip text) < 10 then (JSONResponse 400 False [], db)
             else
               (case extract text of
                  Inl e \<Rightarrow> (JSONResponse 500 False [], db)
                | Inr structured_data \<Rightarrow>
                    (case user_id of
                       None \<Rightarrow> (respond_success structured_data, db)
                     | Some uid \<Rightarrow>
                         if uid = 0 then (respond_success structured_data, db)
                         else
                           (case db_add db uid structured_data of
                              Inl e \<Rightarrow> (JSONResponse 500 False [], db)
                            | Inr (db', invoice_id) \<Rightarrow>
                                (respond_success
                                   (dict_set structured_data ''invoice_id'' (JInt invoice_id)),
                                 db'))))))"

text \<open>A response reports success.\<close>

fun succeeded :: "response \<Rightarrow> bool" where
  "succeeded (HTTPException code) = False"
| "succeeded (JSONResponse code success content) = success"

subsection \<open>Text of a PDF\<close>

text \<open>\<open>str(n)\<close> for a page number.\<close>

function str_nat :: "nat \<Rightarrow> ustr" where
  "str_nat n = (if n < 10 then [48 + n] else str_nat (n div 10) @ [48 + n mod 10])"
  by pat_completeness auto
termination
  by (relation "measure id") auto

text \<open>The chunk \<open>f"--- \<dots> {page_num} ---\n{text}\n"\<close> appended for a page; the word between
  the dashes is the Russian for "page".\<close>

definition page_header :: "nat \<Rightarrow> ustr \<Rightarrow> ustr" where
  "page_header page_num t =
     ascii ''--- '' @ [1057, 1090, 1088, 1072, 1085, 1080, 1094, 1072] @ ascii '' '' @
     str_nat page_num @ ascii '' ---'' @ [10] @ t @ [10]"

text \<open>\<open>"\n".join(full_text)\<close>\<close>

fun join_lines :: "ustr list \<Rightarrow> ustr" where
  "join_lines [] = []"
| "join_lines [x] = x"
| "join_lines (x # y # ys) = x @ [10] @ join_lines (y # ys)"

text \<open>
  A document, as the collaborators see it: what each of the two native readers (pdfplumber,
  then PyPDF2) returns for each page (opening the file or reading a page can raise; a page
  can have no text), and the images the rasteriser produces for one page and for the whole
  document.
\<close>

record pdf_doc =
  plumber_pages :: "py_error + (py_error + ustr option) list"
  pypdf_pages :: "py_error + (py_error + ustr option) list"
  raster_page :: "nat \<Rightarrow> py_error + page_image list"
  raster_all :: "py_error + page_image list"

text \<open>\<open>_extract_text_with_ocr_from_page\<close>: every exception gives the empty string.\<close>

definition extract_text_with_ocr_from_page :: "pdf_doc \<Rightarrow> nat \<Rightarrow> ustr" where
  "extract_text_with_ocr_from_page doc page_num =
     (case raster_page doc page_num of
        Inl e \<Rightarrow> []
      | Inr images \<Rightarrow>
          (case images of
             [] \<Rightarrow> []
           | img # _ \<Rightarrow> (case img of Inl e \<Rightarrow> [] | Inr rec \<Rightarrow> fst (ocr_bitmaps rec))))"

text \<open>
  The loop over the pages of one native reader:
  \<^verbatim>\<open>
  for page_num, page in enumerate(pdf.pages, 1):
      text = page.extract_text()
      if text and len(text.strip()) > 50:
          full_text.append(f"--- ... {page_num} ---\n{text}\n")
          total_text_length += len(text.strip())
      else:
          text = self._extract_text_with_ocr_from_page(pdf_path, page_num)
          if text:
              full_text.append(f"--- ... {page_num} ---\n{text}\n")
              total_text_length += len(text.strip())
  \<close>
\<close>

definition native_ok :: "ustr option \<Rightarrow> bool" where
  "native_ok t = (case t of None \<Rightarrow> False | Some s \<Rightarrow> s \<noteq> [] \<and> length (strip s) > 50)"

fun native_loop ::
  "(nat \<Rightarrow> ustr) \<Rightarrow> (py_error + ustr option) list \<Rightarrow> nat \<Rightarrow> ustr list \<Rightarrow> nat \<Rightarrow>
   py_error + ustr list \<times> nat" where
  "native_loop ocr [] page_num full_text total_len = Inr (full_text, total_len)"
| "native_loop ocr (page # pages) page_num full_text total_len =
     (case page of
        Inl e \<Rightarrow> Inl e
      | Inr t \<Rightarrow>
          (case t of
             Some s \<Rightarrow>
               if s \<noteq> [] \<and> length (strip s) > 50 then
                 native_loop ocr pages (Suc page_num) (full_text @ [page_header page_num s])
                   (total_len + length (strip s))
               else
                 (let s' = ocr page_num
                  in if s' \<noteq> [] then
                       native_loop ocr pages (Suc page_num) (full_text @ [page_header page_num s'])
                         (total_len + length (strip s'))
                     else native_loop ocr pages (Suc page_num) full_text total_len)
           | None \<Rightarrow>
               (let s' = ocr page_num
                in if s' \<noteq> [] then
                     native_loop ocr pages (Suc page_num) (full_text @ [page_header page_num s'])
                       (total_len + length (strip s'))
                   else native_loop ocr pages (Suc page_num) full_text total_len)))"

text \<open>
  One \<open>try\<close> block of \<open>extract_text\<close>: the joined text when it is not blank and the summed
  trimmed length exceeds 100; \<open>None\<close> when the block falls through (too little text, or an
  exception).
\<close>

definition native_reader :: "(nat \<Rightarrow> ustr) \<Rightarrow> py_error + (py_error + ustr option) list \<Rightarrow> ustr option" where
  "native_reader ocr pages =
     (case pages of
        Inl e \<Rightarrow> None
      | Inr ps \<Rightarrow>
          (case native_loop ocr ps 1 [] 0 of
             Inl e \<Rightarrow> None
           | Inr (full_text, total_len) \<Rightarrow>
               (let result = join_lines full_text
                in if strip result \<noteq> [] \<and> total_len > 100 then Some result else None)))"

text \<open>\<open>_extract_text_with_ocr_full\<close>: OCR of every page image; an exception anywhere gives
  the empty string.\<close>

fun ocr_full_loop :: "page_image list \<Rightarrow> nat \<Rightarrow> ustr list \<Rightarrow> py_error + ustr list" where
  "ocr_full_loop [] page_num full_text = Inr full_text"
| "ocr_full_loop (img # images) page_num full_text =
     (case img of
        Inl e \<Rightarrow> Inl e
      | Inr rec \<Rightarrow>
          (let t = fst (ocr_bitmaps rec)
           in if t \<noteq> [] then ocr_full_loop images (Suc page_num) (full_text @ [page_header page_num t])
              else ocr_full_loop images (Suc page_num) full_text))"

definition extract_text_with_ocr_full :: "pdf_doc \<Rightarrow> ustr" where
  "extract_text_with_ocr_full doc =
     (case raster_all doc of
        Inl e \<Rightarrow> []
      | Inr images \<Rightarrow>
          (case ocr_full_loop images 1 [] of
             Inl e \<Rightarrow> []
           | Inr full_text \<Rightarrow> join_lines full_text))"

text \<open>\<open>extract_text\<close>: pdfplumber, then PyPDF2, then OCR of the whole document. Every
  exception inside is caught by an inner handler, so the function returns.\<close>

definition extract_text :: "pdf_doc \<Rightarrow> ustr" where
  "extract_text doc =
     (case native_reader (extract_text_with_ocr_from_page doc) (plumber_pages doc) of
        Some result \<Rightarrow> result
      | None \<Rightarrow>
          (case native_reader (extract_text_with_ocr_from_page doc) (pypdf_pages doc) of
             Some result \<Rightarrow> result
           | None \<Rightarrow> extract_text_with_ocr_full doc))"

text \<open>
  The chunk a page contributes, stated directly: the native text when it is non-empty and
  its trimmed length exceeds 50, otherwise the OCR text of that page when there is one; with
  it, the trimmed length it adds to the total.
\<close>

definition page_chunk :: "(nat \<Rightarrow> ustr) \<Rightarrow> nat \<Rightarrow> ustr option \<Rightarrow> (ustr \<times> nat) list" where
  "page_chunk ocr page_num t =
     (if native_ok t then
        (case t of None \<Rightarrow> [] | Some s \<Rightarrow> [(page_header page_num s, length (strip s))])
      else if ocr page_num \<noteq> [] then
        [(page_header page_num (ocr page_num), length (strip (ocr page_num)))]
      else [])"

fun page_chunks :: "(nat \<Rightarrow> ustr) \<Rightarrow> nat \<Rightarrow> ustr option list \<Rightarrow> (ustr \<times> nat) list" where
  "page_chunks ocr page_num [] = []"
| "page_chunks ocr page_num (t # ts) = page_chunk ocr page_num t @ page_chunks ocr (Suc page_num) ts"

text \<open>The chunks of whole-document OCR, stated directly.\<close>

fun ocr_chunks :: "recogniser list \<Rightarrow> nat \<Rightarrow> ustr list" where
  "ocr_chunks [] page_num = []"
| "ocr_chunks (rec # recs) page_num =
     (if fst (ocr_bitmaps rec) \<noteq> [] then [page_header page_num (fst (ocr_bitmaps rec))] else []) @
     ocr_chunks recs (Suc page_num)"

text \<open>Example documents. A text of 40 characters and one of 120.\<close>

definition stamp_text :: ustr where
  "stamp_text = ascii ''Scanned stamp: PAID 12.03.2024, ref 7781''"

definition layer_text :: ustr where
  "layer_text = ascii ''Invoice No 42 dated 12.03.2024. Supplier: Romashka LLC. Buyer: Lyutik LLC. Total due 1 250,00 RUB including VAT 208,33 .''"

text \<open>One page: pdfplumber finds no text on it, OCR reads the 40 characters of a stamp,
  PyPDF2 finds a text layer of 120 characters.\<close>

definition doc_second_reader :: pdf_doc where
  "doc_second_reader =
     \<lparr>plumber_pages = Inr [Inr None],
      pypdf_pages = Inr [Inr (Some layer_text)],
      raster_page = (\<lambda>n. Inr [Inr (constant_recogniser stamp_text)]),
      raster_all = Inr [Inr (constant_recogniser stamp_text)]\<rparr>"

section \<open>Regular expressions\<close>

text \<open>
  The patterns of the extractor are matched by a model of the backtracking matcher of
  Python's \<open>re\<close> module, for the constructs the patterns use: literals, character sets with
  ranges and the classes \<open>\d\<close> and \<open>\s\<close>, negated sets, \<open>.\<close>, greedy and lazy repetition of one
  character, groups, alternation, lookahead, \<open>^\<close> and \<open>$\<close>, under the flags \<open>IGNORECASE\<close>,
  \<open>MULTILINE\<close> and \<open>DOTALL\<close>. In every pattern of the source a repetition is applied to a single
  character or set, so repetition is modelled for that case.
\<close>

datatype cset_item = CChar uchar | CRange uchar uchar | CDigit | CSpace

datatype chr =
    Lit uchar
  | NotLit uchar
  | AnyChr
  | In "cset_item list"
  | NotIn "cset_item list"

datatype re =
    Str ustr
  | Chr chr
  | Rep nat "nat option" bool chr
  | Eps
  | Seq re re
  | Alt re re
  | Grp nat re
  | Look bool re
  | Bol
  | Eol

text \<open>A sequence and an alternation of several parts.\<close>

fun seq :: "re list \<Rightarrow> re" where
  "seq [] = Eps"
| "seq [r] = r"
| "seq (r # rs) = Seq r (seq rs)"

fun alt :: "re list \<Rightarrow> re" where
  "alt [] = Eps"
| "alt [r] = r"
| "alt (r # rs) = Alt r (alt rs)"

record flags =
  ignorecase :: bool
  multiline :: bool
  dotall :: bool

definition no_flags :: flags where
  "no_flags = \<lparr>ignorecase = False, multiline = False, dotall = False\<rparr>"

definition flags_I :: flags where
  "flags_I = \<lparr>ignorecase = True, multiline = False, dotall = False\<rparr>"

definition flags_IM :: flags where
  "flags_IM = \<lparr>ignorecase = True, multiline = True, dotall = False\<rparr>"


text \<open>
  Case-insensitive matching compares characters up to case. \<open>fold_case\<close> gives the
  representative of a character: the lower-case letter for Basic Latin and Cyrillic letters
  and for the further characters that CPython treats as case variants of such a letter
  (dotted and dotless i, long s, the Kelvin sign, and the Cyrillic variant forms
  U+1C80 to U+1C86). Every cased character that occurs in a pattern of the source is a Basic
  Latin or Cyrillic letter, so other characters only ever compare with themselves.
\<close>

definition fold_case :: "uchar \<Rightarrow> uchar" where
  "fold_case c =
     (if 65 \<le> c \<and> c \<le> 90 then c + 32
      else if 1040 \<le> c \<and> c \<le> 1071 then c + 32
      else if 1024 \<le> c \<and> c \<le> 1039 then c + 80
      else if c = 304 \<or> c = 305 then 105
      else if c = 383 then 115
      else if c = 8490 then 107
      else if c = 7296 then 1074
      else if c = 7297 then 1076
      else if c = 7298 then 1086
      else if c = 7299 then 1089
      else if c = 7300 \<or> c = 7301 then 1090
      else if c = 7302 then 1098
      else c)"

text \<open>All characters with the same representative as \<open>c\<close>: the character, its
  representative, the capital of the representative, and the further variants of the
  letters that have any.\<close>

definition case_variants :: "uchar \<Rightarrow> uchar list" where
  "case_variants c =
     (let f = fold_case c
      in [c, f] @
         (if (97 \<le> f \<and> f \<le> 122) \<or> (1072 \<le> f \<and> f \<le> 1103) then [f - 32]
          else if 1104 \<le> f \<and> f \<le> 1119 then [f - 80] else []) @
         (if f = 105 then [304, 305] else if f = 115 then [383] else if f = 107 then [8490]
          else if f = 1074 then [7296] else if f = 1076 then [7297] else if f = 1086 then [7298]
          else if f = 1089 then [7299] else if f = 1090 then [7300, 7301]
          else if f = 1098 then [7302] else []))"

fun in_item :: "uchar \<Rightarrow> cset_item \<Rightarrow> bool" where
  "in_item x (CChar c) = (x = c)"
| "in_item x (CRange lo hi) = (lo \<le> x \<and> x \<le> hi)"
| "in_item x CDigit = is_decimal x"
| "in_item x CSpace = py_isspace x"

definition in_cset :: "flags \<Rightarrow> cset_item list \<Rightarrow> uchar \<Rightarrow> bool" where
  "in_cset fl items x =
     (if ignorecase fl then list_ex (\<lambda>y. list_ex (in_item y) items) (case_variants x)
      else list_ex (in_item x) items)"

fun chr_match :: "flags \<Rightarrow> chr \<Rightarrow> uchar \<Rightarrow> bool" where
  "chr_match fl (Lit c) x = (if ignorecase fl then fold_case x = fold_case c else x = c)"
| "chr_match fl (NotLit c) x = (if ignorecase fl then fold_case x \<noteq> fold_case c else x \<noteq> c)"
| "chr_match fl AnyChr x = (dotall fl \<or> x \<noteq> 10)"
| "chr_match fl (In items) x = in_cset fl items x"
| "chr_match fl (NotIn items) x = (\<not> in_cset fl items x)"

text \<open>The matcher walks the text with a cursor: the position, the character before it (for
  \<open>^\<close>) and the rest of the text. A capture is a group number with its start and end; the
  most recently closed group comes first.\<close>

type_synonym cursor = "nat \<times> uchar option \<times> ustr"
type_synonym captures = "(nat \<times> nat \<times> nat) list"
type_synonym mstate = "cursor \<times> captures"

fun cur_pos :: "cursor \<Rightarrow> nat" where
  "cur_pos (pos, prev, rest) = pos"

fun match_str :: "flags \<Rightarrow> ustr \<Rightarrow> cursor \<Rightarrow> cursor option" where
  "match_str fl [] cur = Some cur"
| "match_str fl (c # cs) (pos, prev, []) = None"
| "match_str fl (c # cs) (pos, prev, x # xs) =
     (if chr_match fl (Lit c) x then match_str fl cs (pos + 1, Some x, xs) else None)"

text \<open>Repetition of one character: the cursors after taking no, one, two, ... further
  characters, as long as they match and the upper bound allows; \<open>i\<close> counts the characters
  taken so far.\<close>

fun rep_steps :: "flags \<Rightarrow> chr \<Rightarrow> nat option \<Rightarrow> nat \<Rightarrow> nat \<Rightarrow> uchar option \<Rightarrow> ustr \<Rightarrow> cursor list" where
  "rep_steps fl c mx i pos prev [] = [(pos, prev, [])]"
| "rep_steps fl c mx i pos prev (x # xs) =
     (pos, prev, x # xs) #
     (if (case mx of None \<Rightarrow> True | Some m \<Rightarrow> i < m) \<and> chr_match fl c x
      then rep_steps fl c mx (i + 1) (pos + 1) (Some x) xs else [])"

definition at_bol :: "flags \<Rightarrow> cursor \<Rightarrow> bool" where
  "at_bol fl cur =
     (case cur of (pos, prev, rest) \<Rightarrow> pos = 0 \<or> (multiline fl \<and> prev = Some 10))"

definition at_eol :: "flags \<Rightarrow> cursor \<Rightarrow> bool" where
  "at_eol fl cur =
     (case cur of (pos, prev, rest) \<Rightarrow>
        rest = [] \<or> rest = [10] \<or> (multiline fl \<and> (case rest of [] \<Rightarrow> True | x # xs \<Rightarrow> x = 10)))"

text \<open>
  The backtracking matcher: all the ways the expression can match at a cursor, in the order
  in which the matcher of \<open>re\<close> tries them (an earlier alternative first; a greedy repetition
  longest first, a lazy one shortest first). The match it reports is the first of the list.
  A lookahead is tried once and leaves the cursor where it is.
\<close>

primrec rmatch :: "re \<Rightarrow> flags \<Rightarrow> mstate \<Rightarrow> mstate list" where
  "rmatch (Str s) fl st =
     (case match_str fl s (fst st) of None \<Rightarrow> [] | Some cur' \<Rightarrow> [(cur', snd st)])"
| "rmatch (Chr c) fl st =
     (case fst st of
        (pos, prev, rest) \<Rightarrow>
          (case rest of
             [] \<Rightarrow> []
           | x # xs \<Rightarrow> if chr_match fl c x then [((pos + 1, Some x, xs), snd st)] else []))"
| "rmatch (Rep mn mx greedy c) fl st =
     (case fst st of
        (pos, prev, rest) \<Rightarrow>
          map (\<lambda>cur'. (cur', snd st))
            (if greedy then rev (drop mn (rep_steps fl c mx 0 pos prev rest))
             else drop mn (rep_steps fl c mx 0 pos prev rest)))"
| "rmatch Eps fl st = [st]"
| "rmatch (Seq a b) fl st = concat (map (rmatch b fl) (rmatch a fl st))"
| "rmatch (Alt a b) fl st = rmatch a fl st @ rmatch b fl st"
| "rmatch (Grp n r) fl st =
     map (\<lambda>st'. (fst st', (n, cur_pos (fst st), cur_pos (fst st')) # snd st')) (rmatch r fl st)"
| "rmatch (Look positive r) fl st =
     (case rmatch r fl st of
        [] \<Rightarrow> if positive then [] else [st]
      | st' # _ \<Rightarrow> if positive then [(fst st, snd st')] else [])"
| "rmatch Bol fl st = (if at_bol fl (fst st) then [st] else [])"
| "rmatch Eol fl st = (if at_eol fl (fst st) then [st] else [])"

text \<open>A match object: the text searched, the span of the match and the captures.\<close>

record pymatch =
  m_text :: ustr
  m_start :: nat
  m_end :: nat
  m_caps :: captures

definition match_at :: "flags \<Rightarrow> re \<Rightarrow> ustr \<Rightarrow> cursor \<Rightarrow> pymatch option" where
  "match_at fl r txt cur =
     (case rmatch r fl (cur, []) of
        [] \<Rightarrow> None
      | st # _ \<Rightarrow>
          Some \<lparr>m_text = txt, m_start = cur_pos cur, m_end = cur_pos (fst st), m_caps = snd st\<rparr>)"

text \<open>\<open>re.search\<close>: the first position, from the left, at which the pattern matches.\<close>

fun search_from :: "flags \<Rightarrow> re \<Rightarrow> ustr \<Rightarrow> nat \<Rightarrow> uchar option \<Rightarrow> ustr \<Rightarrow> pymatch option" where
  "search_from fl r txt pos prev [] = match_at fl r txt (pos, prev, [])"
| "search_from fl r txt pos prev (x # xs) =
     (case match_at fl r txt (pos, prev, x # xs) of
        Some m \<Rightarrow> Some m
      | None \<Rightarrow> search_from fl r txt (pos + 1) (Some x) xs)"

definition re_search :: "flags \<Rightarrow> re \<Rightarrow> ustr \<Rightarrow> pymatch option" where
  "re_search fl r txt = search_from fl r txt 0 None txt"

text \<open>\<open>re.match\<close>: a match at the start of the text only.\<close>

definition re_match :: "flags \<Rightarrow> re \<Rightarrow> ustr \<Rightarrow> pymatch option" where
  "re_match fl r txt = match_at fl r txt (0, None, txt)"

text \<open>\<open>m.group(n)\<close> (\<open>None\<close> when the group took no part in the match), \<open>m.group(0)\<close> and
  \<open>m.lastindex\<close>.\<close>

definition slice :: "ustr \<Rightarrow> nat \<Rightarrow> nat \<Rightarrow> ustr" where
  "slice s i j = take (j - i) (drop i s)"

definition group :: "pymatch \<Rightarrow> nat \<Rightarrow> ustr option" where
  "group m n =
     (case map_of (m_caps m) n of
        None \<Rightarrow> None
      | Some (s, e) \<Rightarrow> Some (slice (m_text m) s e))"

definition group0 :: "pymatch \<Rightarrow> ustr" where
  "group0 m = slice (m_text m) (m_start m) (m_end m)"

definition lastindex :: "pymatch \<Rightarrow> nat option" where
  "lastindex m = (case m_caps m of [] \<Rightarrow> None | (n, s, e) # _ \<Rightarrow> Some n)"

text \<open>\<open>re.sub(pattern, repl, s)\<close>: the matches found from left to right, none overlapping,
  are replaced; an empty match is replaced too and the scan moves on by one character.\<close>

function re_sub_from ::
  "flags \<Rightarrow> re \<Rightarrow> ustr \<Rightarrow> ustr \<Rightarrow> nat \<Rightarrow> uchar option \<Rightarrow> ustr \<Rightarrow> ustr" where
  "re_sub_from fl r repl txt pos prev rest =
     (case match_at fl r txt (pos, prev, rest) of
        None \<Rightarrow>
          (case rest of
             [] \<Rightarrow> []
           | x # xs \<Rightarrow> x # re_sub_from fl r repl txt (pos + 1) (Some x) xs)
      | Some m \<Rightarrow>
          if pos < m_end m \<and> m_end m - pos \<le> length rest then
            repl @ re_sub_from fl r repl txt (m_end m) (Some (rest ! (m_end m - pos - 1)))
                     (drop (m_end m - pos) rest)
          else
            (case rest of
               [] \<Rightarrow> repl
             | x # xs \<Rightarrow> repl @ x # re_sub_from fl r repl txt (pos + 1) (Some x) xs))"
  by pat_completeness auto
termination
  by (relation "measure (\<lambda>(fl, r, repl, txt, pos, prev, rest). length rest)") auto

definition re_sub :: "flags \<Rightarrow> re \<Rightarrow> ustr \<Rightarrow> ustr \<Rightarrow> ustr" where
  "re_sub fl r repl s = re_sub_from fl r repl s 0 None s"

text \<open>\<open>str.lower\<close>, modelled on Basic Latin and Cyrillic; other characters are left as they
  are.\<close>

definition lower_char :: "uchar \<Rightarrow> uchar" where
  "lower_char c =
     (if 65 \<le> c \<and> c \<le> 90 then c + 32
      else if 1040 \<le> c \<and> c \<le> 1071 then c + 32
      else if 1024 \<le> c \<and> c \<le> 1039 then c + 80
      else c)"

definition py_lower :: "ustr \<Rightarrow> ustr" where
  "py_lower s = map lower_char s"

text \<open>\<open>s.find(sub)\<close>: the first index at which \<open>sub\<close> occurs (\<open>None\<close> for Python's \<open>-1\<close>), and
  \<open>sub in s\<close>.\<close>

fun starts_with :: "ustr \<Rightarrow> ustr \<Rightarrow> bool" where
  "starts_with s [] = True"
| "starts_with [] (c # cs) = False"
| "starts_with (x # xs) (c # cs) = (x = c \<and> starts_with xs cs)"

fun find_from :: "ustr \<Rightarrow> ustr \<Rightarrow> nat \<Rightarrow> nat option" where
  "find_from [] sub i = (if sub = [] then Some i else None)"
| "find_from (x # xs) sub i =
     (if starts_with (x # xs) sub then Some i else find_from xs sub (i + 1))"

definition py_find :: "ustr \<Rightarrow> ustr \<Rightarrow> nat option" where
  "py_find s sub = find_from s sub 0"

definition contains :: "ustr \<Rightarrow> ustr \<Rightarrow> bool" where
  "contains s sub \<longleftrightarrow> py_find s sub \<noteq> None"

text \<open>\<open>len(s.split())\<close>: the number of maximal runs of non-whitespace characters.\<close>

fun word_count :: "ustr \<Rightarrow> nat" where
  "word_count [] = 0"
| "word_count [x] = (if py_isspace x then 0 else 1)"
| "word_count (x # y # ys) =
     (if \<not> py_isspace x \<and> py_isspace y then 1 + word_count (y # ys) else word_count (y # ys))"

text \<open>Cyrillic words, as code points; the names transliterate them.\<close>

definition cyr_sch :: ustr where
  "cyr_sch = [1089, 1095]"

definition cyr_t :: ustr where
  "cyr_t = [1090]"

definition cyr_na :: ustr where
  "cyr_na = [1085, 1072]"

definition cyr_oplatu :: ustr where
  "cyr_oplatu = [1086, 1087, 1083, 1072, 1090, 1091]"

definition cyr_oferta :: ustr where
  "cyr_oferta = [1086, 1092, 1077, 1088, 1090, 1072]"

definition cyr_faktura :: ustr where
  "cyr_faktura = [1092, 1072, 1082, 1090, 1091, 1088, 1072]"

definition cyr_ot :: ustr where
  "cyr_ot = [1086, 1090]"

definition cyr_g :: ustr where
  "cyr_g = [1075]"

definition cyr_data :: ustr where
  "cyr_data = [1076, 1072, 1090, 1072]"

definition cyr_postavshchik :: ustr where
  "cyr_postavshchik = [1087, 1086, 1089, 1090, 1072, 1074, 1097, 1080, 1082]"

definition cyr_OOO :: ustr where
  "cyr_OOO = [1054, 1054, 1054]"

definition cyr_AO :: ustr where
  "cyr_AO = [1040, 1054]"

definition cyr_TD :: ustr where
  "cyr_TD = [1058, 1044]"

definition cyr_IP :: ustr where
  "cyr_IP = [1048, 1055]"

definition cyr_INN :: ustr where
  "cyr_INN = [1048, 1053, 1053]"

definition cyr_KPP :: ustr where
  "cyr_KPP = [1050, 1055, 1055]"

definition cyr_Adres :: ustr where
  "cyr_Adres = [1040, 1076, 1088, 1077, 1089]"

definition cyr_pokupatel :: ustr where
  "cyr_pokupatel = [1087, 1086, 1082, 1091, 1087, 1072, 1090, 1077, 1083, 1100]"

definition cyr_ispolnitel :: ustr where
  "cyr_ispolnitel = [1080, 1089, 1087, 1086, 1083, 1085, 1080, 1090, 1077, 1083, 1100]"

definition cyr_prodavets :: ustr where
  "cyr_prodavets = [1087, 1088, 1086, 1076, 1072, 1074, 1077, 1094]"

definition cyr_otpravitel :: ustr where
  "cyr_otpravitel = [1086, 1090, 1087, 1088, 1072, 1074, 1080, 1090, 1077, 1083, 1100]"

definition cyr_zakazchik :: ustr where
  "cyr_zakazchik = [1079, 1072, 1082, 1072, 1079, 1095, 1080, 1082]"

definition cyr_klient :: ustr where
  "cyr_klient = [1082, 1083, 1080, 1077, 1085, 1090]"

definition cyr_poluchatel :: ustr where
  "cyr_poluchatel = [1087, 1086, 1083, 1091, 1095, 1072, 1090, 1077, 1083, 1100]"

definition cyr_vsego :: ustr where
  "cyr_vsego = [1074, 1089, 1077, 1075, 1086]"

definition cyr_k :: ustr where
  "cyr_k = [1082]"

definition cyr_oplate :: ustr where
  "cyr_oplate = [1086, 1087, 1083, 1072, 1090, 1077]"

definition cyr_s :: ustr where
  "cyr_s = [1089]"

definition cyr_nds :: ustr where
  "cyr_nds = [1085, 1076, 1089]"

definition cyr_itogo :: ustr where
  "cyr_itogo = [1080, 1090, 1086, 1075, 1086]"

definition cyr_vkl :: ustr where
  "cyr_vkl = [1074, 1082, 1083]"

definition cyr_rub :: ustr where
  "cyr_rub = [1088, 1091, 1073]"

definition cyr_r :: ustr where
  "cyr_r = [1088]"

definition cyr_summa :: ustr where
  "cyr_summa = [1089, 1091, 1084, 1084, 1072]"

definition cyr_summu :: ustr where
  "cyr_summu = [1089, 1091, 1084, 1084, 1091]"

definition cyr_v :: ustr where
  "cyr_v = [1074]"

definition cyr_tom :: ustr where
  "cyr_tom = [1090, 1086, 1084]"

definition cyr_chisle :: ustr where
  "cyr_chisle = [1095, 1080, 1089, 1083, 1077]"

definition cyr_NDS :: ustr where
  "cyr_NDS = [1053, 1044, 1057]"

definition cyr_Karta :: ustr where
  "cyr_Karta = [1050, 1072, 1088, 1090, 1072]"

definition cyr_Poluchatel :: ustr where
  "cyr_Poluchatel = [1055, 1086, 1083, 1091, 1095, 1072, 1090, 1077, 1083, 1100]"

definition cyr_Kvitantsiya :: ustr where
  "cyr_Kvitantsiya = [1050, 1074, 1080, 1090, 1072, 1085, 1094, 1080, 1103]"

definition cyr_Po :: ustr where
  "cyr_Po = [1055, 1086]"

definition cyr_voprosam :: ustr where
  "cyr_voprosam = [1074, 1086, 1087, 1088, 1086, 1089, 1072, 1084]"

definition cyr_poluchatelya :: ustr where
  "cyr_poluchatelya = [1087, 1086, 1083, 1091, 1095, 1072, 1090, 1077, 1083, 1103]"

definition cyr_karta :: ustr where
  "cyr_karta = [1082, 1072, 1088, 1090, 1072]"

definition cyr_Sluzhba :: ustr where
  "cyr_Sluzhba = [1057, 1083, 1091, 1078, 1073, 1072]"

text \<open>The patterns of the field \<open>invoice_number\<close>, in order:
  \<^verbatim>\<open>
  ~sch~[~yo~~e~]~t~[~a~-~ya~]*\s+~na~\s+~oplatu~\s+~U+2116~\s*([\d/]+)
  ~sch~[~yo~~e~]~t~[~a~-~ya~]*\s*~U+2116~\s*([\d/]+)
  ~sch~[~yo~~e~]~t~[~a~-~ya~]*-~oferta~\s+(\d+)
  ~sch~[~yo~~e~]~t~[~a~-~ya~]*-~faktura~\s+~U+2116~\s*(\d+)
  (?:~sch~[~yo~~e~]~t~[~a~-~ya~]*|invoice)\s*[:\-]?\s*~U+2116~?\s*([\d/]{1,15})(?!\d)
  invoice\s*#?\s*(\d{1,10})
  ~U+2116~\s*([\d/]+)
  \<close>
\<close>

definition invoice_number_patterns :: "re list" where
  "invoice_number_patterns =
     [seq [Str cyr_sch, Chr (In [CChar 1105, CChar 1077]), Str cyr_t,
        Rep 0 None True (In [CRange 1072 1103]), Rep 1 None True (In [CSpace]), Str cyr_na,
        Rep 1 None True (In [CSpace]), Str cyr_oplatu, Rep 1 None True (In [CSpace]),
        Str [8470], Rep 0 None True (In [CSpace]), Grp 1 (Rep 1 None True (In [CDigit,
        CChar 47]))],
      seq [Str cyr_sch, Chr (In [CChar 1105, CChar 1077]), Str cyr_t,
        Rep 0 None True (In [CRange 1072 1103]), Rep 0 None True (In [CSpace]), Str [8470],
        Rep 0 None True (In [CSpace]), Grp 1 (Rep 1 None True (In [CDigit, CChar 47]))],
      seq [Str cyr_sch, Chr (In [CChar 1105, CChar 1077]), Str cyr_t,
        Rep 0 None True (In [CRange 1072 1103]), Str (ascii ''-''), Str cyr_oferta,
        Rep 1 None True (In [CSpace]), Grp 1 (Rep 1 None True (In [CDigit]))],
      seq [Str cyr_sch, Chr (In [CChar 1105, CChar 1077]), Str cyr_t,
        Rep 0 None True (In [CRange 1072 1103]), Str (ascii ''-''), Str cyr_faktura,
        Rep 1 None True (In [CSpace]), Str [8470], Rep 0 None True (In [CSpace]),
        Grp 1 (Rep 1 None True (In [CDigit]))],
      seq [alt [seq [Str cyr_sch, Chr (In [CChar 1105, CChar 1077]), Str cyr_t,
        Rep 0 None True (In [CRange 1072 1103])], Str (ascii ''invoice'')],
        Rep 0 None True (In [CSpace]), Rep 0 (Some 1) True (In [CChar 58, CChar 45]),
        Rep 0 None True (In [CSpace]), Rep 0 (Some 1) True (Lit 8470),
        Rep 0 None True (In [CSpace]), Grp 1 (Rep 1 (Some 15) True (In [CDigit, CChar 47])),
        Look False (Chr (In [CDigit]))],
      seq [Str (ascii ''invoice''), Rep 0 None True (In [CSpace]), Rep 0 (Some 1) True (Lit 35),
        Rep 0 None True (In [CSpace]), Grp 1 (Rep 1 (Some 10) True (In [CDigit]))],
      seq [Str [8470], Rep 0 None True (In [CSpace]), Grp 1 (Rep 1 None True (In [CDigit,
        CChar 47]))]]"

text \<open>The patterns of the field \<open>date\<close>, in order:
  \<^verbatim>\<open>
  ~ot~\s+(\d{1,2}\.\d{1,2}\.\d{4})
  ~ot~\s+(\d{1,2}\s+[~a~-~ya~]+\s+\d{4}\s+~g~\.)
  (?:~data~|date|~ot~)\s*[:\-]?\s*(\d{1,2}[./\-]\d{1,2}[./\-]\d{2,4})
  (\d{1,2}\.\d{1,2}\.\d{4})
  (\d{1,2}/\d{1,2}/\d{4})
  \<close>
\<close>

definition date_patterns :: "re list" where
  "date_patterns =
     [seq [Str cyr_ot, Rep 1 None True (In [CSpace]),
        Grp 1 (seq [Rep 1 (Some 2) True (In [CDigit]), Str (ascii ''.''),
        Rep 1 (Some 2) True (In [CDigit]), Str (ascii ''.''),
        Rep 4 (Some 4) True (In [CDigit])])],
      seq [Str cyr_ot, Rep 1 None True (In [CSpace]),
        Grp 1 (seq [Rep 1 (Some 2) True (In [CDigit]), Rep 1 None True (In [CSpace]),
        Rep 1 None True (In [CRange 1072 1103]), Rep 1 None True (In [CSpace]),
        Rep 4 (Some 4) True (In [CDigit]), Rep 1 None True (In [CSpace]), Str cyr_g,
        Str (ascii ''.'')])],
      seq [alt [Str cyr_data, Str (ascii ''date''), Str cyr_ot], Rep 0 None True (In [CSpace]),
        Rep 0 (Some 1) True (In [CChar 58, CChar 45]), Rep 0 None True (In [CSpace]),
        Grp 1 (seq [Rep 1 (Some 2) True (In [CDigit]), Chr (In [CChar 46, CChar 47, CChar 45]),
        Rep 1 (Some 2) True (In [CDigit]), Chr (In [CChar 46, CChar 47, CChar 45]),
        Rep 2 (Some 4) True (In [CDigit])])],
      Grp 1 (seq [Rep 1 (Some 2) True (In [CDigit]), Str (ascii ''.''),
        Rep 1 (Some 2) True (In [CDigit]), Str (ascii ''.''),
        Rep 4 (Some 4) True (In [CDigit])]),
      Grp 1 (seq [Rep 1 (Some 2) True (In [CDigit]), Str (ascii ''/''),
        Rep 1 (Some 2) True (In [CDigit]), Str (ascii ''/''),
        Rep 4 (Some 4) True (In [CDigit])])]"

text \<open>The patterns of the field \<open>seller\<close>, in order:
  \<^verbatim>\<open>
  ~postavshchik~\s+((?:~OOO~|~AO~)\s+~TD~\s+"[^"]+")
  ~postavshchik~\s+((?:~OOO~|~AO~)\s+~TD~\s+[~A~-~YA~~a~-~ya~A-Za-z]{3,}[~A~-~YA~~a~-~ya~A-Za-z\s,\.]*)
  ~postavshchik~\s+((?:~OOO~|~AO~|~TD~|~IP~)\s+"[^"]+")
  ~postavshchik~\s+((?:~OOO~|~AO~|~TD~|~IP~)\s+[~A~-~YA~~a~-~ya~A-Za-z]{3,}[~A~-~YA~~a~-~ya~A-Za-z\s,\.]*)
  ~postavshchik~[^\n]*?\n\s*((?:~OOO~|~AO~)\s+~TD~\s+"[^"]+")
  ~postavshchik~[^\n]*?\n\s*((?:~OOO~|~AO~)\s+~TD~\s+[~A~-~YA~~a~-~ya~A-Za-z]{3,}[~A~-~YA~~a~-~ya~A-Za-z\s,\.]*)
  ~postavshchik~[:\-]?\s+((?:~OOO~|~AO~)\s+~TD~\s+"[^"]+")(?:\s+~INN~|\s+~KPP~|\s+~Adres~|$)
  ~postavshchik~[:\-]?\s+((?:~OOO~|~AO~)\s+~TD~\s+[~A~-~YA~~a~-~ya~A-Za-z]{3,}[~A~-~YA~~a~-~ya~A-Za-z\s,\.]*?)(?:\s+~INN~|\s+~KPP~|\s+~Adres~|$)
  ~postavshchik~[:\-]?\s+((?:~OOO~|~AO~|~TD~|~IP~)\s+"[^"]+")(?:\s+~INN~|\s+~KPP~|\s+~Adres~|$)
  ~postavshchik~[:\-]?\s+((?:~OOO~|~AO~|~TD~|~IP~)\s+[~A~-~YA~~a~-~ya~A-Za-z]{3,}[~A~-~YA~~a~-~ya~A-Za-z\s,\.]*?)(?:\s+~INN~|\s+~KPP~|\s+~Adres~|$)
  ~postavshchik~[^~p~]*?[:\-]?\s*((?:~OOO~|~AO~)\s+~TD~\s+"[~A~-~YA~~a~-~ya~A-Za-z\s,\.]+")(?![^~p~]*~pokupatel~)
  ~postavshchik~[^~p~]*?[:\-]?\s*((?:~OOO~|~AO~)\s+~TD~\s+[~A~-~YA~~a~-~ya~A-Za-z\s,\.]{3,}?)(?:\s+~INN~|\s+~KPP~)(?![^~p~]*~pokupatel~)
  ~ispolnitel~[:\-]?\s+((?:~OOO~|~AO~|~TD~|~IP~)\s+"[^"]+")(?:\s+~INN~|\s+~KPP~|\s+~Adres~|$)
  ~prodavets~[:\-]?\s+((?:~OOO~|~AO~|~TD~|~IP~)\s+"[^"]+")(?:\s+~INN~|\s+~KPP~|\s+~Adres~|$)
  ~postavshchik~[^:]*[:\-]?\s*(~IP~\s+[~A~-~YA~~a~-~ya~A-Za-z\s,\.]+?)(?:\s+~INN~|\s+~KPP~|\~s~+~Adres~|$)
  ~otpravitel~\s*[:\-]?\s*([~A~-~YA~][~a~-~ya~]+\s+[~A~-~YA~][~a~-~ya~]+)
  \<close>
\<close>

definition seller_patterns :: "re list" where
  "seller_patterns =
     [seq [Str cyr_postavshchik, Rep 1 None True (In [CSpace]), Grp 1 (seq [alt [Str cyr_OOO,
        Str cyr_AO], Rep 1 None True (In [CSpace]), Str cyr_TD, Rep 1 None True (In [CSpace]),
        Str [34], Rep 1 None True (NotLit 34), Str [34]])],
      seq [Str cyr_postavshchik, Rep 1 None True (In [CSpace]), Grp 1 (seq [alt [Str cyr_OOO,
        Str cyr_AO], Rep 1 None True (In [CSpace]), Str cyr_TD, Rep 1 None True (In [CSpace]),
        Rep 3 None True (In [CRange 1040 1071, CRange 1072 1103, CRange 65 90, CRange 97 122]),
        Rep 0 None True (In [CRange 1040 1071, CRange 1072 1103, CRange 65 90, CRange 97 122,
        CSpace, CChar 44, CChar 46])])],
      seq [Str cyr_postavshchik, Rep 1 None True (In [CSpace]), Grp 1 (seq [alt [Str cyr_OOO,
        Str cyr_AO, Str cyr_TD, Str cyr_IP], Rep 1 None True (In [CSpace]), Str [34],
        Rep 1 None True (NotLit 34), Str [34]])],
      seq [Str cyr_postavshchik, Rep 1 None True (In [CSpace]), Grp 1 (seq [alt [Str cyr_OOO,
        Str cyr_AO, Str cyr_TD, Str cyr_IP], Rep 1 None True (In [CSpace]),
        Rep 3 None True (In [CRange 1040 1071, CRange 1072 1103, CRange 65 90, CRange 97 122]),
        Rep 0 None True (In [CRange 1040 1071, CRange 1072 1103, CRange 65 90, CRange 97 122,
        CSpace, CChar 44, CChar 46])])],
      seq [Str cyr_postavshchik, Rep 0 None False (NotLit 10), Str [10],
        Rep 0 None True (In [CSpace]), Grp 1 (seq [alt [Str cyr_OOO, Str cyr_AO],
        Rep 1 None True (In [CSpace]), Str cyr_TD, Rep 1 None True (In [CSpace]), Str [34],
        Rep 1 None True (NotLit 34), Str [34]])],
      seq [Str cyr_postavshchik, Rep 0 None False (NotLit 10), Str [10],
        Rep 0 None True (In [CSpace]), Grp 1 (seq [alt [Str cyr_OOO, Str cyr_AO],
        Rep 1 None True (In [CSpace]), Str cyr_TD, Rep 1 None True (In [CSpace]),
        Rep 3 None True (In [CRange 1040 1071, CRange 1072 1103, CRange 65 90, CRange 97 122]),
        Rep 0 None True (In [CRange 1040 1071, CRange 1072 1103, CRange 65 90, CRange 97 122,
        CSpace, CChar 44, CChar 46])])],
      seq [Str cyr_postavshchik, Rep 0 (Some 1) True (In [CChar 58, CChar 45]),
        Rep 1 None True (In [CSpace]), Grp 1 (seq [alt [Str cyr_OOO, Str cyr_AO],
        Rep 1 None True (In [CSpace]), Str cyr_TD, Rep 1 None True (In [CSpace]), Str [34],
        Rep 1 None True (NotLit 34), Str [34]]), alt [seq [Rep 1 None True (In [CSpace]),
        Str cyr_INN], seq [Rep 1 None True (In [CSpace]), Str cyr_KPP],
        seq [Rep 1 None True (In [CSpace]), Str cyr_Adres], Eol]],
      seq [Str cyr_postavshchik, Rep 0 (Some 1) True (In [CChar 58, CChar 45]),
        Rep 1 None True (In [CSpace]), Grp 1 (seq [alt [Str cyr_OOO, Str cyr_AO],
        Rep 1 None True (In [CSpace]), Str cyr_TD, Rep 1 None True (In [CSpace]),
        Rep 3 None True (In [CRange 1040 1071, CRange 1072 1103, CRange 65 90, CRange 97 122]),
        Rep 0 None False (In [CRange 1040 1071, CRange 1072 1103, CRange 65 90, CRange 97 122,
        CSpace, CChar 44, CChar 46])]), alt [seq [Rep 1 None True (In [CSpace]), Str cyr_INN],
        seq [Rep 1 None True (In [CSpace]), Str cyr_KPP], seq [Rep 1 None True (In [CSpace]),
        Str cyr_Adres], Eol]],
      seq [Str cyr_postavshchik, Rep 0 (Some 1) True (In [CChar 58, CChar 45]),
        Rep 1 None True (In [CSpace]), Grp 1 (seq [alt [Str cyr_OOO, Str cyr_AO, Str cyr_TD,
        Str cyr_IP], Rep 1 None True (In [CSpace]), Str [34], Rep 1 None True (NotLit 34),
        Str [34]]), alt [seq [Rep 1 None True (In [CSpace]), Str cyr_INN],
        seq [Rep 1 None True (In [CSpace]), Str cyr_KPP], seq [Rep 1 None True (In [CSpace]),
        Str cyr_Adres], Eol]],
      seq [Str cyr_postavshchik, Rep 0 (Some 1) True (In [CChar 58, CChar 45]),
        Rep 1 None True (In [CSpace]), Grp 1 (seq [alt [Str cyr_OOO, Str cyr_AO, Str cyr_TD,
        Str cyr_IP], Rep 1 None True (In [CSpace]), Rep 3 None True (In [CRange 1040 1071,
        CRange 1072 1103, CRange 65 90, CRange 97 122]), Rep 0 None False (In [CRange 1040 1071,
        CRange 1072 1103, CRange 65 90, CRange 97 122, CSpace, CChar 44, CChar 46])]),
        alt [seq [Rep 1 None True (In [CSpace]), Str cyr_INN],
        seq [Rep 1 None True (In [CSpace]), Str cyr_KPP], seq [Rep 1 None True (In [CSpace]),
        Str cyr_Adres], Eol]],
      seq [Str cyr_postavshchik, Rep 0 None False (NotLit 1087),
        Rep 0 (Some 1) True (In [CChar 58, CChar 45]), Rep 0 None True (In [CSpace]),
        Grp 1 (seq [alt [Str cyr_OOO, Str cyr_AO], Rep 1 None True (In [CSpace]), Str cyr_TD,
        Rep 1 None True (In [CSpace]), Str [34], Rep 1 None True (In [CRange 1040 1071,
        CRange 1072 1103, CRange 65 90, CRange 97 122, CSpace, CChar 44, CChar 46]), Str [34]]),
        Look False (seq [Rep 0 None True (NotLit 1087), Str cyr_pokupatel])],
      seq [Str cyr_postavshchik, Rep 0 None False (NotLit 1087),
        Rep 0 (Some 1) True (In [CChar 58, CChar 45]), Rep 0 None True (In [CSpace]),
        Grp 1 (seq [alt [Str cyr_OOO, Str cyr_AO], Rep 1 None True (In [CSpace]), Str cyr_TD,
        Rep 1 None True (In [CSpace]), Rep 3 None False (In [CRange 1040 1071, CRange 1072 1103,
        CRange 65 90, CRange 97 122, CSpace, CChar 44, CChar 46])]),
        alt [seq [Rep 1 None True (In [CSpace]), Str cyr_INN],
        seq [Rep 1 None True (In [CSpace]), Str cyr_KPP]],
        Look False (seq [Rep 0 None True (NotLit 1087), Str cyr_pokupatel])],
      seq [Str cyr_ispolnitel, Rep 0 (Some 1) True (In [CChar 58, CChar 45]),
        Rep 1 None True (In [CSpace]), Grp 1 (seq [alt [Str cyr_OOO, Str cyr_AO, Str cyr_TD,
        Str cyr_IP], Rep 1 None True (In [CSpace]), Str [34], Rep 1 None True (NotLit 34),
        Str [34]]), alt [seq [Rep 1 None True (In [CSpace]), Str cyr_INN],
        seq [Rep 1 None True (In [CSpace]), Str cyr_KPP], seq [Rep 1 None True (In [CSpace]),
        Str cyr_Adres], Eol]],
      seq [Str cyr_prodavets, Rep 0 (Some 1) True (In [CChar 58, CChar 45]),
        Rep 1 None True (In [CSpace]), Grp 1 (seq [alt [Str cyr_OOO, Str cyr_AO, Str cyr_TD,
        Str cyr_IP], Rep 1 None True (In [CSpace]), Str [34], Rep 1 None True (NotLit 34),
        Str [34]]), alt [seq [Rep 1 None True (In [CSpace]), Str cyr_INN],
        seq [Rep 1 None True (In [CSpace]), Str cyr_KPP], seq [Rep 1 None True (In [CSpace]),
        Str cyr_Adres], Eol]],
      seq [Str cyr_postavshchik, Rep 0 None True (NotLit 58), Rep 0 (Some 1) True (In [CChar 58,
        CChar 45]), Rep 0 None True (In [CSpace]), Grp 1 (seq [Str cyr_IP,
        Rep 1 None True (In [CSpace]), Rep 1 None False (In [CRange 1040 1071, CRange 1072 1103,
        CRange 65 90, CRange 97 122, CSpace, CChar 44, CChar 46])]),
        alt [seq [Rep 1 None True (In [CSpace]), Str cyr_INN],
        seq [Rep 1 None True (In [CSpace]), Str cyr_KPP], seq [Rep 1 None True (Lit 1089),
        Str cyr_Adres], Eol]],
      seq [Str cyr_otpravitel, Rep 0 None True (In [CSpace]), Rep 0 (Some 1) True (In [CChar 58,
        CChar 45]), Rep 0 None True (In [CSpace]), Grp 1 (seq [Chr (In [CRange 1040 1071]),
        Rep 1 None True (In [CRange 1072 1103]), Rep 1 None True (In [CSpace]),
        Chr (In [CRange 1040 1071]), Rep 1 None True (In [CRange 1072 1103])])]]"

text \<open>The patterns of the field \<open>buyer\<close>, in order:
  \<^verbatim>\<open>
  ~pokupatel~\s+((?:~OOO~|~AO~|~TD~|~IP~)\s+"[^"]+")
  ~pokupatel~\s+((?:~OOO~|~AO~|~TD~|~IP~)\s+[~A~-~YA~~a~-~ya~A-Za-z]{2,}[~A~-~YA~~a~-~ya~A-Za-z\s,\.]*)
  ~pokupatel~[^\n]*?\n\s*((?:~OOO~|~AO~|~TD~|~IP~)\s+"[^"]+")
  ~pokupatel~[^\n]*?\n\s*((?:~OOO~|~AO~|~TD~|~IP~)\s+[~A~-~YA~~a~-~ya~A-Za-z]{2,}[~A~-~YA~~a~-~ya~A-Za-z\s,\.]*)
  ~pokupatel~[:\-]?\s+((?:~OOO~|~AO~|~TD~|~IP~)\s+"[^"]+")(?:\s+~INN~|\s+~KPP~|\s+~Adres~|$)
  ~pokupatel~[:\-]?\s+((?:~OOO~|~AO~|~TD~|~IP~)\s+[~A~-~YA~~a~-~ya~A-Za-z]{2,}[~A~-~YA~~a~-~ya~A-Za-z\s,\.]*?)(?:\s+~INN~|\s+~KPP~|\s+~Adres~|$)
  ~zakazchik~[:\-]?\s+((?:~OOO~|~AO~|~TD~|~IP~)\s+"[^"]+")(?:\s+~INN~|\s+~KPP~|\s+~Adres~|$)
  ~klient~[:\-]?\s+((?:~OOO~|~AO~|~TD~|~IP~)\s+"[^"]+")(?:\s+~INN~|\s+~KPP~|\s+~Adres~|$)
  ~pokupatel~[^:]*[:\-]?\s*(~IP~\s+[~A~-~YA~~a~-~ya~A-Za-z\s,\.]+?)(?:\~s~+~INN~|\~s~+~KPP~|\~s~+~Adres~|$)"?
  ~poluchatel~\s*[:\-]?\s*([~A~-~YA~][~a~-~ya~]+\s+[~A~-~YA~]\.)
  ~poluchatel~\s*[:\-]?\s*([~A~-~YA~][~a~-~ya~]+\s+[~A~-~YA~][~a~-~ya~]+)
  \<close>
\<close>

definition buyer_patterns :: "re list" where
  "buyer_patterns =
     [seq [Str cyr_pokupatel, Rep 1 None True (In [CSpace]), Grp 1 (seq [alt [Str cyr_OOO,
        Str cyr_AO, Str cyr_TD, Str cyr_IP], Rep 1 None True (In [CSpace]), Str [34],
        Rep 1 None True (NotLit 34), Str [34]])],
      seq [Str cyr_pokupatel, Rep 1 None True (In [CSpace]), Grp 1 (seq [alt [Str cyr_OOO,
        Str cyr_AO, Str cyr_TD, Str cyr_IP], Rep 1 None True (In [CSpace]),
        Rep 2 None True (In [CRange 1040 1071, CRange 1072 1103, CRange 65 90, CRange 97 122]),
        Rep 0 None True (In [CRange 1040 1071, CRange 1072 1103, CRange 65 90, CRange 97 122,
        CSpace, CChar 44, CChar 46])])],
      seq [Str cyr_pokupatel, Rep 0 None False (NotLit 10), Str [10],
        Rep 0 None True (In [CSpace]), Grp 1 (seq [alt [Str cyr_OOO, Str cyr_AO, Str cyr_TD,
        Str cyr_IP], Rep 1 None True (In [CSpace]), Str [34], Rep 1 None True (NotLit 34),
        Str [34]])],
      seq [Str cyr_pokupatel, Rep 0 None False (NotLit 10), Str [10],
        Rep 0 None True (In [CSpace]), Grp 1 (seq [alt [Str cyr_OOO, Str cyr_AO, Str cyr_TD,
        Str cyr_IP], Rep 1 None True (In [CSpace]), Rep 2 None True (In [CRange 1040 1071,
        CRange 1072 1103, CRange 65 90, CRange 97 122]), Rep 0 None True (In [CRange 1040 1071,
        CRange 1072 1103, CRange 65 90, CRange 97 122, CSpace, CChar 44, CChar 46])])],
      seq [Str cyr_pokupatel, Rep 0 (Some 1) True (In [CChar 58, CChar 45]),
        Rep 1 None True (In [CSpace]), Grp 1 (seq [alt [Str cyr_OOO, Str cyr_AO, Str cyr_TD,
        Str cyr_IP], Rep 1 None True (In [CSpace]), Str [34], Rep 1 None True (NotLit 34),
        Str [34]]), alt [seq [Rep 1 None True (In [CSpace]), Str cyr_INN],
        seq [Rep 1 None True (In [CSpace]), Str cyr_KPP], seq [Rep 1 None True (In [CSpace]),
        Str cyr_Adres], Eol]],
      seq [Str cyr_pokupatel, Rep 0 (Some 1) True (In [CChar 58, CChar 45]),
        Rep 1 None True (In [CSpace]), Grp 1 (seq [alt [Str cyr_OOO, Str cyr_AO, Str cyr_TD,
        Str cyr_IP], Rep 1 None True (In [CSpace]), Rep 2 None True (In [CRange 1040 1071,
        CRange 1072 1103, CRange 65 90, CRange 97 122]), Rep 0 None False (In [CRange 1040 1071,
        CRange 1072 1103, CRange 65 90, CRange 97 122, CSpace, CChar 44, CChar 46])]),
        alt [seq [Rep 1 None True (In [CSpace]), Str cyr_INN],
        seq [Rep 1 None True (In [CSpace]), Str cyr_KPP], seq [Rep 1 None True (In [CSpace]),
        Str cyr_Adres], Eol]],
      seq [Str cyr_zakazchik, Rep 0 (Some 1) True (In [CChar 58, CChar 45]),
        Rep 1 None True (In [CSpace]), Grp 1 (seq [alt [Str cyr_OOO, Str cyr_AO, Str cyr_TD,
        Str cyr_IP], Rep 1 None True (In [CSpace]), Str [34], Rep 1 None True (NotLit 34),
        Str [34]]), alt [seq [Rep 1 None True (In [CSpace]), Str cyr_INN],
        seq [Rep 1 None True (In [CSpace]), Str cyr_KPP], seq [Rep 1 None True (In [CSpace]),
        Str cyr_Adres], Eol]],
      seq [Str cyr_klient, Rep 0 (Some 1) True (In [CChar 58, CChar 45]),
        Rep 1 None True (In [CSpace]), Grp 1 (seq [alt [Str cyr_OOO, Str cyr_AO, Str cyr_TD,
        Str cyr_IP], Rep 1 None True (In [CSpace]), Str [34], Rep 1 None True (NotLit 34),
        Str [34]]), alt [seq [Rep 1 None True (In [CSpace]), Str cyr_INN],
        seq [Rep 1 None True (In [CSpace]), Str cyr_KPP], seq [Rep 1 None True (In [CSpace]),
        Str cyr_Adres], Eol]],
      seq [Str cyr_pokupatel, Rep 0 None True (NotLit 58), Rep 0 (Some 1) True (In [CChar 58,
        CChar 45]), Rep 0 None True (In [CSpace]), Grp 1 (seq [Str cyr_IP,
        Rep 1 None True (In [CSpace]), Rep 1 None False (In [CRange 1040 1071, CRange 1072 1103,
        CRange 65 90, CRange 97 122, CSpace, CChar 44, CChar 46])]),
        alt [seq [Rep 1 None True (Lit 1089), Str cyr_INN], seq [Rep 1 None True (Lit 1089),
        Str cyr_KPP], seq [Rep 1 None True (Lit 1089), Str cyr_Adres], Eol],
        Rep 0 (Some 1) True (Lit 34)],
      seq [Str cyr_poluchatel, Rep 0 None True (In [CSpace]), Rep 0 (Some 1) True (In [CChar 58,
        CChar 45]), Rep 0 None True (In [CSpace]), Grp 1 (seq [Chr (In [CRange 1040 1071]),
        Rep 1 None True (In [CRange 1072 1103]), Rep 1 None True (In [CSpace]),
        Chr (In [CRange 1040 1071]), Str (ascii ''.'')])],
      seq [Str cyr_poluchatel, Rep 0 None True (In [CSpace]), Rep 0 (Some 1) True (In [CChar 58,
        CChar 45]), Rep 0 None True (In [CSpace]), Grp 1 (seq [Chr (In [CRange 1040 1071]),
        Rep 1 None True (In [CRange 1072 1103]), Rep 1 None True (In [CSpace]),
        Chr (In [CRange 1040 1071]), Rep 1 None True (In [CRange 1072 1103])])]]"

text \<open>The patterns of the field \<open>inn\<close>, in order:
  \<^verbatim>\<open>
  ~postavshchik~[^~p~]*?~INN~\s*[:\-]?\s*(\d{10,12})(?![^~p~]*~pokupatel~)
  ~ispolnitel~[^~p~]*?~INN~\s*[:\-]?\s*(\d{10,12})(?![^~p~]*~pokupatel~)
  ~prodavets~[^~p~]*?~INN~\s*[:\-]?\s*(\d{10,12})(?![^~p~]*~pokupatel~)
  ~postavshchik~[^:]*[:\-]?[^\d]*~INN~\s*[:\-]?\s*(\d{10,12})
  ~ispolnitel~[^:]*[:\-]?[^\d]*~INN~\s*[:\-]?\s*(\d{10,12})
  ~prodavets~[^:]*[:\-]?[^\d]*~INN~\s*[:\-]?\s*(\d{10,12})
  \<close>
\<close>

definition inn_patterns :: "re list" where
  "inn_patterns =
     [seq [Str cyr_postavshchik, Rep 0 None False (NotLit 1087), Str cyr_INN,
        Rep 0 None True (In [CSpace]), Rep 0 (Some 1) True (In [CChar 58, CChar 45]),
        Rep 0 None True (In [CSpace]), Grp 1 (Rep 10 (Some 12) True (In [CDigit])),
        Look False (seq [Rep 0 None True (NotLit 1087), Str cyr_pokupatel])],
      seq [Str cyr_ispolnitel, Rep 0 None False (NotLit 1087), Str cyr_INN,
        Rep 0 None True (In [CSpace]), Rep 0 (Some 1) True (In [CChar 58, CChar 45]),
        Rep 0 None True (In [CSpace]), Grp 1 (Rep 10 (Some 12) True (In [CDigit])),
        Look False (seq [Rep 0 None True (NotLit 1087), Str cyr_pokupatel])],
      seq [Str cyr_prodavets, Rep 0 None False (NotLit 1087), Str cyr_INN,
        Rep 0 None True (In [CSpace]), Rep 0 (Some 1) True (In [CChar 58, CChar 45]),
        Rep 0 None True (In [CSpace]), Grp 1 (Rep 10 (Some 12) True (In [CDigit])),
        Look False (seq [Rep 0 None True (NotLit 1087), Str cyr_pokupatel])],
      seq [Str cyr_postavshchik, Rep 0 None True (NotLit 58), Rep 0 (Some 1) True (In [CChar 58,
        CChar 45]), Rep 0 None True (NotIn [CDigit]), Str cyr_INN,
        Rep 0 None True (In [CSpace]), Rep 0 (Some 1) True (In [CChar 58, CChar 45]),
        Rep 0 None True (In [CSpace]), Grp 1 (Rep 10 (Some 12) True (In [CDigit]))],
      seq [Str cyr_ispolnitel, Rep 0 None True (NotLit 58), Rep 0 (Some 1) True (In [CChar 58,
        CChar 45]), Rep 0 None True (NotIn [CDigit]), Str cyr_INN,
        Rep 0 None True (In [CSpace]), Rep 0 (Some 1) True (In [CChar 58, CChar 45]),
        Rep 0 None True (In [CSpace]), Grp 1 (Rep 10 (Some 12) True (In [CDigit]))],
      seq [Str cyr_prodavets, Rep 0 None True (NotLit 58), Rep 0 (Some 1) True (In [CChar 58,
        CChar 45]), Rep 0 None True (NotIn [CDigit]), Str cyr_INN,
        Rep 0 None True (In [CSpace]), Rep 0 (Some 1) True (In [CChar 58, CChar 45]),
        Rep 0 None True (In [CSpace]), Grp 1 (Rep 10 (Some 12) True (In [CDigit]))]]"

text \<open>The patterns of the field \<open>kpp\<close>, in order:
  \<^verbatim>\<open>
  ~postavshchik~[^~p~]*?~KPP~\s*[:\-]?\s*(\d{9})(?![^~p~]*~pokupatel~)
  ~ispolnitel~[^~p~]*?~KPP~\s*[:\-]?\s*(\d{9})(?![^~p~]*~pokupatel~)
  ~prodavets~[^~p~]*?~KPP~\s*[:\-]?\s*(\d{9})(?![^~p~]*~pokupatel~)
  ~postavshchik~[^:]*[:\-]?[^\d]*~KPP~\s*[:\-]?\s*(\d{9})
  ~ispolnitel~[^:]*[:\-]?[^\d]*~KPP~\s*[:\-]?\s*(\d{9})
  ~prodavets~[^:]*[:\-]?[^\d]*~KPP~\s*[:\-]?\s*(\d{9})
  \<close>
\<close>

definition kpp_patterns :: "re list" where
  "kpp_patterns =
     [seq [Str cyr_postavshchik, Rep 0 None False (NotLit 1087), Str cyr_KPP,
        Rep 0 None True (In [CSpace]), Rep 0 (Some 1) True (In [CChar 58, CChar 45]),
        Rep 0 None True (In [CSpace]), Grp 1 (Rep 9 (Some 9) True (In [CDigit])),
        Look False (seq [Rep 0 None True (NotLit 1087), Str cyr_pokupatel])],
      seq [Str cyr_ispolnitel, Rep 0 None False (NotLit 1087), Str cyr_KPP,
        Rep 0 None True (In [CSpace]), Rep 0 (Some 1) True (In [CChar 58, CChar 45]),
        Rep 0 None True (In [CSpace]), Grp 1 (Rep 9 (Some 9) True (In [CDigit])),
        Look False (seq [Rep 0 None True (NotLit 1087), Str cyr_pokupatel])],
      seq [Str cyr_prodavets, Rep 0 None False (NotLit 1087), Str cyr_KPP,
        Rep 0 None True (In [CSpace]), Rep 0 (Some 1) True (In [CChar 58, CChar 45]),
        Rep 0 None True (In [CSpace]), Grp 1 (Rep 9 (Some 9) True (In [CDigit])),
        Look False (seq [Rep 0 None True (NotLit 1087), Str cyr_pokupatel])],
      seq [Str cyr_postavshchik, Rep 0 None True (NotLit 58), Rep 0 (Some 1) True (In [CChar 58,
        CChar 45]), Rep 0 None True (NotIn [CDigit]), Str cyr_KPP,
        Rep 0 None True (In [CSpace]), Rep 0 (Some 1) True (In [CChar 58, CChar 45]),
        Rep 0 None True (In [CSpace]), Grp 1 (Rep 9 (Some 9) True (In [CDigit]))],
      seq [Str cyr_ispolnitel, Rep 0 None True (NotLit 58), Rep 0 (Some 1) True (In [CChar 58,
        CChar 45]), Rep 0 None True (NotIn [CDigit]), Str cyr_KPP,
        Rep 0 None True (In [CSpace]), Rep 0 (Some 1) True (In [CChar 58, CChar 45]),
        Rep 0 None True (In [CSpace]), Grp 1 (Rep 9 (Some 9) True (In [CDigit]))],
      seq [Str cyr_prodavets, Rep 0 None True (NotLit 58), Rep 0 (Some 1) True (In [CChar 58,
        CChar 45]), Rep 0 None True (NotIn [CDigit]), Str cyr_KPP,
        Rep 0 None True (In [CSpace]), Rep 0 (Some 1) True (In [CChar 58, CChar 45]),
        Rep 0 None True (In [CSpace]), Grp 1 (Rep 9 (Some 9) True (In [CDigit]))]]"

text \<open>The patterns of the field \<open>total_amount\<close>, in order:
  \<^verbatim>\<open>
  ~vsego~\s+~k~\s+~oplate~\s*[:\-]?\s*([\d\s,\.]{3,}[,\.]\d{2})
  ~vsego~\s+~s~\s+~nds~\s*[:\-]?\s*([\d\s,\.]{3,}[,\.]\d{2})
  ~k~\s+~oplate~\s*[:\-]?\s*([\d\s,\.]{3,}[,\.]\d{2})
  ~itogo~[^,]*~vkl~[^,]*~nds~[^,]*[:\-]?\s*([\d\s,\.]{3,}[,\.]\d{2})
  ~itogo~\s*[:\-]?\s*([\d\s,\.]{3,}[,\.]\d{2})\s*(?:~rub~|RUB|~U+20BD~|~r~\.)
  (?:~itogo~|total)\s*[:\-]?\s*([\d\s,\.]{3,}[,\.]\d{2})
  ([\d\s,\.]{3,}[,\.]\d{2})\s*(?:~rub~|RUB|~U+20BD~|~r~\.)\s*(?:~itogo~|total)
  ~summa~\s+([\d\s,\.]{3,}[,\.]\d{2})
  ~na~\s+~summu~\s+([\d\s,\.]{3,}[,\.]\d{2})\s*(?:~rub~|RUB|~U+20BD~|~r~\.)
  \<close>
\<close>

definition total_amount_patterns :: "re list" where
  "total_amount_patterns =
     [seq [Str cyr_vsego, Rep 1 None True (In [CSpace]), Str cyr_k,
        Rep 1 None True (In [CSpace]), Str cyr_oplate, Rep 0 None True (In [CSpace]),
        Rep 0 (Some 1) True (In [CChar 58, CChar 45]), Rep 0 None True (In [CSpace]),
        Grp 1 (seq [Rep 3 None True (In [CDigit, CSpace, CChar 44, CChar 46]),
        Chr (In [CChar 44, CChar 46]), Rep 2 (Some 2) True (In [CDigit])])],
      seq [Str cyr_vsego, Rep 1 None True (In [CSpace]), Str cyr_s,
        Rep 1 None True (In [CSpace]), Str cyr_nds, Rep 0 None True (In [CSpace]),
        Rep 0 (Some 1) True (In [CChar 58, CChar 45]), Rep 0 None True (In [CSpace]),
        Grp 1 (seq [Rep 3 None True (In [CDigit, CSpace, CChar 44, CChar 46]),
        Chr (In [CChar 44, CChar 46]), Rep 2 (Some 2) True (In [CDigit])])],
      seq [Str cyr_k, Rep 1 None True (In [CSpace]), Str cyr_oplate,
        Rep 0 None True (In [CSpace]), Rep 0 (Some 1) True (In [CChar 58, CChar 45]),
        Rep 0 None True (In [CSpace]), Grp 1 (seq [Rep 3 None True (In [CDigit, CSpace,
        CChar 44, CChar 46]), Chr (In [CChar 44, CChar 46]),
        Rep 2 (Some 2) True (In [CDigit])])],
      seq [Str cyr_itogo, Rep 0 None True (NotLit 44), Str cyr_vkl, Rep 0 None True (NotLit 44),
        Str cyr_nds, Rep 0 None True (NotLit 44), Rep 0 (Some 1) True (In [CChar 58, CChar 45]),
        Rep 0 None True (In [CSpace]), Grp 1 (seq [Rep 3 None True (In [CDigit, CSpace,
        CChar 44, CChar 46]), Chr (In [CChar 44, CChar 46]),
        Rep 2 (Some 2) True (In [CDigit])])],
      seq [Str cyr_itogo, Rep 0 None True (In [CSpace]), Rep 0 (Some 1) True (In [CChar 58,
        CChar 45]), Rep 0 None True (In [CSpace]), Grp 1 (seq [Rep 3 None True (In [CDigit,
        CSpace, CChar 44, CChar 46]), Chr (In [CChar 44, CChar 46]),
        Rep 2 (Some 2) True (In [CDigit])]), Rep 0 None True (In [CSpace]), alt [Str cyr_rub,
        Str (ascii ''RUB''), Str [8381], seq [Str cyr_r, Str (ascii ''.'')]]],
      seq [alt [Str cyr_itogo, Str (ascii ''total'')], Rep 0 None True (In [CSpace]),
        Rep 0 (Some 1) True (In [CChar 58, CChar 45]), Rep 0 None True (In [CSpace]),
        Grp 1 (seq [Rep 3 None True (In [CDigit, CSpace, CChar 44, CChar 46]),
        Chr (In [CChar 44, CChar 46]), Rep 2 (Some 2) True (In [CDigit])])],
      seq [Grp 1 (seq [Rep 3 None True (In [CDigit, CSpace, CChar 44, CChar 46]),
        Chr (In [CChar 44, CChar 46]), Rep 2 (Some 2) True (In [CDigit])]),
        Rep 0 None True (In [CSpace]), alt [Str cyr_rub, Str (ascii ''RUB''), Str [8381],
        seq [Str cyr_r, Str (ascii ''.'')]], Rep 0 None True (In [CSpace]), alt [Str cyr_itogo,
        Str (ascii ''total'')]],
      seq [Str cyr_summa, Rep 1 None True (In [CSpace]),
        Grp 1 (seq [Rep 3 None True (In [CDigit, CSpace, CChar 44, CChar 46]),
        Chr (In [CChar 44, CChar 46]), Rep 2 (Some 2) True (In [CDigit])])],
      seq [Str cyr_na, Rep 1 None True (In [CSpace]), Str cyr_summu,
        Rep 1 None True (In [CSpace]), Grp 1 (seq [Rep 3 None True (In [CDigit, CSpace,
        CChar 44, CChar 46]), Chr (In [CChar 44, CChar 46]),
        Rep 2 (Some 2) True (In [CDigit])]), Rep 0 None True (In [CSpace]), alt [Str cyr_rub,
        Str (ascii ''RUB''), Str [8381], seq [Str cyr_r, Str (ascii ''.'')]]]]"

text \<open>The patterns of the field \<open>vat\<close>, in order:
  \<^verbatim>\<open>
  ~v~\s+~tom~\s+~chisle~\s+~nds~\s*\d*\s*%\s*[:\-]?\s*([\d\s,\.]{3,}[,\.]\d{2})
  ~nds~\s*\(?\d+\s*%\)?\s*[:\-]?\s*([\d\s,\.]{3,}[,\.]\d{2})
  (?:~NDS~|VAT|vat)\s*[:\-]?\s*([\d\s,\.]{3,}[,\.]\d{2})\s*(?:~rub~|RUB|%)
  ~NDS~\s*(\d+)\s*%\s*[:\-]?\s*([\d\s,\.]{3,}[,\.]\d{2})
  ~v~\s+~tom~\s+~chisle~\s+~nds~\s*[:\-]?\s*([\d\s,\.]{3,}[,\.]\d{2})
  \<close>
\<close>

definition vat_patterns :: "re list" where
  "vat_patterns =
     [seq [Str cyr_v, Rep 1 None True (In [CSpace]), Str cyr_tom, Rep 1 None True (In [CSpace]),
        Str cyr_chisle, Rep 1 None True (In [CSpace]), Str cyr_nds,
        Rep 0 None True (In [CSpace]), Rep 0 None True (In [CDigit]),
        Rep 0 None True (In [CSpace]), Str (ascii ''%''), Rep 0 None True (In [CSpace]),
        Rep 0 (Some 1) True (In [CChar 58, CChar 45]), Rep 0 None True (In [CSpace]),
        Grp 1 (seq [Rep 3 None True (In [CDigit, CSpace, CChar 44, CChar 46]),
        Chr (In [CChar 44, CChar 46]), Rep 2 (Some 2) True (In [CDigit])])],
      seq [Str cyr_nds, Rep 0 None True (In [CSpace]), Rep 0 (Some 1) True (Lit 40),
        Rep 1 None True (In [CDigit]), Rep 0 None True (In [CSpace]), Str (ascii ''%''),
        Rep 0 (Some 1) True (Lit 41), Rep 0 None True (In [CSpace]),
        Rep 0 (Some 1) True (In [CChar 58, CChar 45]), Rep 0 None True (In [CSpace]),
        Grp 1 (seq [Rep 3 None True (In [CDigit, CSpace, CChar 44, CChar 46]),
        Chr (In [CChar 44, CChar 46]), Rep 2 (Some 2) True (In [CDigit])])],
      seq [alt [Str cyr_NDS, Str (ascii ''VAT''), Str (ascii ''vat'')],
        Rep 0 None True (In [CSpace]), Rep 0 (Some 1) True (In [CChar 58, CChar 45]),
        Rep 0 None True (In [CSpace]), Grp 1 (seq [Rep 3 None True (In [CDigit, CSpace,
        CChar 44, CChar 46]), Chr (In [CChar 44, CChar 46]),
        Rep 2 (Some 2) True (In [CDigit])]), Rep 0 None True (In [CSpace]), alt [Str cyr_rub,
        Str (ascii ''RUB''), Str (ascii ''%'')]],
      seq [Str cyr_NDS, Rep 0 None True (In [CSpace]), Grp 1 (Rep 1 None True (In [CDigit])),
        Rep 0 None True (In [CSpace]), Str (ascii ''%''), Rep 0 None True (In [CSpace]),
        Rep 0 (Some 1) True (In [CChar 58, CChar 45]), Rep 0 None True (In [CSpace]),
        Grp 2 (seq [Rep 3 None True (In [CDigit, CSpace, CChar 44, CChar 46]),
        Chr (In [CChar 44, CChar 46]), Rep 2 (Some 2) True (In [CDigit])])],
      seq [Str cyr_v, Rep 1 None True (In [CSpace]), Str cyr_tom, Rep 1 None True (In [CSpace]),
        Str cyr_chisle, Rep 1 None True (In [CSpace]), Str cyr_nds,
        Rep 0 None True (In [CSpace]), Rep 0 (Some 1) True (In [CChar 58, CChar 45]),
        Rep 0 None True (In [CSpace]), Grp 1 (seq [Rep 3 None True (In [CDigit, CSpace,
        CChar 44, CChar 46]), Chr (In [CChar 44, CChar 46]),
        Rep 2 (Some 2) True (In [CDigit])])]]"

text \<open>The patterns tried, without \<open>MULTILINE\<close>, when the cleaned buyer name is degenerate:
  \<^verbatim>\<open>
  ~pokupatel~\s+(~OOO~\s+"[~A~-~YA~~a~-~ya~A-Za-z\s,\.]+")(?:\s+~INN~|\s+~KPP~|\s+~Adres~|$)
  ~pokupatel~\s+(~OOO~\s+[~A~-~YA~~a~-~ya~A-Za-z\s,\.]{3,}?)(?:\s+~INN~|\s+~KPP~|\s+~Adres~|$)
  ~pokupatel~[^:]*[:\-]?\s*(~OOO~\s+"[~A~-~YA~~a~-~ya~A-Za-z\s,\.]+")(?:\s+~INN~|\s+~KPP~|\s+~Adres~|$)"?
  ~pokupatel~[^:]*[:\-]?\s*(~OOO~\s+"[~A~-~YA~~a~-~ya~A-Za-z\s,\.]+?)(?:\s+~INN~|\s+~KPP~|\s+~Adres~|$)"?
  ~zakazchik~[^:]*[:\-]?\s*(~OOO~\s+"[~A~-~YA~~a~-~ya~A-Za-z\s,\.]+?)(?:\s+~INN~|\s+~KPP~|\~s~+~Adres~|$)"?
  ~poluchatel~\s+([~A~-~YA~][~a~-~ya~]+\s+[~A~-~YA~]\.)
  ~poluchatel~\s+([~A~-~YA~][~a~-~ya~]+\s+[~A~-~YA~][~a~-~ya~]+)
  \<close>
\<close>

definition buyer_fallback_patterns :: "re list" where
  "buyer_fallback_patterns =
     [seq [Str cyr_pokupatel, Rep 1 None True (In [CSpace]), Grp 1 (seq [Str cyr_OOO,
        Rep 1 None True (In [CSpace]), Str [34], Rep 1 None True (In [CRange 1040 1071,
        CRange 1072 1103, CRange 65 90, CRange 97 122, CSpace, CChar 44, CChar 46]), Str [34]]),
        alt [seq [Rep 1 None True (In [CSpace]), Str cyr_INN],
        seq [Rep 1 None True (In [CSpace]), Str cyr_KPP], seq [Rep 1 None True (In [CSpace]),
        Str cyr_Adres], Eol]],
      seq [Str cyr_pokupatel, Rep 1 None True (In [CSpace]), Grp 1 (seq [Str cyr_OOO,
        Rep 1 None True (In [CSpace]), Rep 3 None False (In [CRange 1040 1071, CRange 1072 1103,
        CRange 65 90, CRange 97 122, CSpace, CChar 44, CChar 46])]),
        alt [seq [Rep 1 None True (In [CSpace]), Str cyr_INN],
        seq [Rep 1 None True (In [CSpace]), Str cyr_KPP], seq [Rep 1 None True (In [CSpace]),
        Str cyr_Adres], Eol]],
      seq [Str cyr_pokupatel, Rep 0 None True (NotLit 58), Rep 0 (Some 1) True (In [CChar 58,
        CChar 45]), Rep 0 None True (In [CSpace]), Grp 1 (seq [Str cyr_OOO,
        Rep 1 None True (In [CSpace]), Str [34], Rep 1 None True (In [CRange 1040 1071,
        CRange 1072 1103, CRange 65 90, CRange 97 122, CSpace, CChar 44, CChar 46]), Str [34]]),
        alt [seq [Rep 1 None True (In [CSpace]), Str cyr_INN],
        seq [Rep 1 None True (In [CSpace]), Str cyr_KPP], seq [Rep 1 None True (In [CSpace]),
        Str cyr_Adres], Eol], Rep 0 (Some 1) True (Lit 34)],
      seq [Str cyr_pokupatel, Rep 0 None True (NotLit 58), Rep 0 (Some 1) True (In [CChar 58,
        CChar 45]), Rep 0 None True (In [CSpace]), Grp 1 (seq [Str cyr_OOO,
        Rep 1 None True (In [CSpace]), Str [34], Rep 1 None False (In [CRange 1040 1071,
        CRange 1072 1103, CRange 65 90, CRange 97 122, CSpace, CChar 44, CChar 46])]),
        alt [seq [Rep 1 None True (In [CSpace]), Str cyr_INN],
        seq [Rep 1 None True (In [CSpace]), Str cyr_KPP], seq [Rep 1 None True (In [CSpace]),
        Str cyr_Adres], Eol], Rep 0 (Some 1) True (Lit 34)],
      seq [Str cyr_zakazchik, Rep 0 None True (NotLit 58), Rep 0 (Some 1) True (In [CChar 58,
        CChar 45]), Rep 0 None True (In [CSpace]), Grp 1 (seq [Str cyr_OOO,
        Rep 1 None True (In [CSpace]), Str [34], Rep 1 None False (In [CRange 1040 1071,
        CRange 1072 1103, CRange 65 90, CRange 97 122, CSpace, CChar 44, CChar 46])]),
        alt [seq [Rep 1 None True (In [CSpace]), Str cyr_INN],
        seq [Rep 1 None True (In [CSpace]), Str cyr_KPP], seq [Rep 1 None True (Lit 1089),
        Str cyr_Adres], Eol], Rep 0 (Some 1) True (Lit 34)],
      seq [Str cyr_poluchatel, Rep 1 None True (In [CSpace]),
        Grp 1 (seq [Chr (In [CRange 1040 1071]), Rep 1 None True (In [CRange 1072 1103]),
        Rep 1 None True (In [CSpace]), Chr (In [CRange 1040 1071]), Str (ascii ''.'')])],
      seq [Str cyr_poluchatel, Rep 1 None True (In [CSpace]),
        Grp 1 (seq [Chr (In [CRange 1040 1071]), Rep 1 None True (In [CRange 1072 1103]),
        Rep 1 None True (In [CSpace]), Chr (In [CRange 1040 1071]),
        Rep 1 None True (In [CRange 1072 1103])])]]"

text \<open>The patterns tried, without \<open>MULTILINE\<close>, when the cleaned seller name is degenerate:
  \<^verbatim>\<open>
  ~postavshchik~[^:]*[:\-]?\s*((?:~OOO~|~AO~)\s*~TD~\s*"?[~A~-~YA~~a~-~ya~A-Za-z\s,\.]+")(?:\s+~INN~|\s+~KPP~|\s+~Adres~|$)
  ~postavshchik~[^:]*[:\-]?\s*((?:~OOO~|~AO~)\s*~TD~\s*[~A~-~YA~~a~-~ya~A-Za-z\s,\.]{3,}?)(?:\s+~INN~|\s+~KPP~|\s+~Adres~|$)
  ~postavshchik~[^:]*[:\-]?\s*(~OOO~\s*"?[~A~-~YA~~a~-~ya~A-Za-z\s,\.]+?)(?:\s+~INN~|\s+~KPP~|\s+~Adres~|$)"?
  ~ispolnitel~[^:]*[:\-]?\s*(~OOO~\s*"?[~A~-~YA~~a~-~ya~A-Za-z\s,\.]+?)(?:\s+~INN~|\s+~KPP~|\s+~Adres~|$)"?
  ~otpravitel~\s+([~A~-~YA~][~a~-~ya~]+\s+[~A~-~YA~][~a~-~ya~]+)
  \<close>
\<close>

definition seller_fallback_patterns :: "re list" where
  "seller_fallback_patterns =
     [seq [Str cyr_postavshchik, Rep 0 None True (NotLit 58), Rep 0 (Some 1) True (In [CChar 58,
        CChar 45]), Rep 0 None True (In [CSpace]), Grp 1 (seq [alt [Str cyr_OOO, Str cyr_AO],
        Rep 0 None True (In [CSpace]), Str cyr_TD, Rep 0 None True (In [CSpace]),
        Rep 0 (Some 1) True (Lit 34), Rep 1 None True (In [CRange 1040 1071, CRange 1072 1103,
        CRange 65 90, CRange 97 122, CSpace, CChar 44, CChar 46]), Str [34]]),
        alt [seq [Rep 1 None True (In [CSpace]), Str cyr_INN],
        seq [Rep 1 None True (In [CSpace]), Str cyr_KPP], seq [Rep 1 None True (In [CSpace]),
        Str cyr_Adres], Eol]],
      seq [Str cyr_postavshchik, Rep 0 None True (NotLit 58), Rep 0 (Some 1) True (In [CChar 58,
        CChar 45]), Rep 0 None True (In [CSpace]), Grp 1 (seq [alt [Str cyr_OOO, Str cyr_AO],
        Rep 0 None True (In [CSpace]), Str cyr_TD, Rep 0 None True (In [CSpace]),
        Rep 3 None False (In [CRange 1040 1071, CRange 1072 1103, CRange 65 90, CRange 97 122,
        CSpace, CChar 44, CChar 46])]), alt [seq [Rep 1 None True (In [CSpace]), Str cyr_INN],
        seq [Rep 1 None True (In [CSpace]), Str cyr_KPP], seq [Rep 1 None True (In [CSpace]),
        Str cyr_Adres], Eol]],
      seq [Str cyr_postavshchik, Rep 0 None True (NotLit 58), Rep 0 (Some 1) True (In [CChar 58,
        CChar 45]), Rep 0 None True (In [CSpace]), Grp 1 (seq [Str cyr_OOO,
        Rep 0 None True (In [CSpace]), Rep 0 (Some 1) True (Lit 34),
        Rep 1 None False (In [CRange 1040 1071, CRange 1072 1103, CRange 65 90, CRange 97 122,
        CSpace, CChar 44, CChar 46])]), alt [seq [Rep 1 None True (In [CSpace]), Str cyr_INN],
        seq [Rep 1 None True (In [CSpace]), Str cyr_KPP], seq [Rep 1 None True (In [CSpace]),
        Str cyr_Adres], Eol], Rep 0 (Some 1) True (Lit 34)],
      seq [Str cyr_ispolnitel, Rep 0 None True (NotLit 58), Rep 0 (Some 1) True (In [CChar 58,
        CChar 45]), Rep 0 None True (In [CSpace]), Grp 1 (seq [Str cyr_OOO,
        Rep 0 None True (In [CSpace]), Rep 0 (Some 1) True (Lit 34),
        Rep 1 None False (In [CRange 1040 1071, CRange 1072 1103, CRange 65 90, CRange 97 122,
        CSpace, CChar 44, CChar 46])]), alt [seq [Rep 1 None True (In [CSpace]), Str cyr_INN],
        seq [Rep 1 None True (In [CSpace]), Str cyr_KPP], seq [Rep 1 None True (In [CSpace]),
        Str cyr_Adres], Eol], Rep 0 (Some 1) True (Lit 34)],
      seq [Str cyr_otpravitel, Rep 1 None True (In [CSpace]),
        Grp 1 (seq [Chr (In [CRange 1040 1071]), Rep 1 None True (In [CRange 1072 1103]),
        Rep 1 None True (In [CSpace]), Chr (In [CRange 1040 1071]),
        Rep 1 None True (In [CRange 1072 1103])])]]"

text \<open>\<^verbatim>\<open>^[a-z~a~-~ya~]\s*[,]?$\<close>\<close>

definition re_single_letter :: re where
  "re_single_letter =
     seq [Bol, Chr (In [CRange 97 122, CRange 1072 1103]), Rep 0 None True (In [CSpace]),
       Rep 0 (Some 1) True (Lit 44), Eol]"

text \<open>\<^verbatim>\<open>^0+$\<close>\<close>

definition re_zeros :: re where
  "re_zeros =
     seq [Bol, Rep 1 None True (Lit 48), Eol]"

text \<open>\<^verbatim>\<open>^\d+$\<close>\<close>

definition re_digits :: re where
  "re_digits =
     seq [Bol, Rep 1 None True (In [CDigit]), Eol]"

text \<open>\<^verbatim>\<open>\s+[a-z]\s*$\<close>\<close>

definition re_trailing_letter :: re where
  "re_trailing_letter =
     seq [Rep 1 None True (In [CSpace]), Chr (In [CRange 97 122]),
       Rep 0 None True (In [CSpace]), Eol]"

text \<open>\<^verbatim>\<open>\s*[,]+$\<close>\<close>

definition re_trailing_commas :: re where
  "re_trailing_commas =
     seq [Rep 0 None True (In [CSpace]), Rep 1 None True (Lit 44), Eol]"

text \<open>\<^verbatim>\<open>^[a-z]\s*[,]?$\<close>\<close>

definition re_single_ascii_letter :: re where
  "re_single_ascii_letter =
     seq [Bol, Chr (In [CRange 97 122]), Rep 0 None True (In [CSpace]),
       Rep 0 (Some 1) True (Lit 44), Eol]"

text \<open>\<^verbatim>\<open>^[a-zA-Z\s,]+$\<close>\<close>

definition re_ascii_words :: re where
  "re_ascii_words =
     seq [Bol, Rep 1 None True (In [CRange 97 122, CRange 65 90, CSpace, CChar 44]), Eol]"

text \<open>The stop words: ~Karta~, ~Poluchatel~, ~Kvitantsiya~, ~Po~ ~voprosam~, ~poluchatelya~, ~karta~, ~Karta~ ~poluchatelya~, ~Sluzhba~, ~INN~, ~KPP~, ~Adres~.\<close>

definition stop_words :: "ustr list" where
  "stop_words =
     [cyr_Karta,
      cyr_Poluchatel,
      cyr_Kvitantsiya,
      cyr_Po @ ascii '' '' @ cyr_voprosam,
      cyr_poluchatelya,
      cyr_karta,
      cyr_Karta @ ascii '' '' @ cyr_poluchatelya,
      cyr_Sluzhba,
      cyr_INN,
      cyr_KPP,
      cyr_Adres]"

section \<open>Field extraction\<close>

text \<open>\<open>self.patterns.get(field_name, [])\<close>\<close>

definition patterns :: "string \<Rightarrow> re list" where
  "patterns field_name =
     (if field_name = ''invoice_number'' then invoice_number_patterns
      else if field_name = ''date'' then date_patterns
      else if field_name = ''seller'' then seller_patterns
      else if field_name = ''buyer'' then buyer_patterns
      else if field_name = ''inn'' then inn_patterns
      else if field_name = ''kpp'' then kpp_patterns
      else if field_name = ''total_amount'' then total_amount_patterns
      else if field_name = ''vat'' then vat_patterns
      else [])"

text \<open>
  The optional validator is a collaborator: given the field, the value and the text it
  returns a verdict and a confidence (a float), or raises. The extractor holds a flag and
  the classifier (\<open>None\<close> when none was created).
\<close>

type_synonym validator = "string \<Rightarrow> ustr \<Rightarrow> ustr \<Rightarrow> py_error + bool \<times> pyfloat"

text \<open>\<open>confidence < 0.5\<close> on floats: false for NaN.\<close>

definition below_threshold :: "pyfloat \<Rightarrow> bool" where
  "below_threshold confidence =
     (case confidence of Fin q \<Rightarrow> q < 1 / 2 | NInf \<Rightarrow> True | PInf \<Rightarrow> False | NaN \<Rightarrow> False)"

record extractor =
  use_ml_validation :: bool
  ml_classifier :: "validator option"

text \<open>The extractor that \<open>InvoiceDataExtractor()\<close> builds: no validation.\<close>

definition default_extractor :: extractor where
  "default_extractor = \<lparr>use_ml_validation = False, ml_classifier = None\<rparr>"

text \<open>What the body of the loop over the patterns decides for one candidate: \<open>continue\<close>
  with the next pattern, or return a value.\<close>

datatype verdict = Continue | Return ustr

text \<open>
  \<^verbatim>\<open>
  if match.lastindex and match.lastindex >= 1:
      value = match.group(1)
  else:
      value = match.group(0)
  \<close>
\<close>

definition candidate_value :: "pymatch \<Rightarrow> ustr option" where
  "candidate_value m =
     (case lastindex m of
        None \<Rightarrow> Some (group0 m)
      | Some n \<Rightarrow> if 1 \<le> n then group m 1 else Some (group0 m))"

text \<open>
  \<^verbatim>\<open>
  min_idx = len(value)
  for word in stop_words:
      idx = value.lower().find(word.lower())
      if idx > 0 and idx < min_idx:
          min_idx = idx
  if min_idx < len(value):
      value = value[:min_idx].strip()
      if '"' in value and value.count('"') % 2 == 1:
          value = value + '"'
  \<close>
\<close>

fun stop_word_index :: "ustr \<Rightarrow> ustr list \<Rightarrow> nat \<Rightarrow> nat" where
  "stop_word_index v [] min_idx = min_idx"
| "stop_word_index v (word # words) min_idx =
     (case py_find (py_lower v) (py_lower word) of
        None \<Rightarrow> stop_word_index v words min_idx
      | Some idx \<Rightarrow>
          if 0 < idx \<and> idx < min_idx then stop_word_index v words idx
          else stop_word_index v words min_idx)"

definition cut_at_stop_word :: "ustr \<Rightarrow> ustr" where
  "cut_at_stop_word v =
     (let min_idx = stop_word_index v stop_words (length v)
      in if min_idx < length v then
           (let v' = strip (take min_idx v)
            in if 34 \<in> set v' \<and> length (filter (\<lambda>c. c = 34) v') mod 2 = 1 then v' @ [34] else v')
         else v)"

text \<open>
  \<^verbatim>\<open>
  for pattern in seller_patterns:
      match = re.search(pattern, text, re.IGNORECASE)
      if match:
          value = match.group(1)
          break
  \<close>
  A group that took no part in the match would make \<open>value\<close> \<open>None\<close>, and the \<open>value.strip()\<close>
  that follows would raise.
\<close>

fun fallback_value :: "re list \<Rightarrow> ustr \<Rightarrow> ustr \<Rightarrow> py_error + ustr" where
  "fallback_value [] txt v = Inr v"
| "fallback_value (p # ps) txt v =
     (case re_search flags_I p txt of
        None \<Rightarrow> fallback_value ps txt v
      | Some m \<Rightarrow> (case group m 1 of None \<Rightarrow> Inl OtherError | Some g \<Rightarrow> Inr g))"

definition is_party :: "string \<Rightarrow> bool" where
  "is_party field_name \<longleftrightarrow> field_name = ''seller'' \<or> field_name = ''buyer''"

text \<open>The first test on a counterparty name: a single letter, only zeros, only digits, or
  shorter than three characters.\<close>

definition degenerate_capture :: "ustr \<Rightarrow> bool" where
  "degenerate_capture value_clean \<longleftrightarrow>
     re_match flags_I re_single_letter value_clean \<noteq> None \<or>
     re_match no_flags re_zeros value_clean \<noteq> None \<or>
     re_match no_flags re_digits value_clean \<noteq> None \<or>
     length value_clean < 3"

text \<open>The repair of a counterparty name, from the cut at a stop word to the last length
  test.\<close>

definition refine_party :: "string \<Rightarrow> ustr \<Rightarrow> ustr \<Rightarrow> py_error + verdict" where
  "refine_party field_name txt v0 =
     (let v = cut_at_stop_word v0;
          v = re_sub flags_I re_trailing_letter [] v;
          v = re_sub no_flags re_trailing_commas [] v
      in then_do
           (if length v < 3 \<or> re_match no_flags re_single_ascii_letter v \<noteq> None \<or>
               (re_match no_flags re_ascii_words v \<noteq> None \<and> word_count v < 2)
            then (if field_name = ''buyer'' then fallback_value buyer_fallback_patterns txt v
                  else if field_name = ''seller'' then fallback_value seller_fallback_patterns txt v
                  else Inr v)
            else Inr v)
           (\<lambda>v. let v = strip v; value_clean = strip v
                 in if length value_clean < 3 \<or> re_match flags_I re_single_letter value_clean \<noteq> None
                    then Inr Continue else Inr (Return v)))"

text \<open>
  The cleaning of a non-empty captured value, up to the validation:
  \<^verbatim>\<open>
  if field_name == 'invoice_number':
      value_clean = value.strip()
      if len(value_clean) > 10:
          continue
  if field_name in ['seller', 'buyer']:
      value_clean = value.strip()
      if (re.match(r'^[a-z~a~-~ya~]\s*[,]?$', value_clean, re.IGNORECASE) or
          re.match(r'^0+$', value_clean) or re.match(r'^\d+$', value_clean) or
          len(value_clean) < 3):
          continue
  value = re.sub(r'\s+', ' ', value.strip())
  if field_name == 'total_amount':
      value = value.replace(' ', '')
  if field_name in ['seller', 'buyer']:
      ...
  \<close>
\<close>

definition clean_candidate :: "string \<Rightarrow> ustr \<Rightarrow> ustr \<Rightarrow> py_error + verdict" where
  "clean_candidate field_name txt v0 =
     (if field_name = ''invoice_number'' \<and> 10 < length (strip v0) then Inr Continue
      else if is_party field_name \<and> degenerate_capture (strip v0) then Inr Continue
      else
        (let v = collapse_ws (strip v0);
             v = (if field_name = ''total_amount'' then replace1 32 [] v else v)
         in if is_party field_name then refine_party field_name txt v else Inr (Return v)))"

text \<open>
  \<^verbatim>\<open>
  if self.use_ml_validation and self.ml_classifier:
      try:
          is_valid, confidence = self.ml_classifier.validate_extraction(field_name, value, text)
          if not is_valid and confidence < 0.5:
              continue
      except Exception as e:
          pass
  return value
  \<close>
\<close>

definition ml_gate :: "extractor \<Rightarrow> string \<Rightarrow> ustr \<Rightarrow> ustr \<Rightarrow> verdict" where
  "ml_gate ex field_name v txt =
     (if use_ml_validation ex then
        (case ml_classifier ex of
           None \<Rightarrow> Return v
         | Some validate \<Rightarrow>
             (case validate field_name v txt of
                Inl e \<Rightarrow> Return v
              | Inr (is_valid, confidence) \<Rightarrow>
                  if \<not> is_valid \<and> below_threshold confidence then Continue else Return v))
      else Return v)"

text \<open>The body of the loop for one pattern.\<close>

definition pattern_verdict :: "extractor \<Rightarrow> string \<Rightarrow> ustr \<Rightarrow> re \<Rightarrow> py_error + verdict" where
  "pattern_verdict ex field_name txt p =
     (case re_search flags_IM p txt of
        None \<Rightarrow> Inr Continue
      | Some m \<Rightarrow>
          (case candidate_value m of
             None \<Rightarrow> Inr Continue
           | Some v0 \<Rightarrow>
               if v0 = [] then Inr Continue
               else
                 (case clean_candidate field_name txt v0 of
                    Inl e \<Rightarrow> Inl e
                  | Inr Continue \<Rightarrow> Inr Continue
                  | Inr (Return v) \<Rightarrow> Inr (ml_gate ex field_name v txt))))"

text \<open>The loop: the first pattern whose verdict is a value ends it; \<open>None\<close> when the
  patterns are used up.\<close>

fun extract_loop :: "extractor \<Rightarrow> string \<Rightarrow> ustr \<Rightarrow> re list \<Rightarrow> py_error + ustr option" where
  "extract_loop ex field_name txt [] = Inr None"
| "extract_loop ex field_name txt (p # ps) =
     (case pattern_verdict ex field_name txt p of
        Inl e \<Rightarrow> Inl e
      | Inr Continue \<Rightarrow> extract_loop ex field_name txt ps
      | Inr (Return v) \<Rightarrow> Inr (Some v))"

definition extract_field :: "extractor \<Rightarrow> ustr \<Rightarrow> string \<Rightarrow> py_error + ustr option" where
  "extract_field ex txt field_name = extract_loop ex field_name txt (patterns field_name)"

section \<open>Properties of the numeric normalisation\<close>

lemma decimal_value_ascii_digit: "48 \<le> c \<Longrightarrow> c \<le> 57 \<Longrightarrow> decimal_value c = Some (c - 48)"
  by (simp add: decimal_value_def nd_starts_def)

lemma decimal_value_below: "c < 48 \<Longrightarrow> decimal_value c = None"
  by (simp add: decimal_value_def nd_starts_def)

lemma decimal_value_latin: "57 < c \<Longrightarrow> c < 1632 \<Longrightarrow> decimal_value c = None"
  by (simp add: decimal_value_def nd_starts_def)

lemmas float_eval = clean_number_def clean_number_with_def normalise_number_def replace1_def
  ascii_def py_float_def num_strip_def num_isspace_def round_float_def strip_def lstrip_def
  rstrip_def py_isspace_def parse_number_def
  digitpart_def decimal_value_ascii_digit decimal_value_below decimal_value_latin
  parse_exponent_def decimal_rat_def nat_of_digits_def ascii_lower_def is_decimal_def

lemma py_float_error: "py_float s = Inl e \<Longrightarrow> e = ValueError"
  by (auto simp: py_float_def Let_def split: prod.splits if_splits option.splits)

lemma clean_number_returns: "\<exists>x. clean_number v = Inr x"
proof (cases "v = []")
  case True
  then show ?thesis by (simp add: clean_number_def clean_number_with_def)
next
  case False
  show ?thesis
  proof (cases "py_float (normalise_number v)")
    case (Inl e)
    then have "e = ValueError" by (rule py_float_error)
    with Inl False show ?thesis by (simp add: clean_number_def clean_number_with_def)
  next
    case (Inr x)
    with False show ?thesis by (simp add: clean_number_def clean_number_with_def)
  qed
qed

lemma clean_number_garbled:
  assumes "py_float (normalise_number v) = Inl e"
  shows "clean_number v = Inr (Fin 0)"
proof -
  from assms have "e = ValueError" by (rule py_float_error)
  with assms show ?thesis by (simp add: clean_number_def clean_number_with_def)
qed

lemma normalise_number_alt:
  "normalise_number v = map (\<lambda>c. if c = 44 then 46 else c) (filter (\<lambda>c. c \<noteq> 32 \<and> c \<noteq> 34) v)"
  by (induction v) (auto simp: normalise_number_def replace1_def)

lemma garbled_amount: "py_float (normalise_number (ascii ''1.234,56'')) = Inl ValueError"
  by (simp add: float_eval)

text \<open>
  Claim C10. \<open>_clean_number\<close> returns a number on every string and never raises: on the empty
  string it returns 0.0, and on a string that \<open>float\<close> rejects after the removal of spaces
  and quotes and the replacement of commas it returns 0.0. Hence a non-empty captured amount
  that does not parse is stored in the line item as the number 0.0: the member is neither
  left out nor is an exception raised.
\<close>

theorem clean_number_total:
  "(\<exists>x. clean_number v = Inr x) \<and>
   clean_number [] = Inr (Fin 0) \<and>
   (py_float (normalise_number v) = Inl e \<longrightarrow> clean_number v = Inr (Fin 0)) \<and>
   (item_get item src = Some v \<and> v \<noteq> [] \<and> py_float (normalise_number v) = Inl e \<longrightarrow>
      copy_number item src dst d = Inr (dict_set d dst (JFloat (Fin 0))))"
  using clean_number_returns [of v] clean_number_garbled [of v e]
  by (auto simp: copy_number_def) (simp add: clean_number_def clean_number_with_def)

theorem clean_number_total_witness:
  "py_float (normalise_number (ascii ''1.234,56'')) = Inl ValueError \<and>
   item_get [(''vat_amount'', Some (ascii ''1.234,56''))] ''vat_amount'' = Some (ascii ''1.234,56'') \<and>
   clean_number (ascii ''1.234,56'') = Inr (Fin 0) \<and>
   copy_number [(''vat_amount'', Some (ascii ''1.234,56''))] ''vat_amount'' ''vat_amount'' [] =
     Inr [(''vat_amount'', JFloat (Fin 0))]"
proof -
  have g: "py_float (normalise_number (ascii ''1.234,56'')) = Inl ValueError"
    by (rule garbled_amount)
  have i: "item_get [(''vat_amount'', Some (ascii ''1.234,56''))] ''vat_amount'' = Some (ascii ''1.234,56'')"
    by (simp add: item_get_def)
  have n: "ascii ''1.234,56'' \<noteq> []" by (simp add: ascii_def)
  from clean_number_total [of "ascii ''1.234,56''" ValueError
      "[(''vat_amount'', Some (ascii ''1.234,56''))]" "''vat_amount''" "''vat_amount''" "[]"] g i n
  show ?thesis by (simp add: dict_set_def)
qed

section \<open>Typing of line items\<close>


lemma then_do_Inr: "then_do r f = Inr y \<longleftrightarrow> (\<exists>x. r = Inr x \<and> f x = Inr y)"
  by (cases r) (auto simp: then_do_def)

lemma copy_number_typed:
  assumes "copy_number item src dst d = Inr d'" "item_typed d" "dst \<in> set numeric_members"
  shows "item_typed d'"
proof -
  from assms(3) have ne: "dst \<noteq> ''line_number''" by (auto simp: numeric_members_def)
  from assms(1) have "d' = d \<or> (\<exists>x. d' = dict_set d dst (JFloat x))"
    by (auto simp: copy_number_def split: option.splits if_splits sum.splits)
  with assms(2) ne show ?thesis
    by (auto simp: item_typed_def dict_set_def update_conv' split: if_splits)
qed

lemma copy_text_typed:
  assumes "copy_text item src dst d = Inr d'" "item_typed d" "dst \<notin> set numeric_members"
    "dst \<noteq> ''line_number''"
  shows "item_typed d'"
  using assms
  by (auto simp: copy_text_def set_if_str_def item_typed_def dict_set_def update_conv'
      split: option.splits if_splits)

lemma line_item_of_typed:
  assumes "line_item_of idx item = Inr d"
  shows "item_typed d"
proof -
  from assms obtain n d1 d2 d3 d4 d5 d6 where
    s1: "copy_text item ''unit'' ''unit'' [(''line_number'', JInt n), (''product_name'', product_name_of item)] = Inr d1"
    and s2: "copy_number item ''quantity'' ''quantity'' d1 = Inr d2"
    and s3: "copy_text item ''delivery_terms'' ''delivery_terms'' d2 = Inr d3"
    and s4: "copy_number item ''price_without_vat'' ''unit_price_without_vat'' d3 = Inr d4"
    and s5: "copy_number item ''amount_without_vat'' ''amount_without_vat'' d4 = Inr d5"
    and s6: "copy_number item ''vat_amount'' ''vat_amount'' d5 = Inr d6"
    and s7: "copy_number item ''total_with_vat'' ''total_with_vat'' d6 = Inr d"
    unfolding line_item_of_def then_do_Inr by blast
  have t0: "item_typed [(''line_number'', JInt n), (''product_name'', product_name_of item)]"
    by (simp add: item_typed_def numeric_members_def)
  have t1: "item_typed d1"
    using s1 t0 by (rule copy_text_typed) (simp_all add: numeric_members_def)
  have t2: "item_typed d2"
    using s2 t1 by (rule copy_number_typed) (simp add: numeric_members_def)
  have t3: "item_typed d3"
    using s3 t2 by (rule copy_text_typed) (simp_all add: numeric_members_def)
  have t4: "item_typed d4"
    using s4 t3 by (rule copy_number_typed) (simp add: numeric_members_def)
  have t5: "item_typed d5"
    using s5 t4 by (rule copy_number_typed) (simp add: numeric_members_def)
  have t6: "item_typed d6"
    using s6 t5 by (rule copy_number_typed) (simp add: numeric_members_def)
  show ?thesis
    using s7 t6 by (rule copy_number_typed) (simp add: numeric_members_def)
qed

lemma line_items_from_typed:
  "line_items_from idx items = Inr lis \<Longrightarrow> list_all item_typed lis"
proof (induction items arbitrary: idx lis)
  case Nil
  then show ?case by simp
next
  case (Cons item items)
  from Cons.prems obtain li rest where
    a: "line_item_of idx item = Inr li" and b: "line_items_from (Suc idx) items = Inr rest"
    and c: "lis = li # rest"
    by (auto simp: then_do_Inr)
  from a have "item_typed li" by (rule line_item_of_typed)
  moreover from b have "list_all item_typed rest" by (rule Cons.IH)
  ultimately show ?case using c by simp
qed

lemma structured_typed:
  assumes "extract_line_items_structured items = Inr r"
  shows "\<exists>lis. r = JList (map JDict lis) \<and> list_all item_typed lis"
proof (cases items)
  case None
  with assms have "r = JList (map JDict [])" by (simp add: extract_line_items_structured_def)
  then show ?thesis by (intro exI [of _ "[]"]) simp
next
  case (Some its)
  show ?thesis
  proof (cases "its = []")
    case True
    with Some assms have "r = JList (map JDict [])" by (simp add: extract_line_items_structured_def)
    then show ?thesis by (intro exI [of _ "[]"]) simp
  next
    case False
    with Some assms obtain lis where "line_items_from 1 its = Inr lis" "r = JList (map JDict lis)"
      by (auto simp: extract_line_items_structured_def then_do_Inr)
    then show ?thesis using line_items_from_typed by blast
  qed
qed

text \<open>
  Claim C9. Before parsing, \<open>_clean_number\<close> removes the spaces (the thousands separators)
  and turns the decimal comma into a point: \<open>"243 375,00"\<close> gives 243375.00 and
  \<open>"1 659 649,00"\<close> gives 1659649.00. In the list of line items every quantity and amount
  member is a floating-point number, never a string (the \<open>line_number\<close> member is the integer
  index of the row).
\<close>

theorem amounts_are_numbers:
  "clean_number (ascii ''243 375,00'') = Inr (Fin 243375) \<and>
   clean_number (ascii ''1 659 649,00'') = Inr (Fin 1659649) \<and>
   (v \<noteq> [] \<longrightarrow>
      clean_number v =
        (case py_float (map (\<lambda>c. if c = 44 then 46 else c) (filter (\<lambda>c. c \<noteq> 32 \<and> c \<noteq> 34) v)) of
           Inr x \<Rightarrow> Inr x
         | Inl e \<Rightarrow> Inr (Fin 0))) \<and>
   (extract_line_items_structured items = Inr r \<longrightarrow>
      (\<exists>lis. r = JList (map JDict lis) \<and> list_all item_typed lis))"
proof -
  have a: "clean_number (ascii ''243 375,00'') = Inr (Fin 243375)"
    by (simp add: float_eval)
  have b: "clean_number (ascii ''1 659 649,00'') = Inr (Fin 1659649)"
    by (simp add: float_eval)
  have c: "clean_number v =
        (case py_float (map (\<lambda>c. if c = 44 then 46 else c) (filter (\<lambda>c. c \<noteq> 32 \<and> c \<noteq> 34) v)) of
           Inr x \<Rightarrow> Inr x
         | Inl e \<Rightarrow> Inr (Fin 0))" if "v \<noteq> []"
  proof (cases "py_float (normalise_number v)")
    case (Inl e)
    then show ?thesis using clean_number_garbled [OF Inl] by (simp add: normalise_number_alt)
  next
    case (Inr x)
    then show ?thesis using that
      by (simp add: normalise_number_alt clean_number_def clean_number_with_def)
  qed
  from a b c structured_typed show ?thesis by blast
qed

lemmas item_eval = extract_line_items_structured_def line_item_of_def then_do_def
  line_number_of_def product_name_of_def copy_text_def copy_number_def item_get_def
  set_if_str_def dict_set_def py_isdigit_def py_isdigit_char_def py_int_def float_eval

theorem amounts_are_numbers_witness:
  "ascii ''243 375,00'' \<noteq> [] \<and>
   clean_number (ascii ''243 375,00'') = Inr (Fin 243375) \<and>
   extract_line_items_structured
     (Some [[(''number'', Some (ascii ''1'')), (''name'', Some (ascii ''Bolt M8'')),
             (''unit'', Some (ascii ''pcs'')), (''quantity'', Some (ascii ''10'')),
             (''delivery_terms'', None), (''price_without_vat'', Some (ascii ''24337.50'')),
             (''amount_without_vat'', Some (ascii ''243375.00'')),
             (''vat_amount'', Some (ascii ''48675.00'')),
             (''total_with_vat'', Some (ascii ''292050.00''))]]) =
     Inr (JList [JDict [(''line_number'', JInt 1), (''product_name'', JStr (ascii ''Bolt M8'')),
             (''unit'', JStr (ascii ''pcs'')), (''quantity'', JFloat (Fin 10)),
             (''unit_price_without_vat'', JFloat (Fin (48675 / 2))),
             (''amount_without_vat'', JFloat (Fin 243375)),
             (''vat_amount'', JFloat (Fin 48675)),
             (''total_with_vat'', JFloat (Fin 292050))]]) \<and>
   item_typed [(''line_number'', JInt 1), (''product_name'', JStr (ascii ''Bolt M8'')),
             (''unit'', JStr (ascii ''pcs'')), (''quantity'', JFloat (Fin 10)),
             (''unit_price_without_vat'', JFloat (Fin (48675 / 2))),
             (''amount_without_vat'', JFloat (Fin 243375)),
             (''vat_amount'', JFloat (Fin 48675)),
             (''total_with_vat'', JFloat (Fin 292050))]"
proof -
  let ?items = "Some [[(''number'', Some (ascii ''1'')), (''name'', Some (ascii ''Bolt M8'')),
             (''unit'', Some (ascii ''pcs'')), (''quantity'', Some (ascii ''10'')),
             (''delivery_terms'', None), (''price_without_vat'', Some (ascii ''24337.50'')),
             (''amount_without_vat'', Some (ascii ''243375.00'')),
             (''vat_amount'', Some (ascii ''48675.00'')),
             (''total_with_vat'', Some (ascii ''292050.00''))]]"
  let ?d = "[(''line_number'', JInt 1), (''product_name'', JStr (ascii ''Bolt M8'')),
             (''unit'', JStr (ascii ''pcs'')), (''quantity'', JFloat (Fin 10)),
             (''unit_price_without_vat'', JFloat (Fin (48675 / 2))),
             (''amount_without_vat'', JFloat (Fin 243375)),
             (''vat_amount'', JFloat (Fin 48675)),
             (''total_with_vat'', JFloat (Fin 292050))]"
  have ne: "ascii ''243 375,00'' \<noteq> []" by (simp add: ascii_def)
  have ev: "extract_line_items_structured ?items = Inr (JList [JDict ?d])"
    by (simp add: item_eval)
  have "\<exists>lis. JList [JDict ?d] = JList (map JDict lis) \<and> list_all item_typed lis"
    by (rule amounts_are_numbers [of "ascii ''243 375,00''" ?items "JList [JDict ?d]",
          THEN conjunct2, THEN conjunct2, THEN conjunct2, THEN mp, OF ev])
  then obtain lis where l: "JList [JDict ?d] = JList (map JDict lis)" "list_all item_typed lis"
    by (elim exE conjE)
  then have t: "item_typed ?d" by (cases lis) auto
  have cn: "clean_number (ascii ''243 375,00'') = Inr (Fin 243375)"
    by (rule amounts_are_numbers [of "ascii ''243 375,00''" ?items "JList [JDict ?d]",
          THEN conjunct1])
  from ne cn ev t show ?thesis by (intro conjI)
qed

section \<open>Properties of the assembled record\<close>

lemma dict_set_fresh: "k \<notin> fst ` set d \<Longrightarrow> dict_set d k v = d @ [(k, v)]"
  unfolding dict_set_def by (induction d) auto

lemma set_dict_set: "set (dict_set d k v) \<subseteq> insert (k, v) (set d)"
  unfolding dict_set_def by (induction d) auto

lemma dict_set_mem: "(k, v) \<in> set (dict_set d k v)"
  unfolding dict_set_def by (induction d) auto

lemma dict_set_other: "k' \<noteq> k \<Longrightarrow> (k', v') \<in> set (dict_set d k v) \<longleftrightarrow> (k', v') \<in> set d"
  unfolding dict_set_def by (induction d) auto

lemma dict_set_nonempty: "dict_set d k v \<noteq> []"
  unfolding dict_set_def by (cases d) auto

lemma clean_result_loop_filter:
  "distinct (map fst items) \<Longrightarrow> fst ` set cleaned \<inter> fst ` set items = {} \<Longrightarrow>
   clean_result_loop cleaned items = cleaned @ filter kept items"
proof (induction items arbitrary: cleaned)
  case Nil
  then show ?case by simp
next
  case (Cons kv items)
  obtain k v where kv: "kv = (k, v)" by (cases kv)
  from Cons.prems have d: "distinct (map fst items)" and nk: "k \<notin> fst ` set items"
    and nc: "k \<notin> fst ` set cleaned" and dj: "fst ` set cleaned \<inter> fst ` set items = {}"
    by (auto simp: kv)
  show ?case
  proof (cases "kept (k, v)")
    case False
    then show ?thesis using Cons.IH [OF d dj] by (auto simp: kv kept_def)
  next
    case True
    have "fst ` set (dict_set cleaned k v) \<inter> fst ` set items = {}"
      using dj nk by (auto simp: dict_set_fresh [OF nc])
    from Cons.IH [OF d this] True show ?thesis
      by (simp add: kv kept_def dict_set_fresh [OF nc])
  qed
qed

lemma clean_result_filter:
  "distinct (map fst result) \<Longrightarrow> clean_result result = filter kept result"
  by (simp add: clean_result_def clean_result_loop_filter)

lemma flat_ok_dict_set: "flat_ok d \<Longrightarrow> no_empty v \<Longrightarrow> flat_ok (dict_set d k v)"
  using set_dict_set [of d k v] by (auto simp: flat_ok_def)

lemma flat_ok_set_if_str: "flat_ok d \<Longrightarrow> flat_ok (set_if_str d k x)"
  by (auto simp: set_if_str_def flat_ok_dict_set split: option.splits)

lemma flat_ok_set_if_match: "flat_ok d \<Longrightarrow> flat_ok (set_if_match d k x)"
  by (auto simp: set_if_match_def flat_ok_dict_set split: option.splits)

lemma truthy_no_empty: "v = JNull \<or> no_empty v \<Longrightarrow> truthy v \<Longrightarrow> no_empty v"
  by (cases v) auto

lemma flat_ok_set_if_truthy: "flat_ok d \<Longrightarrow> v = JNull \<or> no_empty v \<Longrightarrow> flat_ok (set_if_truthy d k v)"
  by (auto simp: set_if_truthy_def flat_ok_dict_set truthy_no_empty)

lemma dict_or_none_ok: "flat_ok d \<Longrightarrow> dict_or_none d = JNull \<or> no_empty (dict_or_none d)"
  by (auto simp: dict_or_none_def flat_ok_def)

lemma flat_ok_Nil: "flat_ok []"
  by (simp add: flat_ok_def)

lemmas flat_ok_intros = flat_ok_Nil flat_ok_set_if_str flat_ok_set_if_match flat_ok_dict_set

lemma invoice_ok: "build_invoice_section fnd = JNull \<or> no_empty (build_invoice_section fnd)"
  unfolding build_invoice_section_def Let_def
  by (intro dict_or_none_ok flat_ok_intros)

lemma bank_ok: "extract_bank_details fnd = JNull \<or> no_empty (extract_bank_details fnd)"
  unfolding extract_bank_details_def Let_def
  by (intro dict_or_none_ok flat_ok_intros)

lemma supplier_ok: "build_supplier_section fnd = JNull \<or> no_empty (build_supplier_section fnd)"
  unfolding build_supplier_section_def Let_def
  by (intro dict_or_none_ok flat_ok_set_if_truthy bank_ok flat_ok_intros)

lemma contract_ok: "extract_contract fnd = JNull \<or> no_empty (extract_contract fnd)"
  unfolding extract_contract_def Let_def
  by (intro dict_or_none_ok flat_ok_intros)

lemma signatories_ok: "extract_signatories fnd = JNull \<or> no_empty (extract_signatories fnd)"
  unfolding extract_signatories_def Let_def
  by (intro dict_or_none_ok flat_ok_intros)

lemma additional_ok: "extract_additional_info fnd = JNull \<or> no_empty (extract_additional_info fnd)"
  unfolding extract_additional_info_def Let_def
  by (intro dict_or_none_ok flat_ok_intros)

lemma set_number_if_match_ok:
  "set_number_if_match d k m = Inr d' \<Longrightarrow> flat_ok d \<Longrightarrow> flat_ok d'"
  by (auto simp: set_number_if_match_def then_do_Inr flat_ok_dict_set split: option.splits)

lemma summary_ok:
  assumes "build_financial_summary fnd = Inr v"
  shows "no_empty v"
proof -
  from assms obtain s1 s2 s3 where
    a: "set_number_if_match [] ''subtotal_without_vat'' (fnd_subtotal fnd) = Inr s1"
    and b: "(case fnd_vat fnd of
                None \<Rightarrow> Inr s1
              | Some (rate, amount) \<Rightarrow>
                  then_do (clean_number amount) (\<lambda>x.
                    Inr (dict_set (dict_set s1 ''vat_rate'' (JStr (rate @ ascii ''%'')))
                           ''vat_amount'' (JFloat x)))) = Inr s2"
    and c: "(case fnd_total_with_vat fnd of
                Some g \<Rightarrow> then_do (clean_number g) (\<lambda>x. Inr (dict_set s2 ''total_with_vat'' (JFloat x)))
              | None \<Rightarrow>
                  (case fnd_total_amount fnd of
                     None \<Rightarrow> Inr s2
                   | Some t \<Rightarrow>
                       if t = [] then Inr s2
                       else then_do (clean_number t) (\<lambda>x. Inr (dict_set s2 ''total_with_vat'' (JFloat x))))) = Inr s3"
    and d: "(let summary = set_if_str s3 ''total_in_words'' (fnd_total_in_words fnd);
          summary = (case fnd_currency fnd of
                       None \<Rightarrow> dict_set summary ''currency'' (JStr (ascii ''RUB''))
                     | Some c \<Rightarrow>
                         if c = [] then dict_set summary ''currency'' (JStr (ascii ''RUB''))
                         else dict_set summary ''currency'' (JStr (py_upper c)))
      in Inr (dict_or_none summary)) = (Inr v :: py_error + jval)"
    unfolding build_financial_summary_def then_do_Inr by blast
  have f1: "flat_ok s1" using a flat_ok_Nil by (rule set_number_if_match_ok)
  have f2: "flat_ok s2" using b f1
    by (auto simp: then_do_Inr flat_ok_dict_set split: option.splits)
  have f3: "flat_ok s3" using c f2
    by (auto simp: then_do_Inr flat_ok_dict_set split: option.splits if_splits)
  have f4: "flat_ok (set_if_str s3 ''total_in_words'' (fnd_total_in_words fnd))"
    using f3 by (rule flat_ok_set_if_str)
  from d have d': "v = (let summary = set_if_str s3 ''total_in_words'' (fnd_total_in_words fnd);
          summary = (case fnd_currency fnd of
                       None \<Rightarrow> dict_set summary ''currency'' (JStr (ascii ''RUB''))
                     | Some c \<Rightarrow>
                         if c = [] then dict_set summary ''currency'' (JStr (ascii ''RUB''))
                         else dict_set summary ''currency'' (JStr (py_upper c)))
      in dict_or_none summary)" by (simp add: Let_def)
  show ?thesis unfolding d' Let_def using f4
    by (auto simp: dict_or_none_def dict_set_nonempty flat_ok_def
        dest!: set_dict_set [THEN subsetD] split: option.splits)
qed

lemma terms_from_ok: "terms_from ms = Inr ts \<Longrightarrow> \<forall>t \<in> set ts. no_empty t"
proof (induction ms arbitrary: ts rule: terms_from.induct)
  case 1
  then show ?case by simp
next
  case (2 number content ms)
  then show ?case
    by (auto simp: Let_def then_do_Inr split: if_splits)
qed

lemma terms_ok:
  "extract_terms_and_conditions fnd = Inr v \<Longrightarrow> v = JNull \<or> no_empty v"
  by (auto simp: extract_terms_and_conditions_def then_do_Inr dest: terms_from_ok split: if_splits)

lemma copy_number_flat:
  "copy_number item src dst d = Inr d' \<Longrightarrow> flat_ok d \<Longrightarrow> flat_ok d'"
  by (auto simp: copy_number_def flat_ok_dict_set split: option.splits if_splits sum.splits)

lemma copy_text_flat:
  "copy_text item src dst d = Inr d' \<Longrightarrow> flat_ok d \<Longrightarrow> flat_ok d'"
  by (auto simp: copy_text_def flat_ok_set_if_str)

lemma copy_number_nonempty:
  "copy_number item src dst d = Inr d' \<Longrightarrow> d \<noteq> [] \<Longrightarrow> d' \<noteq> []"
  by (auto simp: copy_number_def dict_set_nonempty split: option.splits if_splits sum.splits)

lemma line_item_of_flat:
  assumes "line_item_of idx item = Inr d" "map_of item ''name'' \<noteq> Some None"
  shows "no_empty (JDict d)"
proof -
  from assms(1) obtain n d1 d2 d3 d4 d5 d6 where
    s1: "copy_text item ''unit'' ''unit'' [(''line_number'', JInt n), (''product_name'', product_name_of item)] = Inr d1"
    and s2: "copy_number item ''quantity'' ''quantity'' d1 = Inr d2"
    and s3: "copy_text item ''delivery_terms'' ''delivery_terms'' d2 = Inr d3"
    and s4: "copy_number item ''price_without_vat'' ''unit_price_without_vat'' d3 = Inr d4"
    and s5: "copy_number item ''amount_without_vat'' ''amount_without_vat'' d4 = Inr d5"
    and s6: "copy_number item ''vat_amount'' ''vat_amount'' d5 = Inr d6"
    and s7: "copy_number item ''total_with_vat'' ''total_with_vat'' d6 = Inr d"
    unfolding line_item_of_def then_do_Inr by blast
  have "no_empty (product_name_of item)"
    using assms(2) by (auto simp: product_name_of_def split: option.splits)
  then have t0: "flat_ok [(''line_number'', JInt n), (''product_name'', product_name_of item)]"
    by (simp add: flat_ok_def)
  note t1 = copy_text_flat [OF s1 t0]
  note t2 = copy_number_flat [OF s2 t1]
  note t3 = copy_text_flat [OF s3 t2]
  note t4 = copy_number_flat [OF s4 t3]
  note t5 = copy_number_flat [OF s5 t4]
  note t6 = copy_number_flat [OF s6 t5]
  note t7 = copy_number_flat [OF s7 t6]
  have "d6 \<noteq> []"
  proof
    assume e: "d6 = []"
    from s6 e have "d5 = []" using copy_number_nonempty by blast
    with s5 have "d4 = []" using copy_number_nonempty by blast
    with s4 have "d3 = []" using copy_number_nonempty by blast
    with s3 have "d2 = []"
      by (auto simp: copy_text_def set_if_str_def dict_set_nonempty split: option.splits if_splits)
    with s2 have "d1 = []" using copy_number_nonempty by blast
    with s1 show False
      by (auto simp: copy_text_def set_if_str_def dict_set_nonempty split: option.splits if_splits)
  qed
  with s7 have "d \<noteq> []" using copy_number_nonempty by blast
  with t7 show ?thesis by (simp add: flat_ok_def)
qed

lemma line_items_from_flat:
  "line_items_from idx items = Inr lis \<Longrightarrow> \<forall>item \<in> set items. map_of item ''name'' \<noteq> Some None \<Longrightarrow>
   \<forall>d \<in> set lis. no_empty (JDict d)"
proof (induction items arbitrary: idx lis)
  case Nil
  then show ?case by simp
next
  case (Cons item items)
  from Cons.prems(1) obtain li rest where
    a: "line_item_of idx item = Inr li" and b: "line_items_from (Suc idx) items = Inr rest"
    and c: "lis = li # rest"
    by (auto simp: then_do_Inr)
  from a Cons.prems(2) have "no_empty (JDict li)" by (intro line_item_of_flat) auto
  moreover from b Cons.prems(2) have "\<forall>d \<in> set rest. no_empty (JDict d)"
    by (intro Cons.IH) auto
  ultimately show ?case using c by simp
qed

lemma structured_flat:
  assumes "extract_line_items_structured items = Inr v"
    and "\<forall>its. items = Some its \<longrightarrow> (\<forall>item \<in> set its. map_of item ''name'' \<noteq> Some None)"
  shows "v = JList [] \<or> no_empty v"
proof (cases items)
  case None
  with assms show ?thesis by (simp add: extract_line_items_structured_def)
next
  case (Some its)
  show ?thesis
  proof (cases "its = []")
    case True
    with Some assms show ?thesis by (simp add: extract_line_items_structured_def)
  next
    case False
    with Some assms(1) obtain lis where l: "line_items_from 1 its = Inr lis" "v = JList (map JDict lis)"
      by (auto simp: extract_line_items_structured_def then_do_Inr)
    from l(1) assms(2) Some have "\<forall>d \<in> set lis. no_empty (JDict d)"
      by (intro line_items_from_flat) auto
    with l(2) show ?thesis by (cases lis) auto
  qed
qed

lemma scanned_items_named:
  "\<forall>its. scanned_items fnd = Some its \<longrightarrow> (\<forall>item \<in> set its. map_of item ''name'' \<noteq> Some None)"
  by (auto simp: scanned_items_def)

lemma extract_contract_truthy:
  "truthy (extract_contract fnd) \<longleftrightarrow> \<not> (fnd_contract_number fnd = None \<and> fnd_contract_date fnd = None)"
  by (auto simp: extract_contract_def Let_def set_if_match_def dict_or_none_def dict_set_nonempty
      split: option.splits)

lemma customer_section:
  "\<exists>c. build_customer_section fnd = JDict c \<and> c \<noteq> [] \<and>
       (\<forall>kv \<in> set c. fst kv \<noteq> ''contract'' \<longrightarrow> no_empty (snd kv)) \<and>
       (''contract'', if truthy (extract_contract fnd) then extract_contract fnd
                      else JDict [(''number'', JNull), (''date'', JNull)]) \<in> set c"
proof -
  define c0 where "c0 = set_if_str (set_if_str (set_if_str (set_if_str (set_if_str []
    ''company_name'' (fnd_buyer_name fnd)) ''inn'' (fnd_buyer_inn fnd)) ''kpp'' (fnd_buyer_kpp fnd))
    ''address'' (fnd_buyer_address fnd)) ''phone'' (fnd_buyer_phone fnd)"
  define x where "x = (if truthy (extract_contract fnd) then extract_contract fnd
                      else JDict [(''number'', JNull), (''date'', JNull)])"
  have f: "flat_ok c0" unfolding c0_def by (intro flat_ok_intros)
  have eq: "build_customer_section fnd = dict_or_none (dict_set c0 ''contract'' x)"
    by (simp add: build_customer_section_def Let_def c0_def x_def)
  have ne: "dict_set c0 ''contract'' x \<noteq> []" by (rule dict_set_nonempty)
  have "\<forall>kv \<in> set (dict_set c0 ''contract'' x). fst kv \<noteq> ''contract'' \<longrightarrow> no_empty (snd kv)"
    using f set_dict_set [of c0 "''contract''" x] by (auto simp: flat_ok_def)
  moreover have "(''contract'', x) \<in> set (dict_set c0 ''contract'' x)" by (rule dict_set_mem)
  ultimately show ?thesis using eq ne by (auto simp: dict_or_none_def x_def)
qed

lemma extract_invoice_data_Inr:
  assumes "extract_invoice_data fnd = Inr r"
  obtains li fs ts where
    "extract_line_items_structured (scanned_items fnd) = Inr li"
    "build_financial_summary fnd = Inr fs"
    "extract_terms_and_conditions fnd = Inr ts"
    "r = filter kept (sections fnd li fs ts)"
proof -
  from assms [unfolded extract_invoice_data_def then_do_Inr] obtain li fs ts where
    li: "extract_line_items_structured (scanned_items fnd) = Inr li"
    and fs: "build_financial_summary fnd = Inr fs"
    and ts: "extract_terms_and_conditions fnd = Inr ts"
    and r: "Inr (clean_result
         [(''invoice'', build_invoice_section fnd),
          (''supplier'', build_supplier_section fnd),
          (''customer'', build_customer_section fnd),
          (''line_items'', li),
          (''financial_summary'', fs),
          (''signatories'', extract_signatories fnd),
          (''terms_and_conditions'', ts),
          (''additional_info'', extract_additional_info fnd)]) = (Inr r :: py_error + pydict)"
    by blast
  have "distinct (map fst (sections fnd li fs ts))" by (simp add: sections_def)
  then have "clean_result (sections fnd li fs ts) = filter kept (sections fnd li fs ts)"
    by (rule clean_result_filter)
  with r have "r = filter kept (sections fnd li fs ts)" by (simp add: sections_def)
  with li fs ts show thesis by (rule that)
qed

lemma sections_cases:
  assumes "kv \<in> set (sections fnd li fs ts)"
  shows "kv = (''invoice'', build_invoice_section fnd) \<or>
         kv = (''supplier'', build_supplier_section fnd) \<or>
         kv = (''customer'', build_customer_section fnd) \<or>
         kv = (''line_items'', li) \<or>
         kv = (''financial_summary'', fs) \<or>
         kv = (''signatories'', extract_signatories fnd) \<or>
         kv = (''terms_and_conditions'', ts) \<or>
         kv = (''additional_info'', extract_additional_info fnd)"
  using assms unfolding sections_def by simp

lemma sections_nested:
  assumes kv: "kv \<in> set (sections fnd li fs ts)" and k: "kept kv"
    and fs: "build_financial_summary fnd = Inr fs"
    and ts: "extract_terms_and_conditions fnd = Inr ts"
    and nk: "fst kv \<noteq> ''customer'' \<and> fst kv \<noteq> ''line_items''"
  shows "no_empty (snd kv)"
  using sections_cases [OF kv]
proof (elim disjE)
  assume "kv = (''invoice'', build_invoice_section fnd)"
  then show ?thesis using k invoice_ok [of fnd] by (auto simp: kept_def)
next
  assume "kv = (''supplier'', build_supplier_section fnd)"
  then show ?thesis using k supplier_ok [of fnd] by (auto simp: kept_def)
next
  assume "kv = (''customer'', build_customer_section fnd)"
  then show ?thesis using nk by simp
next
  assume "kv = (''line_items'', li)"
  then show ?thesis using nk by simp
next
  assume "kv = (''financial_summary'', fs)"
  then show ?thesis using summary_ok [OF fs] by simp
next
  assume "kv = (''signatories'', extract_signatories fnd)"
  then show ?thesis using k signatories_ok [of fnd] by (auto simp: kept_def)
next
  assume "kv = (''terms_and_conditions'', ts)"
  then show ?thesis using k terms_ok [OF ts] by (auto simp: kept_def)
next
  assume "kv = (''additional_info'', extract_additional_info fnd)"
  then show ?thesis using k additional_ok [of fnd] by (auto simp: kept_def)
qed

lemma sections_line_items:
  assumes kv: "kv \<in> set (sections fnd li fs ts)" and k: "kept kv"
    and li: "extract_line_items_structured (scanned_items fnd) = Inr li"
    and nk: "fst kv = ''line_items''"
  shows "no_empty (snd kv)"
proof -
  from sections_cases [OF kv] nk have "kv = (''line_items'', li)" by fastforce
  then show ?thesis using k structured_flat [OF li scanned_items_named] by (auto simp: kept_def)
qed

lemma customer_kept:
  assumes r: "r = filter kept (sections fnd li fs ts)"
  shows "\<exists>c. (''customer'', JDict c) \<in> set r \<and>
       (\<forall>kv \<in> set c. fst kv \<noteq> ''contract'' \<longrightarrow> no_empty (snd kv)) \<and>
       (''contract'',
          if fnd_contract_number fnd = None \<and> fnd_contract_date fnd = None
          then JDict [(''number'', JNull), (''date'', JNull)]
          else extract_contract fnd) \<in> set c"
proof -
  from customer_section [of fnd] obtain c where
    c: "build_customer_section fnd = JDict c" "c \<noteq> []"
      "\<forall>kv \<in> set c. fst kv \<noteq> ''contract'' \<longrightarrow> no_empty (snd kv)"
      "(''contract'', if truthy (extract_contract fnd) then extract_contract fnd
                      else JDict [(''number'', JNull), (''date'', JNull)]) \<in> set c"
    by blast
  have "(''customer'', JDict c) \<in> set (sections fnd li fs ts)"
    by (simp add: sections_def c(1))
  moreover have "kept (''customer'', JDict c)" using c(2) by (simp add: kept_def)
  ultimately have m: "(''customer'', JDict c) \<in> set r" by (simp only: r set_filter mem_Collect_eq)
  have t: "(''contract'',
          if fnd_contract_number fnd = None \<and> fnd_contract_date fnd = None
          then JDict [(''number'', JNull), (''date'', JNull)]
          else extract_contract fnd) \<in> set c"
    using c(4) unfolding extract_contract_truthy
    by (cases "fnd_contract_number fnd = None \<and> fnd_contract_date fnd = None") auto
  from m c(3) t show ?thesis by (intro exI [of _ c] conjI)
qed

text \<open>
  Claim C1, as amended. No top-level member of the returned record is null, an empty
  mapping or an empty list. Every member of the invoice, supplier, financial summary,
  signatories, terms and additional-info sections, and every member of every line item, is
  free of nulls and empty containers at every depth. The customer section is always
  present: its other members are free of nulls, and it always has a \<open>contract\<close> member, which
  is \<open>{number: None, date: None}\<close> when neither contract search matched and the non-empty
  result of \<open>_extract_contract\<close> otherwise.
\<close>

theorem record_pruned:
  assumes "extract_invoice_data fnd = Inr r"
  shows "(\<forall>kv \<in> set r. snd kv \<noteq> JNull \<and> snd kv \<noteq> JDict [] \<and> snd kv \<noteq> JList []) \<and>
    (\<forall>kv \<in> set r. fst kv \<noteq> ''customer'' \<longrightarrow> no_empty (snd kv)) \<and>
    (\<exists>c. (''customer'', JDict c) \<in> set r \<and>
       (\<forall>kv \<in> set c. fst kv \<noteq> ''contract'' \<longrightarrow> no_empty (snd kv)) \<and>
       (''contract'',
          if fnd_contract_number fnd = None \<and> fnd_contract_date fnd = None
          then JDict [(''number'', JNull), (''date'', JNull)]
          else extract_contract fnd) \<in> set c) \<and>
    (\<not> (fnd_contract_number fnd = None \<and> fnd_contract_date fnd = None) \<longrightarrow>
       no_empty (extract_contract fnd))"
proof -
  from assms obtain li fs ts where
    li: "extract_line_items_structured (scanned_items fnd) = Inr li"
    and fs: "build_financial_summary fnd = Inr fs"
    and ts: "extract_terms_and_conditions fnd = Inr ts"
    and r: "r = filter kept (sections fnd li fs ts)"
    by (rule extract_invoice_data_Inr)
  have mem: "kv \<in> set r \<longleftrightarrow> kv \<in> set (sections fnd li fs ts) \<and> kept kv" for kv
    by (simp only: r set_filter mem_Collect_eq)
  have top: "\<forall>kv \<in> set r. snd kv \<noteq> JNull \<and> snd kv \<noteq> JDict [] \<and> snd kv \<noteq> JList []"
  proof
    fix kv assume "kv \<in> set r"
    then have "kept kv" by (simp only: mem)
    then show "snd kv \<noteq> JNull \<and> snd kv \<noteq> JDict [] \<and> snd kv \<noteq> JList []"
      unfolding kept_def .
  qed
  have nested: "\<forall>kv \<in> set r. fst kv \<noteq> ''customer'' \<longrightarrow> no_empty (snd kv)"
  proof (intro ballI impI)
    fix kv assume "kv \<in> set r" and nc: "fst kv \<noteq> ''customer''"
    then have kv: "kv \<in> set (sections fnd li fs ts)" and k: "kept kv" by (simp_all only: mem)
    show "no_empty (snd kv)"
    proof (cases "fst kv = ''line_items''")
      case True
      with kv k li show ?thesis by (rule sections_line_items)
    next
      case False
      with nc have "fst kv \<noteq> ''customer'' \<and> fst kv \<noteq> ''line_items''" by simp
      with kv k fs ts show ?thesis by (rule sections_nested)
    qed
  qed
  note cust = customer_kept [OF r]
  have con: "\<not> (fnd_contract_number fnd = None \<and> fnd_contract_date fnd = None) \<longrightarrow>
       no_empty (extract_contract fnd)"
    using contract_ok [of fnd] extract_contract_truthy [of fnd] truthy_no_empty by blast
  from top nested cust con show ?thesis by (intro conjI)
qed

lemmas record_eval = extract_invoice_data_def then_do_def build_invoice_section_def
  build_supplier_section_def build_customer_section_def extract_bank_details_def
  extract_contract_def build_financial_summary_def extract_signatories_def
  extract_terms_and_conditions_def extract_additional_info_def clean_result_def
  set_if_str_def set_if_match_def set_if_truthy_def set_number_if_match_def dict_or_none_def
  dict_set_def findings_empty_text_def Let_def py_upper_def upper_char_def scanned_items_def

text \<open>
  Claim C1 as stated fails on the empty text: the record has a customer section whose
  only member is a contract whose members are both null.
\<close>

theorem null_contract_counterexample:
  "extract_invoice_data findings_empty_text =
     Inr [(''customer'', JDict [(''contract'', JDict [(''number'', JNull), (''date'', JNull)])]),
          (''financial_summary'', JDict [(''currency'', JStr (ascii ''RUB''))])] \<and>
   \<not> no_empty (JDict [(''customer'', JDict [(''contract'', JDict [(''number'', JNull), (''date'', JNull)])]),
          (''financial_summary'', JDict [(''currency'', JStr (ascii ''RUB''))])])"
  by (simp add: record_eval extract_line_items_structured_def ascii_def)

lemma findings_example_record:
  "extract_invoice_data findings_example =
     Inr [(''invoice'', JDict [(''number'', JStr (ascii ''12/3''))]),
      (''customer'', JDict [(''contract'', JDict [(''number'', JStr (ascii ''12/3''))])]),
      (''line_items'', JList [JDict [(''line_number'', JInt 1),
         (''product_name'', JStr [1050, 1080, 1088, 1087, 1080, 1095, 32, 1082, 1088, 1072, 1089, 1085, 1099, 1081]),
         (''unit'', JStr [1096, 1090]), (''quantity'', JFloat (Fin 10)),
         (''unit_price_without_vat'', JFloat (Fin 5)), (''amount_without_vat'', JFloat (Fin 50)),
         (''total_with_vat'', JFloat (Fin 50))]]),
      (''financial_summary'', JDict [(''currency'', JStr (ascii ''RUB''))])]"
  by (simp add: findings_example_def record_eval item_eval)

theorem record_pruned_witness:
  "extract_invoice_data findings_example =
     Inr [(''invoice'', JDict [(''number'', JStr (ascii ''12/3''))]),
      (''customer'', JDict [(''contract'', JDict [(''number'', JStr (ascii ''12/3''))])]),
      (''line_items'', JList [JDict [(''line_number'', JInt 1),
         (''product_name'', JStr [1050, 1080, 1088, 1087, 1080, 1095, 32, 1082, 1088, 1072, 1089, 1085, 1099, 1081]),
         (''unit'', JStr [1096, 1090]), (''quantity'', JFloat (Fin 10)),
         (''unit_price_without_vat'', JFloat (Fin 5)), (''amount_without_vat'', JFloat (Fin 50)),
         (''total_with_vat'', JFloat (Fin 50))]]),
      (''financial_summary'', JDict [(''currency'', JStr (ascii ''RUB''))])] \<and>
   no_empty (JDict [(''number'', JStr (ascii ''12/3''))]) \<and>
   no_empty (JList [JDict [(''line_number'', JInt 1),
         (''product_name'', JStr [1050, 1080, 1088, 1087, 1080, 1095, 32, 1082, 1088, 1072, 1089, 1085, 1099, 1081]),
         (''unit'', JStr [1096, 1090]), (''quantity'', JFloat (Fin 10)),
         (''unit_price_without_vat'', JFloat (Fin 5)), (''amount_without_vat'', JFloat (Fin 50)),
         (''total_with_vat'', JFloat (Fin 50))]]) \<and>
   no_empty (JDict [(''currency'', JStr (ascii ''RUB''))]) \<and>
   no_empty (extract_contract findings_example)"
proof -
  let ?r = "[(''invoice'', JDict [(''number'', JStr (ascii ''12/3''))]),
      (''customer'', JDict [(''contract'', JDict [(''number'', JStr (ascii ''12/3''))])]),
      (''line_items'', JList [JDict [(''line_number'', JInt 1),
         (''product_name'', JStr [1050, 1080, 1088, 1087, 1080, 1095, 32, 1082, 1088, 1072, 1089, 1085, 1099, 1081]),
         (''unit'', JStr [1096, 1090]), (''quantity'', JFloat (Fin 10)),
         (''unit_price_without_vat'', JFloat (Fin 5)), (''amount_without_vat'', JFloat (Fin 50)),
         (''total_with_vat'', JFloat (Fin 50))]]),
      (''financial_summary'', JDict [(''currency'', JStr (ascii ''RUB''))])]"
  note ev = findings_example_record
  note p = record_pruned [OF ev]
  have found: "\<not> (fnd_contract_number findings_example = None \<and> fnd_contract_date findings_example = None)"
    by (simp add: findings_example_def findings_empty_text_def)
  from p have "\<forall>kv \<in> set ?r. fst kv \<noteq> ''customer'' \<longrightarrow> no_empty (snd kv)"
    by (elim conjE)
  then have a: "no_empty (JDict [(''number'', JStr (ascii ''12/3''))]) \<and>
   no_empty (JList [JDict [(''line_number'', JInt 1),
         (''product_name'', JStr [1050, 1080, 1088, 1087, 1080, 1095, 32, 1082, 1088, 1072, 1089, 1085, 1099, 1081]),
         (''unit'', JStr [1096, 1090]), (''quantity'', JFloat (Fin 10)),
         (''unit_price_without_vat'', JFloat (Fin 5)), (''amount_without_vat'', JFloat (Fin 50)),
         (''total_with_vat'', JFloat (Fin 50))]]) \<and>
   no_empty (JDict [(''currency'', JStr (ascii ''RUB''))])" by simp
  from p found have c: "no_empty (extract_contract findings_example)"
    by (elim conjE) (erule mp)
  from ev a c show ?thesis by (intro conjI) (elim conjE, assumption)+
qed

section \<open>Properties of the recognition of one bitmap\<close>

lemma psm_loop_all_fail:
  "\<forall>p \<in> set psms. fails_bar rec p \<Longrightarrow>
   psm_loop rec psms text0 calls =
     (last (text0 # concat (map (\<lambda>p. case rec Preprocessed p of Inl e \<Rightarrow> [] | Inr t \<Rightarrow> [t]) psms)),
      calls @ map (Pair Preprocessed) psms)"
proof (induction psms arbitrary: text0 calls)
  case Nil
  then show ?case by simp
next
  case (Cons p ps)
  then have f: "fails_bar rec p" and rest: "\<forall>p \<in> set ps. fails_bar rec p" by simp_all
  show ?case
  proof (cases "rec Preprocessed p")
    case (Inl e)
    then show ?thesis using Cons.IH [OF rest, of text0 "calls @ [(Preprocessed, p)]"] by simp
  next
    case (Inr t)
    with f have "\<not> length (strip t) > 50" by (simp add: fails_bar_def)
    with Inr show ?thesis using Cons.IH [OF rest, of t "calls @ [(Preprocessed, p)]"] by simp
  qed
qed

lemma psm_loop_pass:
  "\<exists>p \<in> set psms. \<not> fails_bar rec p \<Longrightarrow> 50 < length (strip (fst (psm_loop rec psms text0 calls)))"
proof (induction psms arbitrary: text0 calls)
  case Nil
  then show ?case by simp
next
  case (Cons p ps)
  show ?case
  proof (cases "rec Preprocessed p")
    case (Inl e)
    then have "fails_bar rec p" by (simp add: fails_bar_def)
    with Cons.prems have "\<exists>p \<in> set ps. \<not> fails_bar rec p" by auto
    from Cons.IH [OF this] Inl show ?thesis by simp
  next
    case (Inr t)
    show ?thesis
    proof (cases "50 < length (strip t)")
      case True
      with Inr show ?thesis by simp
    next
      case False
      with Inr have "fails_bar rec p" by (simp add: fails_bar_def)
      with Cons.prems have "\<exists>p \<in> set ps. \<not> fails_bar rec p" by auto
      from Cons.IH [OF this] Inr False show ?thesis by simp
    qed
  qed
qed

lemma psm_loop_calls_preprocessed:
  "set (snd (psm_loop rec psms text0 calls)) \<subseteq> set calls \<union> Pair Preprocessed ` set psms"
proof (induction psms arbitrary: text0 calls)
  case Nil
  then show ?case by simp
next
  case (Cons p ps)
  show ?case
  proof (cases "rec Preprocessed p")
    case (Inl e)
    then show ?thesis using Cons.IH [of text0 "calls @ [(Preprocessed, p)]"] by auto
  next
    case (Inr t)
    then show ?thesis using Cons.IH [of t "calls @ [(Preprocessed, p)]"] by auto
  qed
qed

lemma strip_Nil: "strip [] = []"
  by (simp add: strip_def lstrip_def rstrip_def)

lemma ocr_bitmaps_pass:
  assumes "\<not> (fails_bar rec 6 \<and> fails_bar rec 11 \<and> fails_bar rec 12)"
  shows "(Original, 6) \<notin> set (snd (ocr_bitmaps rec)) \<and> 50 < length (strip (fst (ocr_bitmaps rec)))"
proof -
  obtain t calls where l: "psm_loop rec [6, 11, 12] [] [] = (t, calls)"
    by (cases "psm_loop rec [6, 11, 12] [] []")
  from assms have "\<exists>p \<in> set [6, 11, 12]. \<not> fails_bar rec p" by auto
  from psm_loop_pass [OF this, of "[]" "[]"] l have long: "50 < length (strip t)" by simp
  then have ne: "t \<noteq> []" by (auto simp: strip_Nil)
  from psm_loop_calls_preprocessed [of rec "[6, 11, 12]" "[]" "[]"] l
  have "(Original, 6) \<notin> set calls" by auto
  with long ne l show ?thesis by (simp add: ocr_bitmaps_def)
qed

lemma ocr_bitmaps_all_fail:
  assumes "fails_bar rec 6" "fails_bar rec 11" "fails_bar rec 12"
  shows "ocr_bitmaps rec =
     (if loop_text rec = [] \<or> length (strip (loop_text rec)) < 10
      then (case rec Original 6 of Inl e \<Rightarrow> loop_text rec | Inr t \<Rightarrow> t,
            [(Preprocessed, 6), (Preprocessed, 11), (Preprocessed, 12), (Original, 6)])
      else (loop_text rec, [(Preprocessed, 6), (Preprocessed, 11), (Preprocessed, 12)]))"
proof -
  from assms have "\<forall>p \<in> set [6, 11, 12]. fails_bar rec p" by simp
  from psm_loop_all_fail [OF this, of "[]" "[]"]
  have "psm_loop rec [6, 11, 12] [] [] =
      (loop_text rec, [(Preprocessed, 6), (Preprocessed, 11), (Preprocessed, 12)])"
    by (simp add: loop_text_def returned_texts_def)
  then show ?thesis
    by (simp add: ocr_bitmaps_def split: sum.splits)
qed

text \<open>
  Claim C6, as amended. When every configuration (PSM 6, 11, 12) on the preprocessed bitmap
  fails the 50-character bar, all three are tried, and recognition is retried on the
  original bitmap, once and with PSM 6, exactly when the text the loop leaves is empty or
  has fewer than 10 characters after trimming; a text of 10 to 50 trimmed characters is
  returned as it is, with no retry. When some configuration passes the bar, the original
  bitmap is never read.
\<close>

theorem raw_bitmap_retry:
  "(fails_bar rec 6 \<and> fails_bar rec 11 \<and> fails_bar rec 12 \<longrightarrow>
      ocr_bitmaps rec =
        (if loop_text rec = [] \<or> length (strip (loop_text rec)) < 10
         then (case rec Original 6 of Inl e \<Rightarrow> loop_text rec | Inr t \<Rightarrow> t,
               [(Preprocessed, 6), (Preprocessed, 11), (Preprocessed, 12), (Original, 6)])
         else (loop_text rec, [(Preprocessed, 6), (Preprocessed, 11), (Preprocessed, 12)]))) \<and>
   (\<not> (fails_bar rec 6 \<and> fails_bar rec 11 \<and> fails_bar rec 12) \<longrightarrow>
      (Original, 6) \<notin> set (snd (ocr_bitmaps rec)) \<and> 50 < length (strip (fst (ocr_bitmaps rec))))"
  using ocr_bitmaps_all_fail [of rec] ocr_bitmaps_pass [of rec] by blast

lemmas ocr_eval = ocr_bitmaps_def fails_bar_def loop_text_def returned_texts_def
  constant_recogniser_def example_recogniser_def strip_def lstrip_def rstrip_def
  py_isspace_def ascii_def

text \<open>
  Claim C6 as stated fails when every configuration returns a text of 30 characters: all
  three fail the bar, and the original bitmap is not read.
\<close>

theorem no_retry_counterexample:
  "fails_bar (constant_recogniser (ascii ''Invoice No 42 total 100,00 RUB'')) 6 \<and>
   fails_bar (constant_recogniser (ascii ''Invoice No 42 total 100,00 RUB'')) 11 \<and>
   fails_bar (constant_recogniser (ascii ''Invoice No 42 total 100,00 RUB'')) 12 \<and>
   length (ascii ''Invoice No 42 total 100,00 RUB'') = 30 \<and>
   ocr_bitmaps (constant_recogniser (ascii ''Invoice No 42 total 100,00 RUB'')) =
     (ascii ''Invoice No 42 total 100,00 RUB'',
      [(Preprocessed, 6), (Preprocessed, 11), (Preprocessed, 12)])"
  by (simp add: ocr_eval)

theorem raw_bitmap_retry_witness:
  "fails_bar example_recogniser 6 \<and> fails_bar example_recogniser 11 \<and>
   fails_bar example_recogniser 12 \<and>
   ocr_bitmaps example_recogniser =
     (ascii ''Invoice 42'',
      [(Preprocessed, 6), (Preprocessed, 11), (Preprocessed, 12), (Original, 6)])"
proof -
  have f: "fails_bar example_recogniser 6 \<and> fails_bar example_recogniser 11 \<and>
      fails_bar example_recogniser 12"
    by (simp add: ocr_eval)
  have s: "loop_text example_recogniser = ascii ''ab''"
    by (simp add: ocr_eval)
  have o: "example_recogniser Original 6 = Inr (ascii ''Invoice 42'')"
    by (simp add: example_recogniser_def)
  from raw_bitmap_retry [of example_recogniser] f
  have "ocr_bitmaps example_recogniser =
        (if loop_text example_recogniser = [] \<or> length (strip (loop_text example_recogniser)) < 10
         then (case example_recogniser Original 6 of Inl e \<Rightarrow> loop_text example_recogniser | Inr t \<Rightarrow> t,
               [(Preprocessed, 6), (Preprocessed, 11), (Preprocessed, 12), (Original, 6)])
         else (loop_text example_recogniser, [(Preprocessed, 6), (Preprocessed, 11), (Preprocessed, 12)]))"
    by blast
  then have "ocr_bitmaps example_recogniser =
     (ascii ''Invoice 42'',
      [(Preprocessed, 6), (Preprocessed, 11), (Preprocessed, 12), (Original, 6)])"
    unfolding s o by (simp add: ocr_eval)
  with f show ?thesis by blast
qed

section \<open>Properties of the image endpoint\<close>

lemma process_image_short:
  assumes "file_ext \<in> set allowed_extensions" "extract_text_from_image img = Inr t"
    "length (strip t) < 10"
  shows "process_image file_ext img extract db_add user_id db = (JSONResponse 400 False [], db)"
  using assms by (simp add: process_image_def)

lemma process_image_success:
  assumes "succeeded (fst (process_image file_ext img extract db_add user_id db))"
  shows "\<exists>t. extract_text_from_image img = Inr t \<and> 10 \<le> length (strip t)"
  using assms
  by (auto simp: process_image_def respond_success_def
      split: if_splits sum.splits option.splits prod.splits)

lemma extract_text_from_image_short:
  assumes "img = Inr rec" "length (strip (fst (ocr_bitmaps rec))) < 10"
  shows "extract_text_from_image img = Inr (fst (ocr_bitmaps rec))"
  using assms by (simp add: extract_text_from_image_def)

text \<open>
  Claim C7. When the text recognised from an image, after all configurations and the retry
  on the original bitmap, has fewer than 10 characters after trimming, the endpoint answers
  with status 400, \<open>success\<close> false and an empty record, and stores nothing; a response that
  reports success is given only for a text of at least 10 trimmed characters.
\<close>

theorem image_failure_signalled:
  "(file_ext \<in> set allowed_extensions \<and> img = Inr rec \<and>
      length (strip (fst (ocr_bitmaps rec))) < 10 \<longrightarrow>
      process_image file_ext img extract db_add user_id db = (JSONResponse 400 False [], db)) \<and>
   (succeeded (fst (process_image file_ext img extract db_add user_id db)) \<longrightarrow>
      (\<exists>t. extract_text_from_image img = Inr t \<and> 10 \<le> length (strip t)))"
proof (intro conjI impI)
  assume h: "file_ext \<in> set allowed_extensions \<and> img = Inr rec \<and>
      length (strip (fst (ocr_bitmaps rec))) < 10"
  then have a: "file_ext \<in> set allowed_extensions" and b: "img = Inr rec"
    and c: "length (strip (fst (ocr_bitmaps rec))) < 10"
    by simp_all
  from b c have d: "extract_text_from_image img = Inr (fst (ocr_bitmaps rec))"
    by (rule extract_text_from_image_short)
  from a d c show "process_image file_ext img extract db_add user_id db = (JSONResponse 400 False [], db)"
    by (rule process_image_short)
next
  assume "succeeded (fst (process_image file_ext img extract db_add user_id db))"
  then show "\<exists>t. extract_text_from_image img = Inr t \<and> 10 \<le> length (strip t)"
    by (rule process_image_success)
qed

theorem image_failure_signalled_witness:
  "''.png'' \<in> set allowed_extensions \<and>
   length (strip (fst (ocr_bitmaps (constant_recogniser (ascii ''n/a''))))) < 10 \<and>
   process_image ''.png'' (Inr (constant_recogniser (ascii ''n/a''))) (\<lambda>t. Inr [])
     (\<lambda>db uid d. Inr (d # db, 1)) (Some 7) [] = (JSONResponse 400 False [], [])"
proof -
  have a: "''.png'' \<in> set allowed_extensions" by (simp add: allowed_extensions_def)
  have b: "length (strip (fst (ocr_bitmaps (constant_recogniser (ascii ''n/a''))))) < 10"
    by (simp add: ocr_eval)
  from image_failure_signalled [of "''.png''" "Inr (constant_recogniser (ascii ''n/a''))"
      "constant_recogniser (ascii ''n/a'')" "\<lambda>t. Inr []" "\<lambda>db uid d. Inr (d # db, 1)" "Some 7" "[]"] a b
  have "process_image ''.png'' (Inr (constant_recogniser (ascii ''n/a''))) (\<lambda>t. Inr [])
     (\<lambda>db uid d. Inr (d # db, 1)) (Some 7) [] = (JSONResponse 400 False [], [])"
    by blast
  with a b show ?thesis by blast
qed

section \<open>Properties of the text of a PDF\<close>

lemma native_loop_chunks:
  "native_loop ocr (map Inr ts) page_num full_text total_len =
     Inr (full_text @ map fst (page_chunks ocr page_num ts),
          total_len + sum_list (map snd (page_chunks ocr page_num ts)))"
proof (induction ts arbitrary: page_num full_text total_len)
  case Nil
  then show ?case by simp
next
  case (Cons t ts)
  show ?case
  proof (cases t)
    case None
    then show ?thesis by (simp add: Cons.IH page_chunk_def native_ok_def Let_def)
  next
    case (Some s)
    then show ?thesis by (simp add: Cons.IH page_chunk_def native_ok_def Let_def)
  qed
qed

lemma native_loop_raises:
  "\<exists>e'. native_loop ocr (ps @ Inl e # qs) page_num full_text total_len = Inl e'"
proof (induction ps arbitrary: page_num full_text total_len)
  case Nil
  then show ?case by simp
next
  case (Cons p ps)
  show ?case
  proof (cases p)
    case (Inl e0)
    then show ?thesis by simp
  next
    case (Inr t)
    then show ?thesis using Cons.IH by (cases t) (simp_all add: Let_def)
  qed
qed

lemma native_reader_raises: "native_reader ocr (Inr (ps @ Inl e # qs)) = None"
proof -
  from native_loop_raises [of ocr ps e qs 1 "[]" 0]
  obtain e' where "native_loop ocr (ps @ Inl e # qs) 1 [] 0 = Inl e'" by blast
  then show ?thesis by (simp only: native_reader_def sum.case)
qed

lemma ocr_full_loop_raises:
  "\<exists>e'. ocr_full_loop (imgs @ Inl e # rest) page_num full_text = Inl e'"
proof (induction imgs arbitrary: page_num full_text)
  case Nil
  then show ?case by simp
next
  case (Cons img imgs)
  then show ?case by (cases img) (simp_all add: Let_def)
qed

lemma ocr_full_raises:
  "extract_text_with_ocr_full (doc\<lparr>raster_all := Inr (imgs @ Inl e # rest)\<rparr>) = []"
proof -
  from ocr_full_loop_raises [of imgs e rest 1 "[]"]
  obtain e' where "ocr_full_loop (imgs @ Inl e # rest) 1 [] = Inl e'" by blast
  then show ?thesis by (simp add: extract_text_with_ocr_full_def)
qed

lemma ocr_full_loop_chunks:
  "ocr_full_loop (map Inr recs) page_num full_text = Inr (full_text @ ocr_chunks recs page_num)"
  by (induction recs arbitrary: page_num full_text) (simp_all add: Let_def)

lemma native_reader_Some:
  assumes "native_reader ocr pages = Some r"
  shows "\<exists>ps full_text total_len. pages = Inr ps \<and> native_loop ocr ps 1 [] 0 = Inr (full_text, total_len) \<and>
           r = join_lines full_text \<and> strip r \<noteq> [] \<and> 100 < total_len"
  using assms
  by (auto simp: native_reader_def Let_def split: sum.splits prod.splits if_splits)

lemma extract_text_cases:
  "(\<exists>r. native_reader (extract_text_with_ocr_from_page doc) (plumber_pages doc) = Some r \<and>
        extract_text doc = r) \<or>
   (native_reader (extract_text_with_ocr_from_page doc) (plumber_pages doc) = None \<and>
    (\<exists>r. native_reader (extract_text_with_ocr_from_page doc) (pypdf_pages doc) = Some r \<and>
         extract_text doc = r)) \<or>
   (native_reader (extract_text_with_ocr_from_page doc) (plumber_pages doc) = None \<and>
    native_reader (extract_text_with_ocr_from_page doc) (pypdf_pages doc) = None \<and>
    extract_text doc = extract_text_with_ocr_full doc)"
  by (auto simp: extract_text_def split: option.splits)

text \<open>
  Claim C2, as amended. In one pass over the pages of a native reader, a page's native text
  is kept if and only if it is non-empty and its trimmed length exceeds 50; otherwise that
  single page is re-extracted by OCR and, when OCR returns text, merged at that page's
  position. The pass succeeds when the joined text is not blank and the sum of the trimmed
  page lengths exceeds 100. \<open>extract_text\<close> returns the result of the pdfplumber pass when it
  succeeds, else that of the same pass with PyPDF2 when it succeeds, and only when both fail
  the OCR of every page of the document, in which no native text takes part. A pass in
  which opening the file or reading a page raises does not succeed; a whole-document OCR in
  which the rasteriser or a page image raises gives the empty text.
\<close>

theorem text_acquisition_ladder:
  "native_loop ocr (map Inr ts) 1 [] 0 =
     Inr (map fst (page_chunks ocr 1 ts), sum_list (map snd (page_chunks ocr 1 ts))) \<and>
   native_reader ocr (Inr (map Inr ts)) =
     (if strip (join_lines (map fst (page_chunks ocr 1 ts))) \<noteq> [] \<and>
         100 < sum_list (map snd (page_chunks ocr 1 ts))
      then Some (join_lines (map fst (page_chunks ocr 1 ts))) else None) \<and>
   ((\<exists>r. native_reader (extract_text_with_ocr_from_page doc) (plumber_pages doc) = Some r \<and>
        extract_text doc = r) \<or>
    (native_reader (extract_text_with_ocr_from_page doc) (plumber_pages doc) = None \<and>
     (\<exists>r. native_reader (extract_text_with_ocr_from_page doc) (pypdf_pages doc) = Some r \<and>
          extract_text doc = r)) \<or>
    (native_reader (extract_text_with_ocr_from_page doc) (plumber_pages doc) = None \<and>
     native_reader (extract_text_with_ocr_from_page doc) (pypdf_pages doc) = None \<and>
     extract_text doc = extract_text_with_ocr_full doc)) \<and>
   (raster_all doc = Inr (map Inr recs) \<longrightarrow>
      extract_text_with_ocr_full doc = join_lines (ocr_chunks recs 1)) \<and>
   native_reader ocr (Inl e) = None \<and>
   native_reader ocr (Inr (ps @ Inl e # qs)) = None \<and>
   extract_text_with_ocr_full (doc\<lparr>raster_all := Inl e\<rparr>) = [] \<and>
   extract_text_with_ocr_full (doc\<lparr>raster_all := Inr (imgs @ Inl e # rest)\<rparr>) = []"
proof -
  have a: "native_loop ocr (map Inr ts) 1 [] 0 =
     Inr (map fst (page_chunks ocr 1 ts), sum_list (map snd (page_chunks ocr 1 ts)))"
    using native_loop_chunks [of ocr ts 1 "[]" 0] by simp
  have b: "native_reader ocr (Inr (map Inr ts)) =
     (if strip (join_lines (map fst (page_chunks ocr 1 ts))) \<noteq> [] \<and>
         100 < sum_list (map snd (page_chunks ocr 1 ts))
      then Some (join_lines (map fst (page_chunks ocr 1 ts))) else None)"
    by (simp only: native_reader_def sum.case a prod.case Let_def)
  have d: "raster_all doc = Inr (map Inr recs) \<longrightarrow>
      extract_text_with_ocr_full doc = join_lines (ocr_chunks recs 1)"
    using ocr_full_loop_chunks [of recs 1 "[]"] by (simp add: extract_text_with_ocr_full_def)
  have e1: "native_reader ocr (Inl e) = None" by (simp add: native_reader_def)
  have e2: "native_reader ocr (Inr (ps @ Inl e # qs)) = None" by (rule native_reader_raises)
  have e3: "extract_text_with_ocr_full (doc\<lparr>raster_all := Inl e\<rparr>) = []"
    by (simp add: extract_text_with_ocr_full_def)
  have e4: "extract_text_with_ocr_full (doc\<lparr>raster_all := Inr (imgs @ Inl e # rest)\<rparr>) = []"
    by (rule ocr_full_raises)
  from a b extract_text_cases [of doc] d e1 e2 e3 e4 show ?thesis by (intro conjI)
qed

lemma str_nat_1: "str_nat 1 = [49]"
  by simp

lemmas doc_eval = doc_second_reader_def stamp_text_def layer_text_def extract_text_def
  native_reader_def extract_text_with_ocr_from_page_def extract_text_with_ocr_full_def
  page_chunk_def native_ok_def page_header_def Let_def ocr_eval

text \<open>
  Claim C2 as stated fails on a one-page document whose pdfplumber pass gathers 40
  characters in all (under 100): the text returned is the text layer PyPDF2 reads, not the
  OCR of the document.
\<close>

theorem second_reader_counterexample:
  "native_loop (extract_text_with_ocr_from_page doc_second_reader) [Inr None] 1 [] 0 =
     Inr ([page_header 1 stamp_text], 40) \<and>
   extract_text doc_second_reader = page_header 1 layer_text \<and>
   extract_text_with_ocr_full doc_second_reader = page_header 1 stamp_text \<and>
   extract_text doc_second_reader \<noteq> extract_text_with_ocr_full doc_second_reader"
  by (simp add: doc_eval del: str_nat.simps add: str_nat_1)

theorem text_acquisition_ladder_witness:
  "raster_all doc_second_reader = Inr (map Inr [constant_recogniser stamp_text]) \<and>
   extract_text_with_ocr_full doc_second_reader =
     join_lines (ocr_chunks [constant_recogniser stamp_text] 1) \<and>
   native_reader (extract_text_with_ocr_from_page doc_second_reader) (Inr (map Inr [Some layer_text])) =
     Some (page_header 1 layer_text)"
proof -
  have r: "raster_all doc_second_reader = Inr (map Inr [constant_recogniser stamp_text])"
    by (simp add: doc_second_reader_def)
  note t = text_acquisition_ladder [where ocr = "extract_text_with_ocr_from_page doc_second_reader"
      and ts = "[Some layer_text]" and doc = doc_second_reader
      and recs = "[constant_recogniser stamp_text]" and e = OtherError
      and ps = "[Inr (Some layer_text)]" and qs = "[]" and imgs = "[]" and rest = "[]"]
  from t r have f: "extract_text_with_ocr_full doc_second_reader =
     join_lines (ocr_chunks [constant_recogniser stamp_text] 1)"
    by (elim conjE) (erule mp)
  from t have "native_reader (extract_text_with_ocr_from_page doc_second_reader) (Inr (map Inr [Some layer_text])) =
     (if strip (join_lines (map fst (page_chunks (extract_text_with_ocr_from_page doc_second_reader) 1 [Some layer_text]))) \<noteq> [] \<and>
         100 < sum_list (map snd (page_chunks (extract_text_with_ocr_from_page doc_second_reader) 1 [Some layer_text]))
      then Some (join_lines (map fst (page_chunks (extract_text_with_ocr_from_page doc_second_reader) 1 [Some layer_text]))) else None)"
    by (elim conjE)
  also have "\<dots> = Some (page_header 1 layer_text)"
    by (simp add: doc_eval del: str_nat.simps add: str_nat_1)
  finally show ?thesis using r f by (intro conjI)
qed

section \<open>Properties of the field extraction\<close>


lemma length_strip: "length (strip s) \<le> length s"
proof -
  have "length (strip s) \<le> length (lstrip s)"
    using length_dropWhile_le [of py_isspace "rev (lstrip s)"] by (simp add: strip_def rstrip_def)
  also have "\<dots> \<le> length s" unfolding lstrip_def by (rule length_dropWhile_le)
  finally show ?thesis .
qed


lemma ml_gate_cases: "ml_gate ex field_name v txt = Continue \<or> ml_gate ex field_name v txt = Return v"
  by (auto simp: ml_gate_def split: option.splits sum.splits)















section \<open>Properties of the validation step\<close>

lemma ml_gate_absent:
  "\<not> (use_ml_validation ex \<and> ml_classifier ex \<noteq> None) \<Longrightarrow> ml_gate ex fld v tx = Return v"
  by (auto simp: ml_gate_def split: option.splits)

lemma ml_gate_raises:
  "ml_classifier ex = Some validate \<Longrightarrow> validate fld v tx = Inl e \<Longrightarrow> ml_gate ex fld v tx = Return v"
  by (simp add: ml_gate_def)

lemma ml_gate_Continue:
  "ml_gate ex fld v tx = Continue \<longleftrightarrow>
     use_ml_validation ex \<and>
     (\<exists>validate c. ml_classifier ex = Some validate \<and> validate fld v tx = Inr (False, c) \<and>
        below_threshold c)"
  by (auto simp: ml_gate_def split: option.splits sum.splits)

lemma pattern_verdict_open:
  assumes "\<And>v. ml_gate ex fld v tx = Return v"
  shows "pattern_verdict ex fld tx p = pattern_verdict default_extractor fld tx p"
  using assms
  by (auto simp: pattern_verdict_def ml_gate_def default_extractor_def
      split: option.splits sum.splits verdict.splits)

lemma extract_field_open:
  assumes "\<And>v. ml_gate ex fld v tx = Return v"
  shows "extract_field ex tx fld = extract_field default_extractor tx fld"
proof -
  have "extract_loop ex fld tx ps = extract_loop default_extractor fld tx ps" for ps
    by (induction ps) (simp_all add: pattern_verdict_open [OF assms] split: sum.splits verdict.splits)
  then show ?thesis by (simp add: extract_field_def)
qed

text \<open>
  Claim C5. The validation step passes the candidate on unchanged when validation is off or
  there is no classifier, and when the classifier raises; it rejects the candidate, so that
  the loop goes on to the next pattern, exactly when the classifier returns the verdict
  not valid with a confidence below 0.5; it never changes the value. Hence the extraction
  with an absent classifier, or with one that raises on every value, returns what the
  extraction without validation returns.
\<close>

theorem validator_fail_open:
  "(\<not> (use_ml_validation ex \<and> ml_classifier ex \<noteq> None) \<longrightarrow> ml_gate ex fld v tx = Return v) \<and>
   (ml_classifier ex = Some validate \<and> validate fld v tx = Inl e \<longrightarrow>
      ml_gate ex fld v tx = Return v) \<and>
   (ml_gate ex fld v tx = Continue \<longleftrightarrow>
      use_ml_validation ex \<and>
      (\<exists>vd c. ml_classifier ex = Some vd \<and> vd fld v tx = Inr (False, c) \<and> below_threshold c)) \<and>
   (ml_gate ex fld v tx = Continue \<or> ml_gate ex fld v tx = Return v) \<and>
   (re_search flags_IM p tx = Some m \<and> candidate_value m = Some v0 \<and> v0 \<noteq> [] \<and>
      clean_candidate fld tx v0 = Inr (Return v) \<longrightarrow>
      pattern_verdict ex fld tx p = Inr (ml_gate ex fld v tx)) \<and>
   (\<not> (use_ml_validation ex \<and> ml_classifier ex \<noteq> None) \<longrightarrow>
      extract_field ex tx fld = extract_field default_extractor tx fld) \<and>
   (ml_classifier ex = Some validate \<and> (\<forall>w. \<exists>e. validate fld w tx = Inl e) \<longrightarrow>
      extract_field ex tx fld = extract_field default_extractor tx fld)"
proof -
  have a: "\<not> (use_ml_validation ex \<and> ml_classifier ex \<noteq> None) \<longrightarrow> ml_gate ex fld v tx = Return v"
    using ml_gate_absent [of ex fld v tx] by blast
  have b: "ml_classifier ex = Some validate \<and> validate fld v tx = Inl e \<longrightarrow>
      ml_gate ex fld v tx = Return v"
    using ml_gate_raises [of ex validate fld v tx e] by blast
  have c: "ml_gate ex fld v tx = Continue \<longleftrightarrow>
      use_ml_validation ex \<and>
      (\<exists>vd c. ml_classifier ex = Some vd \<and> vd fld v tx = Inr (False, c) \<and> below_threshold c)"
    by (rule ml_gate_Continue)
  have d: "ml_gate ex fld v tx = Continue \<or> ml_gate ex fld v tx = Return v"
    by (rule ml_gate_cases)
  have e: "re_search flags_IM p tx = Some m \<and> candidate_value m = Some v0 \<and> v0 \<noteq> [] \<and>
      clean_candidate fld tx v0 = Inr (Return v) \<longrightarrow>
      pattern_verdict ex fld tx p = Inr (ml_gate ex fld v tx)"
    by (simp add: pattern_verdict_def)
  have f: "\<not> (use_ml_validation ex \<and> ml_classifier ex \<noteq> None) \<longrightarrow>
      extract_field ex tx fld = extract_field default_extractor tx fld"
  proof
    assume h: "\<not> (use_ml_validation ex \<and> ml_classifier ex \<noteq> None)"
    show "extract_field ex tx fld = extract_field default_extractor tx fld"
      by (rule extract_field_open) (rule ml_gate_absent [OF h])
  qed
  have g: "ml_classifier ex = Some validate \<and> (\<forall>w. \<exists>e. validate fld w tx = Inl e) \<longrightarrow>
      extract_field ex tx fld = extract_field default_extractor tx fld"
  proof
    assume h: "ml_classifier ex = Some validate \<and> (\<forall>w. \<exists>e. validate fld w tx = Inl e)"
    show "extract_field ex tx fld = extract_field default_extractor tx fld"
    proof (rule extract_field_open)
      fix w
      from h obtain e' where "validate fld w tx = Inl e'" by blast
      with h show "ml_gate ex fld w tx = Return w" using ml_gate_raises by blast
    qed
  qed
  from a b c d e f g show ?thesis by (intro conjI)
qed

theorem validator_fail_open_witness:
  "ml_gate \<lparr>use_ml_validation = True, ml_classifier = None\<rparr> ''invoice_number'' (ascii ''42'')
     [8470, 32, 52, 50] = Return (ascii ''42'') \<and>
   ml_gate \<lparr>use_ml_validation = True, ml_classifier = Some (\<lambda>f v t. Inl OtherError)\<rparr>
     ''invoice_number'' (ascii ''42'') [8470, 32, 52, 50] = Return (ascii ''42'') \<and>
   ml_gate \<lparr>use_ml_validation = True, ml_classifier = Some (\<lambda>f v t. Inr (False, Fin (1 / 4)))\<rparr>
     ''invoice_number'' (ascii ''42'') [8470, 32, 52, 50] = Continue \<and>
   ml_gate \<lparr>use_ml_validation = True, ml_classifier = Some (\<lambda>f v t. Inr (False, Fin (1 / 2)))\<rparr>
     ''invoice_number'' (ascii ''42'') [8470, 32, 52, 50] = Return (ascii ''42'') \<and>
   extract_field \<lparr>use_ml_validation = True, ml_classifier = None\<rparr> [8470, 32, 52, 50]
     ''invoice_number'' = extract_field default_extractor [8470, 32, 52, 50] ''invoice_number'' \<and>
   extract_field \<lparr>use_ml_validation = True, ml_classifier = Some (\<lambda>f v t. Inl OtherError)\<rparr>
     [8470, 32, 52, 50] ''invoice_number'' =
     extract_field default_extractor [8470, 32, 52, 50] ''invoice_number''"
proof -
  let ?t = "[8470, 32, 52, 50] :: ustr"
  let ?absent = "\<lparr>use_ml_validation = True, ml_classifier = None\<rparr>"
  let ?raising = "\<lparr>use_ml_validation = True, ml_classifier = Some (\<lambda>f v t. Inl OtherError)\<rparr>"
  let ?reject = "\<lparr>use_ml_validation = True, ml_classifier = Some (\<lambda>f v t. Inr (False, Fin (1 / 4)))\<rparr>"
  let ?unsure = "\<lparr>use_ml_validation = True, ml_classifier = Some (\<lambda>f v t. Inr (False, Fin (1 / 2)))\<rparr>"
  note t1 = validator_fail_open [where ex = ?absent and fld = "''invoice_number''"
      and v = "ascii ''42''" and tx = ?t]
  note t2 = validator_fail_open [where ex = ?raising and fld = "''invoice_number''"
      and v = "ascii ''42''" and tx = ?t and validate = "\<lambda>f v t. Inl OtherError" and e = OtherError]
  note t3 = validator_fail_open [where ex = ?reject and fld = "''invoice_number''"
      and v = "ascii ''42''" and tx = ?t]
  note t4 = validator_fail_open [where ex = ?unsure and fld = "''invoice_number''"
      and v = "ascii ''42''" and tx = ?t]
  have h1: "\<not> (use_ml_validation ?absent \<and> ml_classifier ?absent \<noteq> None)" by simp
  have h2: "ml_classifier ?raising = Some (\<lambda>f v t. Inl OtherError) \<and>
      (\<lambda>f v t. Inl OtherError) ''invoice_number'' (ascii ''42'') ?t = (Inl OtherError :: py_error + bool \<times> pyfloat)"
    by simp
  have h2': "ml_classifier ?raising = Some (\<lambda>f v t. Inl OtherError) \<and>
      (\<forall>w. \<exists>e. (\<lambda>f v t. Inl OtherError) ''invoice_number'' w ?t = (Inl e :: py_error + bool \<times> pyfloat))"
    by simp
  have h3: "use_ml_validation ?reject \<and>
      (\<exists>vd c. ml_classifier ?reject = Some vd \<and> vd ''invoice_number'' (ascii ''42'') ?t = Inr (False, c) \<and>
         below_threshold c)"
  proof (intro conjI exI)
    show "use_ml_validation ?reject" by simp
    show "ml_classifier ?reject = Some (\<lambda>f v t. Inr (False, Fin (1 / 4)))" by simp
    show "(\<lambda>f v t. Inr (False, Fin (1 / 4))) ''invoice_number'' (ascii ''42'') ?t =
      (Inr (False, Fin (1 / 4)) :: py_error + bool \<times> pyfloat)" by simp
    show "below_threshold (Fin (1 / 4))" by (simp add: below_threshold_def)
  qed
  have h4: "\<not> (use_ml_validation ?unsure \<and>
      (\<exists>vd c. ml_classifier ?unsure = Some vd \<and> vd ''invoice_number'' (ascii ''42'') ?t = Inr (False, c) \<and>
         below_threshold c))"
    by (auto simp: below_threshold_def)
  have a: "ml_gate ?absent ''invoice_number'' (ascii ''42'') ?t = Return (ascii ''42'')"
    by (rule t1 [THEN conjunct1, THEN mp, OF h1])
  have b: "ml_gate ?raising ''invoice_number'' (ascii ''42'') ?t = Return (ascii ''42'')"
    by (rule t2 [THEN conjunct2, THEN conjunct1, THEN mp, OF h2])
  have c: "ml_gate ?reject ''invoice_number'' (ascii ''42'') ?t = Continue"
    by (rule t3 [THEN conjunct2, THEN conjunct2, THEN conjunct1, THEN iffD2, OF h3])
  have "ml_gate ?unsure ''invoice_number'' (ascii ''42'') ?t \<noteq> Continue"
    using t4 [THEN conjunct2, THEN conjunct2, THEN conjunct1] h4 by (simp only: simp_thms)
  with t4 [THEN conjunct2, THEN conjunct2, THEN conjunct2, THEN conjunct1]
  have d: "ml_gate ?unsure ''invoice_number'' (ascii ''42'') ?t = Return (ascii ''42'')"
    by (elim disjE) simp_all
  have e: "extract_field ?absent ?t ''invoice_number'' =
      extract_field default_extractor ?t ''invoice_number''"
    by (rule t1 [THEN conjunct2, THEN conjunct2, THEN conjunct2, THEN conjunct2, THEN conjunct2,
          THEN conjunct1, THEN mp, OF h1])
  have f: "extract_field ?raising ?t ''invoice_number'' =
      extract_field default_extractor ?t ''invoice_number''"
    by (rule t2 [THEN conjunct2, THEN conjunct2, THEN conjunct2, THEN conjunct2, THEN conjunct2,
          THEN conjunct2, THEN mp, OF h2'])
  from a b c d e f show ?thesis by (intro conjI)
qed

end
